theory Spec2Isabelle
  imports Main "HOL-Library.Word" "HOL-Library.Monad_Syntax"
begin

unbundle bit_operations_syntax

section \<open>The SFTP packet codec of pkg/sftp (packet.go)\<close>

text \<open>
  A shallow embedding of \<^verbatim>\<open>Godeps/_workspace/src/github.com/pkg/sftp/packet.go\<close>.

  Conventions of the embedding:
  \<^item> a Go \<^verbatim>\<open>[]byte\<close> is a list of 8-bit words; a Go \<^verbatim>\<open>string\<close> is the sequence of its
    bytes, so it is a list of 8-bit words as well (\<^verbatim>\<open>len\<close> counts bytes);
  \<^item> \<^verbatim>\<open>uint32\<close> and \<^verbatim>\<open>uint64\<close> are words, conversions between widths are \<open>ucast\<close>, and
    \<^verbatim>\<open>uint32(len(x))\<close> is \<open>of_nat (length x)\<close>, which wraps modulo \<open>2 ^ 32\<close>;
  \<^item> a Go \<^verbatim>\<open>error\<close> result is an \<open>error option\<close>, \<open>None\<close> being \<^verbatim>\<open>nil\<close>;
  \<^item> a run-time panic (index or slice bound out of range, the \<^verbatim>\<open>panic\<close> call of
    \<^verbatim>\<open>marshal\<close>) is the outer \<open>None\<close> of an \<open>option\<close>: a function that may panic
    returns \<open>Some\<close> of its Go results, or \<open>None\<close>;
  \<^item> a method with a pointer receiver takes the receiver and returns it updated;
  \<^item> a slice has no spare capacity here: \<^verbatim>\<open>b[:n]\<close> panics as soon as \<open>n\<close> exceeds
    \<^verbatim>\<open>len(b)\<close>, and a \<^verbatim>\<open>nil\<close> slice is the empty list. Every buffer that the decoders
    slice has passed a check against its length first; the marshaller of DATA, which
    slices a field of the caller, also has a variant with spare capacity.

  The file also declares the NAME and STATUS responses, which have a marshaller only (the
  one of STATUS calls \<^verbatim>\<open>marshalStatus\<close> of another file), and the method of the server
  that calls \<^verbatim>\<open>sendPacket\<close> under a mutex; they are not part of the embedding.
\<close>

type_synonym byte = "8 word"
type_synonym uint32 = "32 word"
type_synonym uint64 = "64 word"
type_synonym bytes = "byte list"

text \<open>
  The error values that occur: the package variable \<^verbatim>\<open>shortPacketError\<close>, the results of
  the two \<^verbatim>\<open>fmt.Errorf\<close> calls of the file (one with a constant message, one that wraps
  the marshaller's error), and the two errors of \<^verbatim>\<open>io.ReadFull\<close>.
\<close>

datatype error =
    shortPacketError
  | Errorf string
  | Errorf_marshal2 error
  | EOF
  | ErrUnexpectedEOF

subsection \<open>Indexing and slicing\<close>

definition index :: "bytes \<Rightarrow> nat \<Rightarrow> byte option" where
  "index b i = (if i < length b then Some (b ! i) else None)"

definition slice_from :: "bytes \<Rightarrow> nat \<Rightarrow> bytes option" where
  "slice_from b n = (if n \<le> length b then Some (drop n b) else None)"

definition slice_upto :: "bytes \<Rightarrow> nat \<Rightarrow> bytes option" where
  "slice_upto b n = (if n \<le> length b then Some (take n b) else None)"

text \<open>\<^verbatim>\<open>make([]byte, n)\<close> and the built-in \<^verbatim>\<open>copy(dst, src)\<close>, which returns \<open>dst\<close> as it leaves it.\<close>

definition make_bytes :: "nat \<Rightarrow> bytes" where
  "make_bytes n = replicate n 0"

definition copy :: "bytes \<Rightarrow> bytes \<Rightarrow> bytes" where
  "copy dst src = take (length dst) src @ drop (length src) dst"

subsection \<open>Primitive codec\<close>

definition marshalUint32 :: "bytes \<Rightarrow> uint32 \<Rightarrow> bytes" where
  "marshalUint32 b v =
     b @ [ucast (drop_bit 24 v), ucast (drop_bit 16 v), ucast (drop_bit 8 v), ucast v]"

definition marshalUint64 :: "bytes \<Rightarrow> uint64 \<Rightarrow> bytes" where
  "marshalUint64 b v = marshalUint32 (marshalUint32 b (ucast (drop_bit 32 v))) (ucast v)"

definition marshalString :: "bytes \<Rightarrow> bytes \<Rightarrow> bytes" where
  "marshalString b v = marshalUint32 b (of_nat (length v)) @ v"

definition unmarshalUint32 :: "bytes \<Rightarrow> (uint32 \<times> bytes) option" where
  "unmarshalUint32 b =
     do { b3 \<leftarrow> index b 3;
          b2 \<leftarrow> index b 2;
          b1 \<leftarrow> index b 1;
          b0 \<leftarrow> index b 0;
          rest \<leftarrow> slice_from b 4;
          Some (ucast b3 OR push_bit 8 (ucast b2) OR push_bit 16 (ucast b1)
                  OR push_bit 24 (ucast b0), rest) }"

definition unmarshalUint32Safe :: "bytes \<Rightarrow> (uint32 \<times> bytes \<times> error option) option" where
  "unmarshalUint32Safe b =
     (if length b < 4 then Some (0, [], Some shortPacketError)
      else do { (v, b) \<leftarrow> unmarshalUint32 b; Some (v, b, None) })"

definition unmarshalUint64 :: "bytes \<Rightarrow> (uint64 \<times> bytes) option" where
  "unmarshalUint64 b =
     do { (h, b) \<leftarrow> unmarshalUint32 b;
          (l, b) \<leftarrow> unmarshalUint32 b;
          Some (push_bit 32 (ucast h) OR ucast l, b) }"

definition unmarshalUint64Safe :: "bytes \<Rightarrow> (uint64 \<times> bytes \<times> error option) option" where
  "unmarshalUint64Safe b =
     (if length b < 8 then Some (0, [], Some shortPacketError)
      else do { (v, b) \<leftarrow> unmarshalUint64 b; Some (v, b, None) })"

definition unmarshalString :: "bytes \<Rightarrow> (bytes \<times> bytes) option" where
  "unmarshalString b =
     do { (n, b) \<leftarrow> unmarshalUint32 b;
          s \<leftarrow> slice_upto b (unat n);
          rest \<leftarrow> slice_from b (unat n);
          Some (s, rest) }"

text \<open>
  The comparison \<^verbatim>\<open>int64(n) > int64(len(b))\<close> is exact: both operands are below
  \<open>2 ^ 63\<close>, so it is the comparison of the two natural numbers.
\<close>

definition unmarshalStringSafe :: "bytes \<Rightarrow> (bytes \<times> bytes \<times> error option) option" where
  "unmarshalStringSafe b =
     do { (n, b, err) \<leftarrow> unmarshalUint32Safe b;
          if err \<noteq> None then Some ([], [], err)
          else if unat n > length b then Some ([], [], Some shortPacketError)
          else do { s \<leftarrow> slice_upto b (unat n);
                    rest \<leftarrow> slice_from b (unat n);
                    Some (s, rest, None) } }"

subsection \<open>The reflective marshaller\<close>

text \<open>
  The argument of \<^verbatim>\<open>marshal\<close> is an \<^verbatim>\<open>interface{}\<close>. Its values are modelled by the cases
  the function tells apart: \<^verbatim>\<open>nil\<close>, the four basic types of the type switch, an
  \<^verbatim>\<open>os.FileInfo\<close>, and by reflection a struct (the list of its fields) or a slice (the
  list of its elements); \<open>V_other\<close> stands for a value of any other kind, on which
  \<^verbatim>\<open>marshal\<close> panics. A \<^verbatim>\<open>[]byte\<close> is a slice of \<^verbatim>\<open>uint8\<close> elements. In the list of
  the fields of a struct, \<open>V_unexported\<close> stands for a field that is not exported: the
  call of \<^verbatim>\<open>Interface()\<close> on it panics, before \<^verbatim>\<open>marshal\<close> is entered.

  \<^verbatim>\<open>marshalFileInfo\<close> is declared in another file of the package; it is the parameter
  \<open>mfi\<close>.
\<close>

typedecl FileInfo

datatype val =
    V_nil
  | V_uint8 byte
  | V_uint32 uint32
  | V_uint64 uint64
  | V_string bytes
  | V_FileInfo FileInfo
  | V_struct "val list"
  | V_slice "val list"
  | V_unexported
  | V_other

type_synonym marshalFileInfo = "bytes \<Rightarrow> FileInfo \<Rightarrow> bytes option"

fun marshal :: "marshalFileInfo \<Rightarrow> bytes \<Rightarrow> val \<Rightarrow> bytes option"
  and marshal_each :: "marshalFileInfo \<Rightarrow> bytes \<Rightarrow> val list \<Rightarrow> bytes option" where
  "marshal mfi b V_nil = Some b"
| "marshal mfi b (V_uint8 v) = Some (b @ [v])"
| "marshal mfi b (V_uint32 v) = Some (marshalUint32 b v)"
| "marshal mfi b (V_uint64 v) = Some (marshalUint64 b v)"
| "marshal mfi b (V_string v) = Some (marshalString b v)"
| "marshal mfi b (V_FileInfo v) = mfi b v"
| "marshal mfi b (V_struct d) = marshal_each mfi b d"
| "marshal mfi b (V_slice d) = marshal_each mfi b d"
| "marshal mfi b V_unexported = None"
| "marshal mfi b V_other = None"
| "marshal_each mfi b [] = Some b"
| "marshal_each mfi b (x # xs) = do { b \<leftarrow> marshal mfi b x; marshal_each mfi b xs }"

text \<open>A \<^verbatim>\<open>[]byte\<close> stored in an \<^verbatim>\<open>interface{}\<close>, and a string constant as its bytes.\<close>

definition V_bytes :: "bytes \<Rightarrow> val" where
  "V_bytes b = V_slice (map V_uint8 b)"

definition bytes_of :: "string \<Rightarrow> bytes" where
  "bytes_of s = map of_char s"

subsection \<open>Framing\<close>

text \<open>
  The four debug switches are constants of the file, all \<^verbatim>\<open>false\<close>; \<^verbatim>\<open>debug\<close> only logs.
  What remains of a debug branch in the model is the indexing of its arguments.
\<close>

definition debugDumpTxPacket :: bool where "debugDumpTxPacket = False"
definition debugDumpRxPacket :: bool where "debugDumpRxPacket = False"
definition debugDumpTxPacketBytes :: bool where "debugDumpTxPacketBytes = False"
definition debugDumpRxPacketBytes :: bool where "debugDumpRxPacketBytes = False"

definition debug_dump :: "bool \<Rightarrow> bool \<Rightarrow> bytes \<Rightarrow> unit option" where
  "debug_dump dumpBytes dumpPacket bb =
     (if dumpBytes then do { _ \<leftarrow> index bb 0; _ \<leftarrow> slice_from bb 1; Some () }
      else if dumpPacket then do { _ \<leftarrow> index bb 0; Some () }
      else Some ())"

text \<open>
  An \<^verbatim>\<open>io.Writer\<close> is a state \<open>'w\<close> with its \<^verbatim>\<open>Write\<close> method, which returns the new
  state, the count and the error. An \<^verbatim>\<open>encoding.BinaryMarshaler\<close> is a value \<open>'m\<close> with its
  \<^verbatim>\<open>MarshalBinary\<close> method. \<^verbatim>\<open>sendPacket\<close> returns the writer's state and its error.
\<close>

type_synonym 'w Writer = "'w \<Rightarrow> bytes \<Rightarrow> 'w \<times> nat \<times> error option"
type_synonym 'm BinaryMarshaler = "'m \<Rightarrow> (bytes \<times> error option) option"

definition sendPacket ::
  "'w Writer \<Rightarrow> 'w \<Rightarrow> 'm BinaryMarshaler \<Rightarrow> 'm \<Rightarrow> ('w \<times> error option) option" where
  "sendPacket Write w MarshalBinary m =
     do { (bb, err) \<leftarrow> MarshalBinary m;
          if err \<noteq> None then Some (w, Some (Errorf_marshal2 (the err)))
          else do {
            _ \<leftarrow> debug_dump debugDumpTxPacketBytes debugDumpTxPacket bb;
            let l = (of_nat (length bb) :: uint32);
            let hdr = [ucast (drop_bit 24 l), ucast (drop_bit 16 l), ucast (drop_bit 8 l),
                       ucast l :: byte];
            let (w, _, err) = Write w hdr;
            if err \<noteq> None then Some (w, err)
            else do { let (w, _, err) = Write w bb; Some (w, err) } } }"

text \<open>
  A writer that appends to a buffer and never fails (\<^verbatim>\<open>bytes.Buffer\<close>), to observe the
  bytes \<^verbatim>\<open>sendPacket\<close> puts on the stream.
\<close>

definition Buffer_Write :: "bytes Writer" where
  "Buffer_Write w p = (w @ p, length p, None)"

text \<open>
  The reader is an in-memory stream: the bytes not yet read. \<^verbatim>\<open>io.ReadFull(r, buf)\<close> on it
  fills \<^verbatim>\<open>buf\<close> when enough bytes are left; otherwise it reads what is left and returns
  \<^verbatim>\<open>io.EOF\<close> (nothing read) or \<^verbatim>\<open>io.ErrUnexpectedEOF\<close>. With an empty \<^verbatim>\<open>buf\<close> it returns
  at once without error. The result is the buffer, the stream and the error.
\<close>

definition ReadFull :: "bytes \<Rightarrow> bytes \<Rightarrow> bytes \<times> bytes \<times> error option" where
  "ReadFull r buf =
     (if length buf = 0 then (buf, r, None)
      else if length r = 0 then (buf, r, Some EOF)
      else if length r < length buf then (copy buf r, [], Some ErrUnexpectedEOF)
      else (copy buf r, drop (length buf) r, None))"

definition recvPacket :: "bytes \<Rightarrow> ((byte \<times> bytes \<times> error option) \<times> bytes) option" where
  "recvPacket r =
     (let b = [0, 0, 0, 0];
          (b, r, err) = ReadFull r b
      in if err \<noteq> None then Some ((0, [], err), r)
         else do {
           (l, _) \<leftarrow> unmarshalUint32 b;
           let b = make_bytes (unat l);
           let (b, r, err) = ReadFull r b;
           if err \<noteq> None then Some ((0, [], err), r)
           else do {
             _ \<leftarrow> debug_dump debugDumpRxPacketBytes debugDumpRxPacket b;
             tag \<leftarrow> index b 0;
             body \<leftarrow> slice_from b 1;
             Some ((tag, body, None), r) } })"

subsection \<open>Wire type tags\<close>

text \<open>
  The constants \<^verbatim>\<open>ssh_FXP_...\<close> are declared in another file of the package. The
  marshallers take the table of their values as the parameter \<open>T\<close>, so that nothing is
  assumed about the numbers.
\<close>

record tags =
  ssh_FXP_INIT :: byte
  ssh_FXP_VERSION :: byte
  ssh_FXP_OPEN :: byte
  ssh_FXP_CLOSE :: byte
  ssh_FXP_READ :: byte
  ssh_FXP_WRITE :: byte
  ssh_FXP_LSTAT :: byte
  ssh_FXP_FSTAT :: byte
  ssh_FXP_SETSTAT :: byte
  ssh_FXP_FSETSTAT :: byte
  ssh_FXP_OPENDIR :: byte
  ssh_FXP_READDIR :: byte
  ssh_FXP_REMOVE :: byte
  ssh_FXP_MKDIR :: byte
  ssh_FXP_RMDIR :: byte
  ssh_FXP_REALPATH :: byte
  ssh_FXP_STAT :: byte
  ssh_FXP_RENAME :: byte
  ssh_FXP_READLINK :: byte
  ssh_FXP_SYMLINK :: byte
  ssh_FXP_HANDLE :: byte
  ssh_FXP_DATA :: byte
  ssh_FXP_EXTENDED :: byte

text \<open>
  Modelled from the spec: the numeric registry of type tags, which the specification
  names without numbers and the file uses without declaring. The numbers are those of the
  SFTP protocol draft (version 3). The table serves to evaluate examples; the properties
  of the marshallers are proved for every table.
\<close>

definition filexfer_tags :: tags where
  "filexfer_tags =
     \<lparr>ssh_FXP_INIT = 1, ssh_FXP_VERSION = 2, ssh_FXP_OPEN = 3, ssh_FXP_CLOSE = 4,
      ssh_FXP_READ = 5, ssh_FXP_WRITE = 6, ssh_FXP_LSTAT = 7, ssh_FXP_FSTAT = 8,
      ssh_FXP_SETSTAT = 9, ssh_FXP_FSETSTAT = 10, ssh_FXP_OPENDIR = 11, ssh_FXP_READDIR = 12,
      ssh_FXP_REMOVE = 13, ssh_FXP_MKDIR = 14, ssh_FXP_RMDIR = 15, ssh_FXP_REALPATH = 16,
      ssh_FXP_STAT = 17, ssh_FXP_RENAME = 18, ssh_FXP_READLINK = 19, ssh_FXP_SYMLINK = 20,
      ssh_FXP_HANDLE = 102, ssh_FXP_DATA = 103, ssh_FXP_EXTENDED = 200\<rparr>"

subsection \<open>INIT and VERSION\<close>

record ExtensionPair =
  Name :: bytes
  Data :: bytes

definition unmarshalExtensionPair ::
  "bytes \<Rightarrow> (ExtensionPair \<times> bytes \<times> error option) option" where
  "unmarshalExtensionPair b =
     (let ep = \<lparr>Name = [], Data = []\<rparr> in
      do { (v, b, err) \<leftarrow> unmarshalStringSafe b;
           let ep = ep\<lparr>Name := v\<rparr>;
           if err \<noteq> None then Some (ep, b, err)
           else do { (v, b, err) \<leftarrow> unmarshalStringSafe b;
                     let ep = ep\<lparr>Data := v\<rparr>;
                     if err \<noteq> None then Some (ep, b, err)
                     else Some (ep, b, err) } })"

record sshFxInitPacket =
  Version :: uint32
  Extensions :: "ExtensionPair list"

text \<open>
  The two loops over \<^verbatim>\<open>p.Extensions\<close>: the one that adds up \<open>l\<close> and the one that
  appends the pairs. Lengths are Go \<^verbatim>\<open>int\<close>s, 64 bits wide and far from overflow for
  anything that fits in memory; they are integers here.
\<close>

fun Extensions_len :: "int \<Rightarrow> ExtensionPair list \<Rightarrow> int" where
  "Extensions_len l [] = l"
| "Extensions_len l (e # es) =
     Extensions_len (l + (4 + int (length (Name e)) + 4 + int (length (Data e)))) es"

fun Extensions_marshal :: "bytes \<Rightarrow> ExtensionPair list \<Rightarrow> bytes" where
  "Extensions_marshal b [] = b"
| "Extensions_marshal b (e # es) =
     Extensions_marshal (marshalString (marshalString b (Name e)) (Data e)) es"

definition sshFxInitPacket_MarshalBinary_l :: "sshFxInitPacket \<Rightarrow> int" where
  "sshFxInitPacket_MarshalBinary_l p = Extensions_len (1 + 4) (Extensions p)"

definition sshFxInitPacket_MarshalBinary :: "tags \<Rightarrow> sshFxInitPacket \<Rightarrow> bytes \<times> error option" where
  "sshFxInitPacket_MarshalBinary T p =
     (let b = [];
          b = b @ [ssh_FXP_INIT T];
          b = marshalUint32 b (Version p);
          b = Extensions_marshal b (Extensions p)
      in (b, None))"

function sshFxInitPacket_UnmarshalBinary_loop ::
  "sshFxInitPacket \<Rightarrow> bytes \<Rightarrow> (sshFxInitPacket \<times> error option) option" where
  "sshFxInitPacket_UnmarshalBinary_loop p b =
     (if length b > 0 then
        (case unmarshalExtensionPair b of
           None \<Rightarrow> None
         | Some (ep, b', err) \<Rightarrow>
             if err \<noteq> None then Some (p, err)
             else sshFxInitPacket_UnmarshalBinary_loop
                    (p\<lparr>Extensions := Extensions p @ [ep]\<rparr>) b')
      else Some (p, None))"
  by pat_completeness auto
termination
  by (relation "measure (\<lambda>(p, b). length b)")
    (auto simp add: unmarshalExtensionPair_def unmarshalStringSafe_def unmarshalUint32Safe_def
      unmarshalUint32_def index_def slice_from_def slice_upto_def Let_def
      split: if_splits prod.splits Option.bind_splits)

declare sshFxInitPacket_UnmarshalBinary_loop.simps [simp del]

definition sshFxInitPacket_UnmarshalBinary ::
  "sshFxInitPacket \<Rightarrow> bytes \<Rightarrow> (sshFxInitPacket \<times> error option) option" where
  "sshFxInitPacket_UnmarshalBinary p b =
     do { (v, b, err) \<leftarrow> unmarshalUint32Safe b;
          let p = p\<lparr>Version := v\<rparr>;
          if err \<noteq> None then Some (p, err)
          else sshFxInitPacket_UnmarshalBinary_loop p b }"

text \<open>
  The extensions of a VERSION packet are values of an anonymous struct with the same two
  string fields as \<^verbatim>\<open>ExtensionPair\<close>; the record is shared.
\<close>

record sshFxVersionPacket =
  Version :: uint32
  Extensions :: "ExtensionPair list"

definition sshFxVersionPacket_MarshalBinary_l :: "sshFxVersionPacket \<Rightarrow> int" where
  "sshFxVersionPacket_MarshalBinary_l p =
     Extensions_len (1 + 4) (sshFxVersionPacket.Extensions p)"

definition sshFxVersionPacket_MarshalBinary ::
  "tags \<Rightarrow> sshFxVersionPacket \<Rightarrow> bytes \<times> error option" where
  "sshFxVersionPacket_MarshalBinary T p =
     (let b = [];
          b = b @ [ssh_FXP_VERSION T];
          b = marshalUint32 b (sshFxVersionPacket.Version p);
          b = Extensions_marshal b (sshFxVersionPacket.Extensions p)
      in (b, None))"

subsection \<open>Packets of an id and one string\<close>

definition marshalIdString_l :: "bytes \<Rightarrow> int" where
  "marshalIdString_l str = 1 + 4 + 4 + int (length str)"

definition marshalIdString :: "byte \<Rightarrow> uint32 \<Rightarrow> bytes \<Rightarrow> bytes \<times> error option" where
  "marshalIdString packetType id' str =
     (let b = [];
          b = b @ [packetType];
          b = marshalUint32 b id';
          b = marshalString b str
      in (b, None))"

text \<open>
  \<^verbatim>\<open>unmarshalIdString\<close> writes through its two pointers: it takes the values they point to
  and returns them as it leaves them, with the error.
\<close>

definition unmarshalIdString ::
  "bytes \<Rightarrow> uint32 \<Rightarrow> bytes \<Rightarrow> (uint32 \<times> bytes \<times> error option) option" where
  "unmarshalIdString b id' str =
     do { (v, b, err) \<leftarrow> unmarshalUint32Safe b;
          let id' = v;
          if err \<noteq> None then Some (id', str, err)
          else do { (v, b, err) \<leftarrow> unmarshalStringSafe b;
                    let str = v;
                    if err \<noteq> None then Some (id', str, err)
                    else Some (id', str, None) } }"

record sshFxpReaddirPacket =
  Id :: uint32
  Handle :: bytes

definition sshFxpReaddirPacket_MarshalBinary :: "tags \<Rightarrow> sshFxpReaddirPacket \<Rightarrow> bytes \<times> error option" where
  "sshFxpReaddirPacket_MarshalBinary T p = marshalIdString (ssh_FXP_READDIR T) (sshFxpReaddirPacket.Id p) (sshFxpReaddirPacket.Handle p)"

definition sshFxpReaddirPacket_UnmarshalBinary ::
  "sshFxpReaddirPacket \<Rightarrow> bytes \<Rightarrow> (sshFxpReaddirPacket \<times> error option) option" where
  "sshFxpReaddirPacket_UnmarshalBinary p b =
     do { (id', str, err) \<leftarrow> unmarshalIdString b (sshFxpReaddirPacket.Id p) (sshFxpReaddirPacket.Handle p);
          Some (p\<lparr>sshFxpReaddirPacket.Id := id', sshFxpReaddirPacket.Handle := str\<rparr>, err) }"

record sshFxpOpendirPacket =
  Id :: uint32
  Path :: bytes

definition sshFxpOpendirPacket_MarshalBinary :: "tags \<Rightarrow> sshFxpOpendirPacket \<Rightarrow> bytes \<times> error option" where
  "sshFxpOpendirPacket_MarshalBinary T p = marshalIdString (ssh_FXP_OPENDIR T) (sshFxpOpendirPacket.Id p) (sshFxpOpendirPacket.Path p)"

definition sshFxpOpendirPacket_UnmarshalBinary ::
  "sshFxpOpendirPacket \<Rightarrow> bytes \<Rightarrow> (sshFxpOpendirPacket \<times> error option) option" where
  "sshFxpOpendirPacket_UnmarshalBinary p b =
     do { (id', str, err) \<leftarrow> unmarshalIdString b (sshFxpOpendirPacket.Id p) (sshFxpOpendirPacket.Path p);
          Some (p\<lparr>sshFxpOpendirPacket.Id := id', sshFxpOpendirPacket.Path := str\<rparr>, err) }"

record sshFxpLstatPacket =
  Id :: uint32
  Path :: bytes

definition sshFxpLstatPacket_MarshalBinary :: "tags \<Rightarrow> sshFxpLstatPacket \<Rightarrow> bytes \<times> error option" where
  "sshFxpLstatPacket_MarshalBinary T p = marshalIdString (ssh_FXP_LSTAT T) (sshFxpLstatPacket.Id p) (sshFxpLstatPacket.Path p)"

definition sshFxpLstatPacket_UnmarshalBinary ::
  "sshFxpLstatPacket \<Rightarrow> bytes \<Rightarrow> (sshFxpLstatPacket \<times> error option) option" where
  "sshFxpLstatPacket_UnmarshalBinary p b =
     do { (id', str, err) \<leftarrow> unmarshalIdString b (sshFxpLstatPacket.Id p) (sshFxpLstatPacket.Path p);
          Some (p\<lparr>sshFxpLstatPacket.Id := id', sshFxpLstatPacket.Path := str\<rparr>, err) }"

record sshFxpStatPacket =
  Id :: uint32
  Path :: bytes

definition sshFxpStatPacket_MarshalBinary :: "tags \<Rightarrow> sshFxpStatPacket \<Rightarrow> bytes \<times> error option" where
  "sshFxpStatPacket_MarshalBinary T p = marshalIdString (ssh_FXP_LSTAT T) (sshFxpStatPacket.Id p) (sshFxpStatPacket.Path p)"

definition sshFxpStatPacket_UnmarshalBinary ::
  "sshFxpStatPacket \<Rightarrow> bytes \<Rightarrow> (sshFxpStatPacket \<times> error option) option" where
  "sshFxpStatPacket_UnmarshalBinary p b =
     do { (id', str, err) \<leftarrow> unmarshalIdString b (sshFxpStatPacket.Id p) (sshFxpStatPacket.Path p);
          Some (p\<lparr>sshFxpStatPacket.Id := id', sshFxpStatPacket.Path := str\<rparr>, err) }"

record sshFxpFstatPacket =
  Id :: uint32
  Handle :: bytes

definition sshFxpFstatPacket_MarshalBinary :: "tags \<Rightarrow> sshFxpFstatPacket \<Rightarrow> bytes \<times> error option" where
  "sshFxpFstatPacket_MarshalBinary T p = marshalIdString (ssh_FXP_FSTAT T) (sshFxpFstatPacket.Id p) (sshFxpFstatPacket.Handle p)"

definition sshFxpFstatPacket_UnmarshalBinary ::
  "sshFxpFstatPacket \<Rightarrow> bytes \<Rightarrow> (sshFxpFstatPacket \<times> error option) option" where
  "sshFxpFstatPacket_UnmarshalBinary p b =
     do { (id', str, err) \<leftarrow> unmarshalIdString b (sshFxpFstatPacket.Id p) (sshFxpFstatPacket.Handle p);
          Some (p\<lparr>sshFxpFstatPacket.Id := id', sshFxpFstatPacket.Handle := str\<rparr>, err) }"

record sshFxpClosePacket =
  Id :: uint32
  Handle :: bytes

definition sshFxpClosePacket_MarshalBinary :: "tags \<Rightarrow> sshFxpClosePacket \<Rightarrow> bytes \<times> error option" where
  "sshFxpClosePacket_MarshalBinary T p = marshalIdString (ssh_FXP_CLOSE T) (sshFxpClosePacket.Id p) (sshFxpClosePacket.Handle p)"

definition sshFxpClosePacket_UnmarshalBinary ::
  "sshFxpClosePacket \<Rightarrow> bytes \<Rightarrow> (sshFxpClosePacket \<times> error option) option" where
  "sshFxpClosePacket_UnmarshalBinary p b =
     do { (id', str, err) \<leftarrow> unmarshalIdString b (sshFxpClosePacket.Id p) (sshFxpClosePacket.Handle p);
          Some (p\<lparr>sshFxpClosePacket.Id := id', sshFxpClosePacket.Handle := str\<rparr>, err) }"

record sshFxpRemovePacket =
  Id :: uint32
  Filename :: bytes

definition sshFxpRemovePacket_MarshalBinary :: "tags \<Rightarrow> sshFxpRemovePacket \<Rightarrow> bytes \<times> error option" where
  "sshFxpRemovePacket_MarshalBinary T p = marshalIdString (ssh_FXP_REMOVE T) (sshFxpRemovePacket.Id p) (sshFxpRemovePacket.Filename p)"

definition sshFxpRemovePacket_UnmarshalBinary ::
  "sshFxpRemovePacket \<Rightarrow> bytes \<Rightarrow> (sshFxpRemovePacket \<times> error option) option" where
  "sshFxpRemovePacket_UnmarshalBinary p b =
     do { (id', str, err) \<leftarrow> unmarshalIdString b (sshFxpRemovePacket.Id p) (sshFxpRemovePacket.Filename p);
          Some (p\<lparr>sshFxpRemovePacket.Id := id', sshFxpRemovePacket.Filename := str\<rparr>, err) }"

record sshFxpRmdirPacket =
  Id :: uint32
  Path :: bytes

definition sshFxpRmdirPacket_MarshalBinary :: "tags \<Rightarrow> sshFxpRmdirPacket \<Rightarrow> bytes \<times> error option" where
  "sshFxpRmdirPacket_MarshalBinary T p = marshalIdString (ssh_FXP_RMDIR T) (sshFxpRmdirPacket.Id p) (sshFxpRmdirPacket.Path p)"

definition sshFxpRmdirPacket_UnmarshalBinary ::
  "sshFxpRmdirPacket \<Rightarrow> bytes \<Rightarrow> (sshFxpRmdirPacket \<times> error option) option" where
  "sshFxpRmdirPacket_UnmarshalBinary p b =
     do { (id', str, err) \<leftarrow> unmarshalIdString b (sshFxpRmdirPacket.Id p) (sshFxpRmdirPacket.Path p);
          Some (p\<lparr>sshFxpRmdirPacket.Id := id', sshFxpRmdirPacket.Path := str\<rparr>, err) }"

subsection \<open>SYMLINK, READLINK, REALPATH\<close>

record sshFxpSymlinkPacket =
  Id :: uint32
  Targetpath :: bytes
  Linkpath :: bytes

definition sshFxpSymlinkPacket_MarshalBinary_l :: "sshFxpSymlinkPacket \<Rightarrow> int" where
  "sshFxpSymlinkPacket_MarshalBinary_l p = 1 + 4 + 4 + int (length (sshFxpSymlinkPacket.Targetpath p)) + 4 + int (length (sshFxpSymlinkPacket.Linkpath p))"

definition sshFxpSymlinkPacket_MarshalBinary :: "tags \<Rightarrow> sshFxpSymlinkPacket \<Rightarrow> bytes \<times> error option" where
  "sshFxpSymlinkPacket_MarshalBinary T p =
     (let b = [];
          b = b @ [ssh_FXP_SYMLINK T];
          b = marshalUint32 b (sshFxpSymlinkPacket.Id p);
          b = marshalString b (sshFxpSymlinkPacket.Targetpath p);
          b = marshalString b (sshFxpSymlinkPacket.Linkpath p)
      in (b, None))"

definition sshFxpSymlinkPacket_UnmarshalBinary ::
  "sshFxpSymlinkPacket \<Rightarrow> bytes \<Rightarrow> (sshFxpSymlinkPacket \<times> error option) option" where
  "sshFxpSymlinkPacket_UnmarshalBinary p b =
     do { (v, b, err) \<leftarrow> unmarshalUint32Safe b;
          let p = p\<lparr>sshFxpSymlinkPacket.Id := v\<rparr>;
          if err \<noteq> None then Some (p, err) else
     do { (v, b, err) \<leftarrow> unmarshalStringSafe b;
          let p = p\<lparr>sshFxpSymlinkPacket.Targetpath := v\<rparr>;
          if err \<noteq> None then Some (p, err) else
     do { (v, b, err) \<leftarrow> unmarshalStringSafe b;
          let p = p\<lparr>sshFxpSymlinkPacket.Linkpath := v\<rparr>;
          if err \<noteq> None then Some (p, err) else
          Some (p, None) } } }"

record sshFxpReadlinkPacket =
  Id :: uint32
  Path :: bytes

definition sshFxpReadlinkPacket_MarshalBinary :: "tags \<Rightarrow> sshFxpReadlinkPacket \<Rightarrow> bytes \<times> error option" where
  "sshFxpReadlinkPacket_MarshalBinary T p = marshalIdString (ssh_FXP_READLINK T) (sshFxpReadlinkPacket.Id p) (sshFxpReadlinkPacket.Path p)"

definition sshFxpReadlinkPacket_UnmarshalBinary ::
  "sshFxpReadlinkPacket \<Rightarrow> bytes \<Rightarrow> (sshFxpReadlinkPacket \<times> error option) option" where
  "sshFxpReadlinkPacket_UnmarshalBinary p b =
     do { (id', str, err) \<leftarrow> unmarshalIdString b (sshFxpReadlinkPacket.Id p) (sshFxpReadlinkPacket.Path p);
          Some (p\<lparr>sshFxpReadlinkPacket.Id := id', sshFxpReadlinkPacket.Path := str\<rparr>, err) }"

record sshFxpRealpathPacket =
  Id :: uint32
  Path :: bytes

definition sshFxpRealpathPacket_MarshalBinary :: "tags \<Rightarrow> sshFxpRealpathPacket \<Rightarrow> bytes \<times> error option" where
  "sshFxpRealpathPacket_MarshalBinary T p = marshalIdString (ssh_FXP_READLINK T) (sshFxpRealpathPacket.Id p) (sshFxpRealpathPacket.Path p)"

definition sshFxpRealpathPacket_UnmarshalBinary ::
  "sshFxpRealpathPacket \<Rightarrow> bytes \<Rightarrow> (sshFxpRealpathPacket \<times> error option) option" where
  "sshFxpRealpathPacket_UnmarshalBinary p b =
     do { (id', str, err) \<leftarrow> unmarshalIdString b (sshFxpRealpathPacket.Id p) (sshFxpRealpathPacket.Path p);
          Some (p\<lparr>sshFxpRealpathPacket.Id := id', sshFxpRealpathPacket.Path := str\<rparr>, err) }"

subsection \<open>OPEN, READ, RENAME, WRITE, MKDIR\<close>

record sshFxpOpenPacket =
  Id :: uint32
  Path :: bytes
  Pflags :: uint32
  Flags :: uint32

definition sshFxpOpenPacket_MarshalBinary_l :: "sshFxpOpenPacket \<Rightarrow> int" where
  "sshFxpOpenPacket_MarshalBinary_l p = 1 + 4 + 4 + int (length (sshFxpOpenPacket.Path p)) + 4 + 4"

definition sshFxpOpenPacket_MarshalBinary :: "tags \<Rightarrow> sshFxpOpenPacket \<Rightarrow> bytes \<times> error option" where
  "sshFxpOpenPacket_MarshalBinary T p =
     (let b = [];
          b = b @ [ssh_FXP_OPEN T];
          b = marshalUint32 b (sshFxpOpenPacket.Id p);
          b = marshalString b (sshFxpOpenPacket.Path p);
          b = marshalUint32 b (sshFxpOpenPacket.Pflags p);
          b = marshalUint32 b (sshFxpOpenPacket.Flags p)
      in (b, None))"

definition sshFxpOpenPacket_UnmarshalBinary ::
  "sshFxpOpenPacket \<Rightarrow> bytes \<Rightarrow> (sshFxpOpenPacket \<times> error option) option" where
  "sshFxpOpenPacket_UnmarshalBinary p b =
     do { (v, b, err) \<leftarrow> unmarshalUint32Safe b;
          let p = p\<lparr>sshFxpOpenPacket.Id := v\<rparr>;
          if err \<noteq> None then Some (p, err) else
     do { (v, b, err) \<leftarrow> unmarshalStringSafe b;
          let p = p\<lparr>sshFxpOpenPacket.Path := v\<rparr>;
          if err \<noteq> None then Some (p, err) else
     do { (v, b, err) \<leftarrow> unmarshalUint32Safe b;
          let p = p\<lparr>sshFxpOpenPacket.Pflags := v\<rparr>;
          if err \<noteq> None then Some (p, err) else
     do { (v, b, err) \<leftarrow> unmarshalUint32Safe b;
          let p = p\<lparr>sshFxpOpenPacket.Flags := v\<rparr>;
          if err \<noteq> None then Some (p, err) else
          Some (p, None) } } } }"

record sshFxpReadPacket =
  Id :: uint32
  Handle :: bytes
  Offset :: uint64
  Len :: uint32

definition sshFxpReadPacket_MarshalBinary_l :: "sshFxpReadPacket \<Rightarrow> int" where
  "sshFxpReadPacket_MarshalBinary_l p = 1 + 4 + 4 + int (length (sshFxpReadPacket.Handle p)) + 8 + 4"

definition sshFxpReadPacket_MarshalBinary :: "tags \<Rightarrow> sshFxpReadPacket \<Rightarrow> bytes \<times> error option" where
  "sshFxpReadPacket_MarshalBinary T p =
     (let b = [];
          b = b @ [ssh_FXP_READ T];
          b = marshalUint32 b (sshFxpReadPacket.Id p);
          b = marshalString b (sshFxpReadPacket.Handle p);
          b = marshalUint64 b (sshFxpReadPacket.Offset p);
          b = marshalUint32 b (sshFxpReadPacket.Len p)
      in (b, None))"

definition sshFxpReadPacket_UnmarshalBinary ::
  "sshFxpReadPacket \<Rightarrow> bytes \<Rightarrow> (sshFxpReadPacket \<times> error option) option" where
  "sshFxpReadPacket_UnmarshalBinary p b =
     do { (v, b, err) \<leftarrow> unmarshalUint32Safe b;
          let p = p\<lparr>sshFxpReadPacket.Id := v\<rparr>;
          if err \<noteq> None then Some (p, err) else
     do { (v, b, err) \<leftarrow> unmarshalStringSafe b;
          let p = p\<lparr>sshFxpReadPacket.Handle := v\<rparr>;
          if err \<noteq> None then Some (p, err) else
     do { (v, b, err) \<leftarrow> unmarshalUint64Safe b;
          let p = p\<lparr>sshFxpReadPacket.Offset := v\<rparr>;
          if err \<noteq> None then Some (p, err) else
     do { (v, b, err) \<leftarrow> unmarshalUint32Safe b;
          let p = p\<lparr>sshFxpReadPacket.Len := v\<rparr>;
          if err \<noteq> None then Some (p, err) else
          Some (p, None) } } } }"

record sshFxpRenamePacket =
  Id :: uint32
  Oldpath :: bytes
  Newpath :: bytes

definition sshFxpRenamePacket_MarshalBinary_l :: "sshFxpRenamePacket \<Rightarrow> int" where
  "sshFxpRenamePacket_MarshalBinary_l p = 1 + 4 + 4 + int (length (sshFxpRenamePacket.Oldpath p)) + 4 + int (length (sshFxpRenamePacket.Newpath p))"

definition sshFxpRenamePacket_MarshalBinary :: "tags \<Rightarrow> sshFxpRenamePacket \<Rightarrow> bytes \<times> error option" where
  "sshFxpRenamePacket_MarshalBinary T p =
     (let b = [];
          b = b @ [ssh_FXP_RENAME T];
          b = marshalUint32 b (sshFxpRenamePacket.Id p);
          b = marshalString b (sshFxpRenamePacket.Oldpath p);
          b = marshalString b (sshFxpRenamePacket.Newpath p)
      in (b, None))"

definition sshFxpRenamePacket_UnmarshalBinary ::
  "sshFxpRenamePacket \<Rightarrow> bytes \<Rightarrow> (sshFxpRenamePacket \<times> error option) option" where
  "sshFxpRenamePacket_UnmarshalBinary p b =
     do { (v, b, err) \<leftarrow> unmarshalUint32Safe b;
          let p = p\<lparr>sshFxpRenamePacket.Id := v\<rparr>;
          if err \<noteq> None then Some (p, err) else
     do { (v, b, err) \<leftarrow> unmarshalStringSafe b;
          let p = p\<lparr>sshFxpRenamePacket.Oldpath := v\<rparr>;
          if err \<noteq> None then Some (p, err) else
     do { (v, b, err) \<leftarrow> unmarshalStringSafe b;
          let p = p\<lparr>sshFxpRenamePacket.Newpath := v\<rparr>;
          if err \<noteq> None then Some (p, err) else
          Some (p, None) } } }"

record sshFxpWritePacket =
  Id :: uint32
  Handle :: bytes
  Offset :: uint64
  Length :: uint32
  Data :: bytes

definition sshFxpWritePacket_MarshalBinary_l :: "sshFxpWritePacket \<Rightarrow> int" where
  "sshFxpWritePacket_MarshalBinary_l p = 1 + 4 + 4 + int (length (sshFxpWritePacket.Handle p)) + 8 + 4 + int (length (sshFxpWritePacket.Data p))"

definition sshFxpWritePacket_MarshalBinary :: "tags \<Rightarrow> sshFxpWritePacket \<Rightarrow> bytes \<times> error option" where
  "sshFxpWritePacket_MarshalBinary T p =
     (let b = [];
          b = b @ [ssh_FXP_WRITE T];
          b = marshalUint32 b (sshFxpWritePacket.Id p);
          b = marshalString b (sshFxpWritePacket.Handle p);
          b = marshalUint64 b (sshFxpWritePacket.Offset p);
          b = marshalUint32 b (sshFxpWritePacket.Length p);
          b = b @ sshFxpWritePacket.Data p
      in (b, None))"

text \<open>
  In the guard, \<^verbatim>\<open>uint32(len(b))\<close> is the length of the rest modulo \<open>2 ^ 32\<close>.
\<close>

definition sshFxpWritePacket_UnmarshalBinary ::
  "sshFxpWritePacket \<Rightarrow> bytes \<Rightarrow> (sshFxpWritePacket \<times> error option) option" where
  "sshFxpWritePacket_UnmarshalBinary p b =
     do { (v, b, err) \<leftarrow> unmarshalUint32Safe b;
          let p = p\<lparr>sshFxpWritePacket.Id := v\<rparr>;
          if err \<noteq> None then Some (p, err) else
     do { (v, b, err) \<leftarrow> unmarshalStringSafe b;
          let p = p\<lparr>sshFxpWritePacket.Handle := v\<rparr>;
          if err \<noteq> None then Some (p, err) else
     do { (v, b, err) \<leftarrow> unmarshalUint64Safe b;
          let p = p\<lparr>sshFxpWritePacket.Offset := v\<rparr>;
          if err \<noteq> None then Some (p, err) else
     do { (v, b, err) \<leftarrow> unmarshalUint32Safe b;
          let p = p\<lparr>sshFxpWritePacket.Length := v\<rparr>;
          if err \<noteq> None then Some (p, err) else
          if (of_nat (length b) :: uint32) < sshFxpWritePacket.Length p then Some (p, Some shortPacketError)
          else do { d \<leftarrow> slice_upto b (unat (sshFxpWritePacket.Length p));
                    Some (p\<lparr>sshFxpWritePacket.Data := [] @ d\<rparr>, None) } } } } }"

record sshFxpMkdirPacket =
  Id :: uint32
  Path :: bytes
  Flags :: uint32

definition sshFxpMkdirPacket_MarshalBinary_l :: "sshFxpMkdirPacket \<Rightarrow> int" where
  "sshFxpMkdirPacket_MarshalBinary_l p = 1 + 4 + 4 + int (length (sshFxpMkdirPacket.Path p)) + 4"

definition sshFxpMkdirPacket_MarshalBinary :: "tags \<Rightarrow> sshFxpMkdirPacket \<Rightarrow> bytes \<times> error option" where
  "sshFxpMkdirPacket_MarshalBinary T p =
     (let b = [];
          b = b @ [ssh_FXP_MKDIR T];
          b = marshalUint32 b (sshFxpMkdirPacket.Id p);
          b = marshalString b (sshFxpMkdirPacket.Path p);
          b = marshalUint32 b (sshFxpMkdirPacket.Flags p)
      in (b, None))"

definition sshFxpMkdirPacket_UnmarshalBinary ::
  "sshFxpMkdirPacket \<Rightarrow> bytes \<Rightarrow> (sshFxpMkdirPacket \<times> error option) option" where
  "sshFxpMkdirPacket_UnmarshalBinary p b =
     do { (v, b, err) \<leftarrow> unmarshalUint32Safe b;
          let p = p\<lparr>sshFxpMkdirPacket.Id := v\<rparr>;
          if err \<noteq> None then Some (p, err) else
     do { (v, b, err) \<leftarrow> unmarshalStringSafe b;
          let p = p\<lparr>sshFxpMkdirPacket.Path := v\<rparr>;
          if err \<noteq> None then Some (p, err) else
     do { (v, b, err) \<leftarrow> unmarshalUint32Safe b;
          let p = p\<lparr>sshFxpMkdirPacket.Flags := v\<rparr>;
          if err \<noteq> None then Some (p, err) else
          Some (p, None) } } }"

subsection \<open>SETSTAT and FSETSTAT\<close>

record sshFxpSetstatPacket =
  Id :: uint32
  Path :: bytes
  Flags :: uint32
  Attrs :: val

definition sshFxpSetstatPacket_MarshalBinary_l :: "sshFxpSetstatPacket \<Rightarrow> int" where
  "sshFxpSetstatPacket_MarshalBinary_l p = 1 + 4 + 4 + int (length (sshFxpSetstatPacket.Path p)) + 4"

definition sshFxpSetstatPacket_MarshalBinary ::
  "tags \<Rightarrow> marshalFileInfo \<Rightarrow> sshFxpSetstatPacket \<Rightarrow> (bytes \<times> error option) option" where
  "sshFxpSetstatPacket_MarshalBinary T mfi p =
     (let b = [];
          b = b @ [ssh_FXP_SETSTAT T];
          b = marshalUint32 b (sshFxpSetstatPacket.Id p);
          b = marshalString b (sshFxpSetstatPacket.Path p);
          b = marshalUint32 b (sshFxpSetstatPacket.Flags p)
      in do { b \<leftarrow> marshal mfi b (sshFxpSetstatPacket.Attrs p); Some (b, None) })"

definition sshFxpSetstatPacket_UnmarshalBinary ::
  "sshFxpSetstatPacket \<Rightarrow> bytes \<Rightarrow> (sshFxpSetstatPacket \<times> error option) option" where
  "sshFxpSetstatPacket_UnmarshalBinary p b =
     do { (v, b, err) \<leftarrow> unmarshalUint32Safe b;
          let p = p\<lparr>sshFxpSetstatPacket.Id := v\<rparr>;
          if err \<noteq> None then Some (p, err) else
     do { (v, b, err) \<leftarrow> unmarshalStringSafe b;
          let p = p\<lparr>sshFxpSetstatPacket.Path := v\<rparr>;
          if err \<noteq> None then Some (p, err) else
     do { (v, b, err) \<leftarrow> unmarshalUint32Safe b;
          let p = p\<lparr>sshFxpSetstatPacket.Flags := v\<rparr>;
          if err \<noteq> None then Some (p, err) else
          Some (p\<lparr>sshFxpSetstatPacket.Attrs := V_bytes b\<rparr>, None) } } }"

record sshFxpFsetstatPacket =
  Id :: uint32
  Handle :: bytes
  Flags :: uint32
  Attrs :: val

definition sshFxpFsetstatPacket_MarshalBinary_l :: "sshFxpFsetstatPacket \<Rightarrow> int" where
  "sshFxpFsetstatPacket_MarshalBinary_l p = 1 + 4 + 4 + int (length (sshFxpFsetstatPacket.Handle p)) + 4"

definition sshFxpFsetstatPacket_MarshalBinary ::
  "tags \<Rightarrow> marshalFileInfo \<Rightarrow> sshFxpFsetstatPacket \<Rightarrow> (bytes \<times> error option) option" where
  "sshFxpFsetstatPacket_MarshalBinary T mfi p =
     (let b = [];
          b = b @ [ssh_FXP_FSETSTAT T];
          b = marshalUint32 b (sshFxpFsetstatPacket.Id p);
          b = marshalString b (sshFxpFsetstatPacket.Handle p);
          b = marshalUint32 b (sshFxpFsetstatPacket.Flags p)
      in do { b \<leftarrow> marshal mfi b (sshFxpFsetstatPacket.Attrs p); Some (b, None) })"

definition sshFxpFsetstatPacket_UnmarshalBinary ::
  "sshFxpFsetstatPacket \<Rightarrow> bytes \<Rightarrow> (sshFxpFsetstatPacket \<times> error option) option" where
  "sshFxpFsetstatPacket_UnmarshalBinary p b =
     do { (v, b, err) \<leftarrow> unmarshalUint32Safe b;
          let p = p\<lparr>sshFxpFsetstatPacket.Id := v\<rparr>;
          if err \<noteq> None then Some (p, err) else
     do { (v, b, err) \<leftarrow> unmarshalStringSafe b;
          let p = p\<lparr>sshFxpFsetstatPacket.Handle := v\<rparr>;
          if err \<noteq> None then Some (p, err) else
     do { (v, b, err) \<leftarrow> unmarshalUint32Safe b;
          let p = p\<lparr>sshFxpFsetstatPacket.Flags := v\<rparr>;
          if err \<noteq> None then Some (p, err) else
          Some (p\<lparr>sshFxpFsetstatPacket.Attrs := V_bytes b\<rparr>, None) } } }"

subsection \<open>HANDLE, DATA and the statvfs request\<close>

record sshFxpHandlePacket =
  Id :: uint32
  Handle :: bytes

definition sshFxpHandlePacket_MarshalBinary ::
  "tags \<Rightarrow> sshFxpHandlePacket \<Rightarrow> bytes \<times> error option" where
  "sshFxpHandlePacket_MarshalBinary T p =
     (let b = [ssh_FXP_HANDLE T];
          b = marshalUint32 b (sshFxpHandlePacket.Id p);
          b = marshalString b (sshFxpHandlePacket.Handle p)
      in (b, None))"

record sshFxpDataPacket =
  Id :: uint32
  Length :: uint32
  Data :: bytes

definition sshFxpDataPacket_MarshalBinary ::
  "tags \<Rightarrow> sshFxpDataPacket \<Rightarrow> (bytes \<times> error option) option" where
  "sshFxpDataPacket_MarshalBinary T p =
     (let b = [ssh_FXP_DATA T];
          b = marshalUint32 b (sshFxpDataPacket.Id p);
          b = marshalUint32 b (sshFxpDataPacket.Length p)
      in do { d \<leftarrow> slice_upto (sshFxpDataPacket.Data p) (unat (sshFxpDataPacket.Length p));
              Some (b @ d, None) })"

text \<open>
  The bound of \<^verbatim>\<open>p.Data[:p.Length]\<close> is the capacity of the slice. The definition above is
  for a slice without spare capacity. The one below takes the bytes of the backing array
  that lie between the length and the capacity of \<^verbatim>\<open>p.Data\<close>: with a \<^verbatim>\<open>Length\<close> beyond the
  length and within the capacity, the code sends those bytes. The two agree whenever
  \<^verbatim>\<open>Length\<close> is at most the length of \<^verbatim>\<open>Data\<close>.
\<close>

definition sshFxpDataPacket_MarshalBinary_cap ::
  "tags \<Rightarrow> bytes \<Rightarrow> sshFxpDataPacket \<Rightarrow> (bytes \<times> error option) option" where
  "sshFxpDataPacket_MarshalBinary_cap T spare p =
     (let b = [ssh_FXP_DATA T];
          b = marshalUint32 b (sshFxpDataPacket.Id p);
          b = marshalUint32 b (sshFxpDataPacket.Length p)
      in do { d \<leftarrow> slice_upto (sshFxpDataPacket.Data p @ spare) (unat (sshFxpDataPacket.Length p));
              Some (b @ d, None) })"

definition sshFxpDataPacket_UnmarshalBinary ::
  "sshFxpDataPacket \<Rightarrow> bytes \<Rightarrow> (sshFxpDataPacket \<times> error option) option" where
  "sshFxpDataPacket_UnmarshalBinary p b =
     do { (v, b, err) \<leftarrow> unmarshalUint32Safe b;
          let p = p\<lparr>sshFxpDataPacket.Id := v\<rparr>;
          if err \<noteq> None then Some (p, err) else
     do { (v, b, err) \<leftarrow> unmarshalUint32Safe b;
          let p = p\<lparr>sshFxpDataPacket.Length := v\<rparr>;
          if err \<noteq> None then Some (p, err) else
          if (of_nat (length b) :: uint32) < sshFxpDataPacket.Length p
          then Some (p, Some (Errorf ''truncated packet''))
          else Some (p\<lparr>sshFxpDataPacket.Data :=
                          copy (make_bytes (unat (sshFxpDataPacket.Length p))) b\<rparr>, None) } }"

record sshFxpStatvfsPacket =
  Id :: uint32
  Path :: bytes

definition sshFxpStatvfsPacket_MarshalBinary_l :: "sshFxpStatvfsPacket \<Rightarrow> int" where
  "sshFxpStatvfsPacket_MarshalBinary_l p =
     1 + 4 + int (length (sshFxpStatvfsPacket.Path p))
       + int (length (bytes_of ''statvfs@openssh.com''))"

definition sshFxpStatvfsPacket_MarshalBinary ::
  "tags \<Rightarrow> sshFxpStatvfsPacket \<Rightarrow> bytes \<times> error option" where
  "sshFxpStatvfsPacket_MarshalBinary T p =
     (let b = [];
          b = b @ [ssh_FXP_EXTENDED T];
          b = marshalUint32 b (sshFxpStatvfsPacket.Id p);
          b = marshalString b (bytes_of ''statvfs@openssh.com'');
          b = marshalString b (sshFxpStatvfsPacket.Path p)
      in (b, None))"

subsection \<open>The kinds with both methods\<close>

text \<open>
  The kinds that implement both \<^verbatim>\<open>encoding.BinaryMarshaler\<close> and
  \<^verbatim>\<open>encoding.BinaryUnmarshaler\<close>, as one type: a method call on a value of an interface
  type runs the method of its dynamic type.
\<close>

datatype packet =
    P_Init sshFxInitPacket
  | P_Readdir sshFxpReaddirPacket
  | P_Opendir sshFxpOpendirPacket
  | P_Lstat sshFxpLstatPacket
  | P_Stat sshFxpStatPacket
  | P_Fstat sshFxpFstatPacket
  | P_Close sshFxpClosePacket
  | P_Remove sshFxpRemovePacket
  | P_Rmdir sshFxpRmdirPacket
  | P_Symlink sshFxpSymlinkPacket
  | P_Readlink sshFxpReadlinkPacket
  | P_Realpath sshFxpRealpathPacket
  | P_Open sshFxpOpenPacket
  | P_Read sshFxpReadPacket
  | P_Rename sshFxpRenamePacket
  | P_Write sshFxpWritePacket
  | P_Mkdir sshFxpMkdirPacket
  | P_Setstat sshFxpSetstatPacket
  | P_Fsetstat sshFxpFsetstatPacket
  | P_Data sshFxpDataPacket

fun MarshalBinary :: "tags \<Rightarrow> marshalFileInfo \<Rightarrow> packet \<Rightarrow> (bytes \<times> error option) option" where
  "MarshalBinary T mfi (P_Init p) = Some (sshFxInitPacket_MarshalBinary T p)"
| "MarshalBinary T mfi (P_Readdir p) = Some (sshFxpReaddirPacket_MarshalBinary T p)"
| "MarshalBinary T mfi (P_Opendir p) = Some (sshFxpOpendirPacket_MarshalBinary T p)"
| "MarshalBinary T mfi (P_Lstat p) = Some (sshFxpLstatPacket_MarshalBinary T p)"
| "MarshalBinary T mfi (P_Stat p) = Some (sshFxpStatPacket_MarshalBinary T p)"
| "MarshalBinary T mfi (P_Fstat p) = Some (sshFxpFstatPacket_MarshalBinary T p)"
| "MarshalBinary T mfi (P_Close p) = Some (sshFxpClosePacket_MarshalBinary T p)"
| "MarshalBinary T mfi (P_Remove p) = Some (sshFxpRemovePacket_MarshalBinary T p)"
| "MarshalBinary T mfi (P_Rmdir p) = Some (sshFxpRmdirPacket_MarshalBinary T p)"
| "MarshalBinary T mfi (P_Symlink p) = Some (sshFxpSymlinkPacket_MarshalBinary T p)"
| "MarshalBinary T mfi (P_Readlink p) = Some (sshFxpReadlinkPacket_MarshalBinary T p)"
| "MarshalBinary T mfi (P_Realpath p) = Some (sshFxpRealpathPacket_MarshalBinary T p)"
| "MarshalBinary T mfi (P_Open p) = Some (sshFxpOpenPacket_MarshalBinary T p)"
| "MarshalBinary T mfi (P_Read p) = Some (sshFxpReadPacket_MarshalBinary T p)"
| "MarshalBinary T mfi (P_Rename p) = Some (sshFxpRenamePacket_MarshalBinary T p)"
| "MarshalBinary T mfi (P_Write p) = Some (sshFxpWritePacket_MarshalBinary T p)"
| "MarshalBinary T mfi (P_Mkdir p) = Some (sshFxpMkdirPacket_MarshalBinary T p)"
| "MarshalBinary T mfi (P_Setstat p) = sshFxpSetstatPacket_MarshalBinary T mfi p"
| "MarshalBinary T mfi (P_Fsetstat p) = sshFxpFsetstatPacket_MarshalBinary T mfi p"
| "MarshalBinary T mfi (P_Data p) = sshFxpDataPacket_MarshalBinary T p"

fun UnmarshalBinary :: "packet \<Rightarrow> bytes \<Rightarrow> (packet \<times> error option) option" where
  "UnmarshalBinary (P_Init p) b = map_option (apfst P_Init) (sshFxInitPacket_UnmarshalBinary p b)"
| "UnmarshalBinary (P_Readdir p) b = map_option (apfst P_Readdir) (sshFxpReaddirPacket_UnmarshalBinary p b)"
| "UnmarshalBinary (P_Opendir p) b = map_option (apfst P_Opendir) (sshFxpOpendirPacket_UnmarshalBinary p b)"
| "UnmarshalBinary (P_Lstat p) b = map_option (apfst P_Lstat) (sshFxpLstatPacket_UnmarshalBinary p b)"
| "UnmarshalBinary (P_Stat p) b = map_option (apfst P_Stat) (sshFxpStatPacket_UnmarshalBinary p b)"
| "UnmarshalBinary (P_Fstat p) b = map_option (apfst P_Fstat) (sshFxpFstatPacket_UnmarshalBinary p b)"
| "UnmarshalBinary (P_Close p) b = map_option (apfst P_Close) (sshFxpClosePacket_UnmarshalBinary p b)"
| "UnmarshalBinary (P_Remove p) b = map_option (apfst P_Remove) (sshFxpRemovePacket_UnmarshalBinary p b)"
| "UnmarshalBinary (P_Rmdir p) b = map_option (apfst P_Rmdir) (sshFxpRmdirPacket_UnmarshalBinary p b)"
| "UnmarshalBinary (P_Symlink p) b = map_option (apfst P_Symlink) (sshFxpSymlinkPacket_UnmarshalBinary p b)"
| "UnmarshalBinary (P_Readlink p) b = map_option (apfst P_Readlink) (sshFxpReadlinkPacket_UnmarshalBinary p b)"
| "UnmarshalBinary (P_Realpath p) b = map_option (apfst P_Realpath) (sshFxpRealpathPacket_UnmarshalBinary p b)"
| "UnmarshalBinary (P_Open p) b = map_option (apfst P_Open) (sshFxpOpenPacket_UnmarshalBinary p b)"
| "UnmarshalBinary (P_Read p) b = map_option (apfst P_Read) (sshFxpReadPacket_UnmarshalBinary p b)"
| "UnmarshalBinary (P_Rename p) b = map_option (apfst P_Rename) (sshFxpRenamePacket_UnmarshalBinary p b)"
| "UnmarshalBinary (P_Write p) b = map_option (apfst P_Write) (sshFxpWritePacket_UnmarshalBinary p b)"
| "UnmarshalBinary (P_Mkdir p) b = map_option (apfst P_Mkdir) (sshFxpMkdirPacket_UnmarshalBinary p b)"
| "UnmarshalBinary (P_Setstat p) b = map_option (apfst P_Setstat) (sshFxpSetstatPacket_UnmarshalBinary p b)"
| "UnmarshalBinary (P_Fsetstat p) b = map_option (apfst P_Fsetstat) (sshFxpFsetstatPacket_UnmarshalBinary p b)"
| "UnmarshalBinary (P_Data p) b = map_option (apfst P_Data) (sshFxpDataPacket_UnmarshalBinary p b)"

text \<open>The zero value of a packet's struct type: the receiver a decode starts from.\<close>

fun zero_value :: "packet \<Rightarrow> packet" where
  "zero_value (P_Init p) = P_Init \<lparr>sshFxInitPacket.Version = 0, Extensions = []\<rparr>"
| "zero_value (P_Readdir p) = P_Readdir \<lparr>sshFxpReaddirPacket.Id = 0, Handle = []\<rparr>"
| "zero_value (P_Opendir p) = P_Opendir \<lparr>sshFxpOpendirPacket.Id = 0, Path = []\<rparr>"
| "zero_value (P_Lstat p) = P_Lstat \<lparr>sshFxpLstatPacket.Id = 0, Path = []\<rparr>"
| "zero_value (P_Stat p) = P_Stat \<lparr>sshFxpStatPacket.Id = 0, Path = []\<rparr>"
| "zero_value (P_Fstat p) = P_Fstat \<lparr>sshFxpFstatPacket.Id = 0, Handle = []\<rparr>"
| "zero_value (P_Close p) = P_Close \<lparr>sshFxpClosePacket.Id = 0, Handle = []\<rparr>"
| "zero_value (P_Remove p) = P_Remove \<lparr>sshFxpRemovePacket.Id = 0, Filename = []\<rparr>"
| "zero_value (P_Rmdir p) = P_Rmdir \<lparr>sshFxpRmdirPacket.Id = 0, Path = []\<rparr>"
| "zero_value (P_Symlink p) = P_Symlink \<lparr>sshFxpSymlinkPacket.Id = 0, Targetpath = [], Linkpath = []\<rparr>"
| "zero_value (P_Readlink p) = P_Readlink \<lparr>sshFxpReadlinkPacket.Id = 0, Path = []\<rparr>"
| "zero_value (P_Realpath p) = P_Realpath \<lparr>sshFxpRealpathPacket.Id = 0, Path = []\<rparr>"
| "zero_value (P_Open p) = P_Open \<lparr>sshFxpOpenPacket.Id = 0, Path = [], Pflags = 0, Flags = 0\<rparr>"
| "zero_value (P_Read p) = P_Read \<lparr>sshFxpReadPacket.Id = 0, Handle = [], Offset = 0, Len = 0\<rparr>"
| "zero_value (P_Rename p) = P_Rename \<lparr>sshFxpRenamePacket.Id = 0, Oldpath = [], Newpath = []\<rparr>"
| "zero_value (P_Write p) = P_Write \<lparr>sshFxpWritePacket.Id = 0, Handle = [], Offset = 0, Length = 0, Data = []\<rparr>"
| "zero_value (P_Mkdir p) = P_Mkdir \<lparr>sshFxpMkdirPacket.Id = 0, Path = [], Flags = 0\<rparr>"
| "zero_value (P_Setstat p) = P_Setstat \<lparr>sshFxpSetstatPacket.Id = 0, Path = [], Flags = 0, Attrs = V_nil\<rparr>"
| "zero_value (P_Fsetstat p) = P_Fsetstat \<lparr>sshFxpFsetstatPacket.Id = 0, Handle = [], Flags = 0, Attrs = V_nil\<rparr>"
| "zero_value (P_Data p) = P_Data \<lparr>sshFxpDataPacket.Id = 0, Length = 0, Data = []\<rparr>"

text \<open>
  The packets whose fields the wire format can carry: every string is shorter than
  \<open>2 ^ 32\<close> bytes (its length is sent as a \<^verbatim>\<open>uint32\<close>), the \<^verbatim>\<open>Length\<close> of a WRITE or
  DATA packet is the length of its \<^verbatim>\<open>Data\<close>, and the \<^verbatim>\<open>Attrs\<close> of a SETSTAT or FSETSTAT
  packet are a \<^verbatim>\<open>[]byte\<close>, which is what their decoders store.
\<close>

fun is_uint8 :: "val \<Rightarrow> bool" where
  "is_uint8 (V_uint8 v) = True"
| "is_uint8 v = False"

fun is_bytes :: "val \<Rightarrow> bool" where
  "is_bytes (V_slice d) = list_all is_uint8 d"
| "is_bytes v = False"

fun representable :: "packet \<Rightarrow> bool" where
  "representable (P_Init p) =
     (list_all (\<lambda>e. length (ExtensionPair.Name e) < 2 ^ 32 \<and> length (ExtensionPair.Data e) < 2 ^ 32)
        (sshFxInitPacket.Extensions p))"
| "representable (P_Readdir p) =
     (length (sshFxpReaddirPacket.Handle p) < 2 ^ 32)"
| "representable (P_Opendir p) =
     (length (sshFxpOpendirPacket.Path p) < 2 ^ 32)"
| "representable (P_Lstat p) =
     (length (sshFxpLstatPacket.Path p) < 2 ^ 32)"
| "representable (P_Stat p) =
     (length (sshFxpStatPacket.Path p) < 2 ^ 32)"
| "representable (P_Fstat p) =
     (length (sshFxpFstatPacket.Handle p) < 2 ^ 32)"
| "representable (P_Close p) =
     (length (sshFxpClosePacket.Handle p) < 2 ^ 32)"
| "representable (P_Remove p) =
     (length (sshFxpRemovePacket.Filename p) < 2 ^ 32)"
| "representable (P_Rmdir p) =
     (length (sshFxpRmdirPacket.Path p) < 2 ^ 32)"
| "representable (P_Symlink p) =
     (length (sshFxpSymlinkPacket.Targetpath p) < 2 ^ 32 \<and> length (sshFxpSymlinkPacket.Linkpath p) < 2 ^ 32)"
| "representable (P_Readlink p) =
     (length (sshFxpReadlinkPacket.Path p) < 2 ^ 32)"
| "representable (P_Realpath p) =
     (length (sshFxpRealpathPacket.Path p) < 2 ^ 32)"
| "representable (P_Open p) =
     (length (sshFxpOpenPacket.Path p) < 2 ^ 32)"
| "representable (P_Read p) =
     (length (sshFxpReadPacket.Handle p) < 2 ^ 32)"
| "representable (P_Rename p) =
     (length (sshFxpRenamePacket.Oldpath p) < 2 ^ 32 \<and> length (sshFxpRenamePacket.Newpath p) < 2 ^ 32)"
| "representable (P_Write p) =
     (length (sshFxpWritePacket.Handle p) < 2 ^ 32 \<and>
        unat (sshFxpWritePacket.Length p) = length (sshFxpWritePacket.Data p))"
| "representable (P_Mkdir p) =
     (length (sshFxpMkdirPacket.Path p) < 2 ^ 32)"
| "representable (P_Setstat p) =
     (length (sshFxpSetstatPacket.Path p) < 2 ^ 32 \<and> is_bytes (sshFxpSetstatPacket.Attrs p))"
| "representable (P_Fsetstat p) =
     (length (sshFxpFsetstatPacket.Handle p) < 2 ^ 32 \<and> is_bytes (sshFxpFsetstatPacket.Attrs p))"
| "representable (P_Data p) =
     (unat (sshFxpDataPacket.Length p) = length (sshFxpDataPacket.Data p))"

text \<open>
  The kinds whose fields have a fixed layout; the decoders of the other three consume
  the buffer to its end.
\<close>

fun fixed_layout :: "packet \<Rightarrow> bool" where
  "fixed_layout (P_Init p) = False"
| "fixed_layout (P_Setstat p) = False"
| "fixed_layout (P_Fsetstat p) = False"
| "fixed_layout p = True"

text \<open>The two kinds with a declared length of the data that follow.\<close>

fun declares_length :: "packet \<Rightarrow> bool" where
  "declares_length (P_Write p) = True"
| "declares_length (P_Data p) = True"
| "declares_length p = False"

subsection \<open>StatVFS\<close>

record StatVFS =
  Id :: uint32
  Bsize :: uint64
  Frsize :: uint64
  Blocks :: uint64
  Bfree :: uint64
  Bavail :: uint64
  Files :: uint64
  Ffree :: uint64
  Favail :: uint64
  Fsid :: uint64
  Flag :: uint64
  Namemax :: uint64

definition TotalSpace :: "StatVFS \<Rightarrow> uint64" where
  "TotalSpace p = Frsize p * Blocks p"

definition FreeSpace :: "StatVFS \<Rightarrow> uint64" where
  "FreeSpace p = Frsize p * Bfree p"

section \<open>Properties of the primitive codec\<close>

lemma marshalUint32_append: "marshalUint32 b v = b @ marshalUint32 [] v"
  by (simp add: marshalUint32_def)

lemma marshalUint64_append: "marshalUint64 b v = b @ marshalUint64 [] v"
  by (simp add: marshalUint64_def marshalUint32_def)

lemma marshalString_append: "marshalString b v = b @ marshalString [] v"
  by (simp add: marshalString_def marshalUint32_def)

lemma length_marshalUint32 [simp]: "length (marshalUint32 b v) = length b + 4"
  by (simp add: marshalUint32_def)

lemma length_marshalUint64 [simp]: "length (marshalUint64 b v) = length b + 8"
  by (simp add: marshalUint64_def)

lemma length_marshalString [simp]: "length (marshalString b v) = length b + 4 + length v"
  by (simp add: marshalString_def)

lemma be32_join:
  "ucast (ucast v :: byte) OR push_bit 8 (ucast (ucast (drop_bit 8 v) :: byte))
     OR push_bit 16 (ucast (ucast (drop_bit 16 v) :: byte))
     OR push_bit 24 (ucast (ucast (drop_bit 24 v) :: byte)) = (v :: uint32)"
proof (rule bit_word_eqI)
  fix n assume "n < LENGTH(32)"
  then show "bit (ucast (ucast v :: byte) OR push_bit 8 (ucast (ucast (drop_bit 8 v) :: byte))
     OR push_bit 16 (ucast (ucast (drop_bit 16 v) :: byte))
     OR push_bit 24 (ucast (ucast (drop_bit 24 v) :: byte)) :: uint32) n = bit v n"
    by (cases "n < 8"; cases "n < 16"; cases "n < 24") (auto simp add: bit_simps)
qed

lemma be64_join:
  "push_bit 32 (ucast (ucast (drop_bit 32 v) :: uint32)) OR ucast (ucast v :: uint32) = (v :: uint64)"
  by (rule bit_word_eqI) (auto simp: bit_simps)

lemma be32_split:
  fixes b0 b1 b2 b3 :: byte
  defines "v \<equiv> (ucast b3 OR push_bit 8 (ucast b2) OR push_bit 16 (ucast b1)
                   OR push_bit 24 (ucast b0) :: uint32)"
  shows "ucast (drop_bit 24 v) = b0" "ucast (drop_bit 16 v) = b1"
        "ucast (drop_bit 8 v) = b2" "ucast v = b3"
  unfolding v_def
  by (rule bit_word_eqI; auto simp: bit_simps dest: bit_imp_le_length)+

lemma be64_split:
  fixes h l :: uint32
  defines "v \<equiv> (push_bit 32 (ucast h) OR ucast l :: uint64)"
  shows "ucast (drop_bit 32 v) = h" "ucast v = l"
  unfolding v_def
  by (rule bit_word_eqI; auto simp: bit_simps dest: bit_imp_le_length)+

text \<open>The unchecked decoder on a buffer of at least four bytes.\<close>

lemma unmarshalUint32_long:
  assumes "4 \<le> length b"
  shows "\<exists>v. unmarshalUint32 b = Some (v, drop 4 b) \<and> marshalUint32 [] v = take 4 b"
proof -
  from assms obtain b0 b1 b2 b3 r where b: "b = b0 # b1 # b2 # b3 # r"
    by (auto simp add: eval_nat_numeral Suc_le_length_iff)
  define v :: uint32
    where "v = ucast b3 OR push_bit 8 (ucast b2) OR push_bit 16 (ucast b1) OR push_bit 24 (ucast b0)"
  have v: "ucast (drop_bit 24 v) = b0" "ucast (drop_bit 16 v) = b1"
    "ucast (drop_bit 8 v) = b2" "ucast v = b3"
    unfolding v_def by (rule be32_split)+
  have "unmarshalUint32 b = Some (v, drop 4 b)"
    unfolding b by (simp add: unmarshalUint32_def index_def slice_from_def v_def)
  moreover have "marshalUint32 [] v = take 4 b"
    unfolding b by (simp add: marshalUint32_def v)
  ultimately show ?thesis by blast
qed

lemma unmarshalUint32_short: "length b < 4 \<Longrightarrow> unmarshalUint32 b = None"
  by (cases "length b \<le> 3") (auto simp add: unmarshalUint32_def index_def)

lemma unmarshalUint32_marshal [simp]:
  "unmarshalUint32 (marshalUint32 [] v @ r) = Some (v, r)"
  by (simp add: unmarshalUint32_def index_def slice_from_def marshalUint32_def be32_join)

lemma unmarshalUint32Safe_marshal [simp]:
  "unmarshalUint32Safe (marshalUint32 [] v @ r) = Some (v, r, None)"
  by (simp add: unmarshalUint32Safe_def)

lemma unmarshalUint32Safe_short:
  "length b < 4 \<Longrightarrow> unmarshalUint32Safe b = Some (0, [], Some shortPacketError)"
  by (simp add: unmarshalUint32Safe_def)

lemma unmarshalUint32Safe_long:
  assumes "4 \<le> length b"
  shows "\<exists>v. unmarshalUint32Safe b = Some (v, drop 4 b, None) \<and> marshalUint32 [] v = take 4 b"
  using unmarshalUint32_long [OF assms] assms by (auto simp add: unmarshalUint32Safe_def)

lemma unmarshalUint64_marshal [simp]:
  "unmarshalUint64 (marshalUint64 [] v @ r) = Some (v, r)"
proof -
  have "marshalUint64 [] v @ r
      = marshalUint32 [] (ucast (drop_bit 32 v)) @ marshalUint32 [] (ucast v) @ r"
    by (simp add: marshalUint64_def marshalUint32_def)
  then show ?thesis
    by (simp add: unmarshalUint64_def be64_join)
qed

lemma unmarshalUint64Safe_marshal [simp]:
  "unmarshalUint64Safe (marshalUint64 [] v @ r) = Some (v, r, None)"
  by (simp add: unmarshalUint64Safe_def)

lemma unmarshalUint64Safe_short:
  "length b < 8 \<Longrightarrow> unmarshalUint64Safe b = Some (0, [], Some shortPacketError)"
  by (simp add: unmarshalUint64Safe_def)

lemma unmarshalUint64Safe_long:
  assumes "8 \<le> length b"
  shows "\<exists>v. unmarshalUint64Safe b = Some (v, drop 8 b, None) \<and> marshalUint64 [] v = take 8 b"
proof -
  from assms have "4 \<le> length b" by simp
  from unmarshalUint32_long [OF this] obtain h
    where h: "unmarshalUint32 b = Some (h, drop 4 b)" "marshalUint32 [] h = take 4 b"
    by blast
  from assms have "4 \<le> length (drop 4 b)" by simp
  from unmarshalUint32_long [OF this] obtain l
    where l: "unmarshalUint32 (drop 4 b) = Some (l, drop 8 b)"
      "marshalUint32 [] l = take 4 (drop 4 b)"
    by auto
  define v :: uint64 where "v = push_bit 32 (ucast h) OR ucast l"
  have v: "ucast (drop_bit 32 v) = h" "ucast v = l"
    unfolding v_def by (rule be64_split)+
  have "(4::nat) + 4 = 8" by simp
  with take_add [of 4 4 b] have t: "take 8 b = take 4 b @ take 4 (drop 4 b)"
    by (simp only:)
  have "marshalUint64 [] v = marshalUint32 [] h @ marshalUint32 [] l"
    unfolding marshalUint64_def v by (rule marshalUint32_append)
  also have "\<dots> = take 8 b"
    by (simp only: h l t)
  finally have m: "marshalUint64 [] v = take 8 b" .
  have "unmarshalUint64Safe b = Some (v, drop 8 b, None)"
    using h(1) l(1) assms by (simp add: unmarshalUint64Safe_def unmarshalUint64_def v_def)
  with m show ?thesis by blast
qed

lemma unmarshalStringSafe_marshal [simp]:
  assumes "length s < 2 ^ 32"
  shows "unmarshalStringSafe (marshalString [] s @ r) = Some (s, r, None)"
proof -
  have "unat (of_nat (length s) :: uint32) = length s"
    using assms by (simp add: unat_of_nat)
  moreover have "marshalString [] s @ r = marshalUint32 [] (of_nat (length s)) @ s @ r"
    by (simp add: marshalString_def)
  ultimately show ?thesis
    by (simp add: unmarshalStringSafe_def slice_upto_def slice_from_def)
qed

lemma unmarshalStringSafe_short:
  "length b < 4 \<Longrightarrow> unmarshalStringSafe b = Some ([], [], Some shortPacketError)"
  by (simp add: unmarshalStringSafe_def unmarshalUint32Safe_def)

lemma unmarshalStringSafe_long:
  assumes "4 \<le> length b"
  shows "\<exists>n. marshalUint32 [] n = take 4 b \<and>
           unmarshalStringSafe b =
             (if length b - 4 < unat n then Some ([], [], Some shortPacketError)
              else Some (take (unat n) (drop 4 b), drop (4 + unat n) b, None))"
proof -
  from unmarshalUint32Safe_long [OF assms] obtain n
    where n: "unmarshalUint32Safe b = Some (n, drop 4 b, None)" "marshalUint32 [] n = take 4 b"
    by blast
  then show ?thesis
    by (auto simp add: unmarshalStringSafe_def slice_upto_def slice_from_def add.commute)
qed

section \<open>Claims about the primitive codec and StatVFS\<close>

text \<open>
  Claim C3. On every buffer each checked decode primitive returns normally, without an
  out-of-range access (the result is never the panic \<open>None\<close>): it yields
  \<^verbatim>\<open>shortPacketError\<close> when the buffer is shorter than the field, and otherwise consumes
  exactly the bytes of the field. \<^verbatim>\<open>unmarshalUint32Safe\<close> fails below 4 bytes and otherwise
  consumes 4; \<^verbatim>\<open>unmarshalUint64Safe\<close> fails below 8 bytes and otherwise consumes 8;
  \<^verbatim>\<open>unmarshalStringSafe\<close> fails below 4 bytes or when the declared length \<open>n\<close> exceeds the
  bytes that remain after the length, and otherwise consumes \<open>4 + n\<close> bytes.
\<close>

theorem checked_decode_primitives:
  "(length b < 4 \<longrightarrow> unmarshalUint32Safe b = Some (0, [], Some shortPacketError)) \<and>
   (4 \<le> length b \<longrightarrow>
      (\<exists>v. unmarshalUint32Safe b = Some (v, drop 4 b, None) \<and> marshalUint32 [] v = take 4 b)) \<and>
   (length b < 8 \<longrightarrow> unmarshalUint64Safe b = Some (0, [], Some shortPacketError)) \<and>
   (8 \<le> length b \<longrightarrow>
      (\<exists>v. unmarshalUint64Safe b = Some (v, drop 8 b, None) \<and> marshalUint64 [] v = take 8 b)) \<and>
   (length b < 4 \<longrightarrow> unmarshalStringSafe b = Some ([], [], Some shortPacketError)) \<and>
   (4 \<le> length b \<longrightarrow>
      (\<exists>n. marshalUint32 [] n = take 4 b \<and>
         unmarshalStringSafe b =
           (if length b - 4 < unat n then Some ([], [], Some shortPacketError)
            else Some (take (unat n) (drop 4 b), drop (4 + unat n) b, None))))"
  by (intro conjI impI; erule unmarshalUint32Safe_short unmarshalUint32Safe_long
      unmarshalUint64Safe_short unmarshalUint64Safe_long
      unmarshalStringSafe_short unmarshalStringSafe_long)

theorem checked_decode_primitives_witness:
  "unmarshalUint32Safe [0, 0, 0, 1, 5, 6] = Some (1, [5, 6], None) \<and>
   unmarshalUint64Safe [0, 0, 0, 1, 5, 6] = Some (0, [], Some shortPacketError) \<and>
   unmarshalStringSafe [0, 0, 0, 1, 5, 6] = Some ([5], [6], None) \<and>
   unmarshalStringSafe [0, 0, 0, 3, 5, 6] = Some ([], [], Some shortPacketError) \<and>
   unmarshalUint64Safe [0, 0, 0, 0, 0, 0, 1, 2, 9] = Some (258, [9], None) \<and>
   unmarshalUint32Safe [7] = Some (0, [], Some shortPacketError) \<and>
   unmarshalStringSafe [7] = Some ([], [], Some shortPacketError)"
  using checked_decode_primitives [of "[0, 0, 0, 1, 5, 6]"]
    checked_decode_primitives [of "[0, 0, 0, 3, 5, 6]"]
    checked_decode_primitives [of "[0, 0, 0, 0, 0, 0, 1, 2, 9]"]
    checked_decode_primitives [of "[7]"]
  by (simp add: unmarshalUint32Safe_def unmarshalUint64Safe_def unmarshalStringSafe_def
      unmarshalUint32_def unmarshalUint64_def index_def slice_from_def slice_upto_def)

text \<open>
  Claim C8. \<^verbatim>\<open>TotalSpace\<close> is \<^verbatim>\<open>Frsize * Blocks\<close> and \<^verbatim>\<open>FreeSpace\<close> is \<^verbatim>\<open>Frsize * Bfree\<close> in
  64-bit unsigned arithmetic (the product of the field values modulo \<open>2 ^ 64\<close>); the
  results do not change when any other field of the struct changes.
\<close>

theorem StatVFS_accessors:
  "TotalSpace p = Frsize p * Blocks p \<and>
   FreeSpace p = Frsize p * Bfree p \<and>
   unat (TotalSpace p) = (unat (Frsize p) * unat (Blocks p)) mod 2 ^ 64 \<and>
   unat (FreeSpace p) = (unat (Frsize p) * unat (Bfree p)) mod 2 ^ 64 \<and>
   TotalSpace (p\<lparr>StatVFS.Id := i, Bsize := bs, Bfree := bf, Bavail := ba, Files := fs, Ffree := ff,
                 Favail := fa, Fsid := fi, Flag := fl, Namemax := nm\<rparr>) = TotalSpace p \<and>
   FreeSpace (p\<lparr>StatVFS.Id := i, Bsize := bs, Blocks := bl, Bavail := ba, Files := fs, Ffree := ff,
                Favail := fa, Fsid := fi, Flag := fl, Namemax := nm\<rparr>) = FreeSpace p"
  by (simp add: TotalSpace_def FreeSpace_def unat_word_ariths)

section \<open>Claims about the packet catalog\<close>

text \<open>
  Claim C1 asks that a STAT and an LSTAT request never start with the same type byte, and
  likewise a REALPATH and a READLINK request. The code does the opposite:
  \<^verbatim>\<open>sshFxpStatPacket.MarshalBinary\<close> passes \<^verbatim>\<open>ssh_FXP_LSTAT\<close> and
  \<^verbatim>\<open>sshFxpRealpathPacket.MarshalBinary\<close> passes \<^verbatim>\<open>ssh_FXP_READLINK\<close>. Whatever the values
  of the tag constants, a STAT request and an LSTAT request with the same id and path
  encode to the same bytes, both starting with the LSTAT tag, and a REALPATH request
  encodes as the READLINK request with the same id and path.
\<close>

theorem stat_lstat_share_tag:
  "fst (sshFxpStatPacket_MarshalBinary T \<lparr>sshFxpStatPacket.Id = i, Path = s\<rparr>) =
     fst (sshFxpLstatPacket_MarshalBinary T \<lparr>sshFxpLstatPacket.Id = i, Path = s\<rparr>) \<and>
   hd (fst (sshFxpStatPacket_MarshalBinary T p)) = ssh_FXP_LSTAT T \<and>
   hd (fst (sshFxpLstatPacket_MarshalBinary T q)) = ssh_FXP_LSTAT T \<and>
   fst (sshFxpRealpathPacket_MarshalBinary T \<lparr>sshFxpRealpathPacket.Id = i, Path = s\<rparr>) =
     fst (sshFxpReadlinkPacket_MarshalBinary T \<lparr>sshFxpReadlinkPacket.Id = i, Path = s\<rparr>) \<and>
   hd (fst (sshFxpRealpathPacket_MarshalBinary T p')) = ssh_FXP_READLINK T \<and>
   hd (fst (sshFxpReadlinkPacket_MarshalBinary T q')) = ssh_FXP_READLINK T"
  by (simp add: sshFxpStatPacket_MarshalBinary_def sshFxpLstatPacket_MarshalBinary_def
      sshFxpRealpathPacket_MarshalBinary_def sshFxpReadlinkPacket_MarshalBinary_def
      marshalIdString_def marshalUint32_def marshalString_def)

subsection \<open>The decoders of WRITE and DATA return on every buffer\<close>

lemma unmarshalUint32Safe_total:
  "\<exists>v r e. unmarshalUint32Safe b = Some (v, r, e) \<and> (e = None \<or> e = Some shortPacketError)"
  using unmarshalUint32Safe_short [of b] unmarshalUint32Safe_long [of b]
  by (cases "length b < 4") auto

lemma unmarshalUint64Safe_total:
  "\<exists>v r e. unmarshalUint64Safe b = Some (v, r, e) \<and> (e = None \<or> e = Some shortPacketError)"
  using unmarshalUint64Safe_short [of b] unmarshalUint64Safe_long [of b]
  by (cases "length b < 8") auto

lemma unmarshalStringSafe_total:
  "\<exists>v r e. unmarshalStringSafe b = Some (v, r, e) \<and> (e = None \<or> e = Some shortPacketError)"
  using unmarshalStringSafe_short [of b] unmarshalStringSafe_long [of b]
  by (cases "length b < 4") auto

lemma declared_length_fits:
  fixes n :: uint32
  assumes "\<not> of_nat (length b) < n"
  shows "unat n \<le> length b"
proof -
  from assms have "n \<le> of_nat (length b)" by simp
  then have "unat n \<le> unat (of_nat (length b) :: uint32)" by (simp add: word_le_nat_alt)
  also have "\<dots> \<le> length b" by (simp add: unat_of_nat)
  finally show ?thesis .
qed

lemma declared_length_exceeds:
  fixes n :: uint32
  assumes "length b < unat n"
  shows "of_nat (length b) < n"
proof -
  have "unat n < 2 ^ 32" using unsigned_less [of n] by simp
  with assms have "unat (of_nat (length b) :: uint32) = length b"
    by (simp add: unat_of_nat)
  with assms show ?thesis by (simp add: word_less_nat_alt)
qed

lemma sshFxpWritePacket_UnmarshalBinary_total: "sshFxpWritePacket_UnmarshalBinary p b \<noteq> None"
proof -
  obtain v1 r1 e1 where 1: "unmarshalUint32Safe b = Some (v1, r1, e1)"
    using unmarshalUint32Safe_total by blast
  obtain v2 r2 e2 where 2: "unmarshalStringSafe r1 = Some (v2, r2, e2)"
    using unmarshalStringSafe_total by blast
  obtain v3 r3 e3 where 3: "unmarshalUint64Safe r2 = Some (v3, r3, e3)"
    using unmarshalUint64Safe_total by blast
  obtain v4 r4 e4 where 4: "unmarshalUint32Safe r3 = Some (v4, r4, e4)"
    using unmarshalUint32Safe_total by blast
  show ?thesis
    using declared_length_fits [of r4 v4]
    by (simp add: sshFxpWritePacket_UnmarshalBinary_def 1 2 3 4 slice_upto_def Let_def)
qed

lemma sshFxpDataPacket_UnmarshalBinary_total: "sshFxpDataPacket_UnmarshalBinary p b \<noteq> None"
proof -
  obtain v1 r1 e1 where 1: "unmarshalUint32Safe b = Some (v1, r1, e1)"
    using unmarshalUint32Safe_total by blast
  obtain v2 r2 e2 where 2: "unmarshalUint32Safe r1 = Some (v2, r2, e2)"
    using unmarshalUint32Safe_total by blast
  show ?thesis
    by (simp add: sshFxpDataPacket_UnmarshalBinary_def 1 2 Let_def)
qed

text \<open>
  Claim C2 asks that the decoders of WRITE and DATA both fail with \<^verbatim>\<open>shortPacketError\<close>
  when the declared length exceeds the bytes that follow the fixed fields, without reading
  past the end of the buffer. The code does so for WRITE only. On every buffer both
  decoders return normally (no read past the end of the buffer), and when the declared
  length exceeds the bytes that follow the fixed fields both fail, leaving the fields decoded
  so far in the receiver; but WRITE fails with \<^verbatim>\<open>shortPacketError\<close>, whereas DATA fails with
  the error of \<^verbatim>\<open>fmt.Errorf("truncated packet")\<close>, a different error value.
\<close>

theorem write_data_declared_length:
  "sshFxpWritePacket_UnmarshalBinary p b \<noteq> None \<and>
   sshFxpDataPacket_UnmarshalBinary q b \<noteq> None \<and>
   (length h < 2 ^ 32 \<and> length rest < unat n \<longrightarrow>
      sshFxpWritePacket_UnmarshalBinary p
          (marshalUint32 [] i @ marshalString [] h @ marshalUint64 [] off @ marshalUint32 [] n @ rest)
        = Some (p\<lparr>sshFxpWritePacket.Id := i, sshFxpWritePacket.Handle := h,
                   sshFxpWritePacket.Offset := off, sshFxpWritePacket.Length := n\<rparr>,
                Some shortPacketError)) \<and>
   (length rest < unat n \<longrightarrow>
      sshFxpDataPacket_UnmarshalBinary q (marshalUint32 [] i @ marshalUint32 [] n @ rest)
        = Some (q\<lparr>sshFxpDataPacket.Id := i, sshFxpDataPacket.Length := n\<rparr>,
                Some (Errorf ''truncated packet'')))"
proof (intro conjI impI)
  show "sshFxpWritePacket_UnmarshalBinary p b \<noteq> None"
    by (rule sshFxpWritePacket_UnmarshalBinary_total)
  show "sshFxpDataPacket_UnmarshalBinary q b \<noteq> None"
    by (rule sshFxpDataPacket_UnmarshalBinary_total)
next
  assume "length h < 2 ^ 32 \<and> length rest < unat n"
  then show "sshFxpWritePacket_UnmarshalBinary p
          (marshalUint32 [] i @ marshalString [] h @ marshalUint64 [] off @ marshalUint32 [] n @ rest)
        = Some (p\<lparr>sshFxpWritePacket.Id := i, sshFxpWritePacket.Handle := h,
                   sshFxpWritePacket.Offset := off, sshFxpWritePacket.Length := n\<rparr>,
                Some shortPacketError)"
    using declared_length_exceeds [of rest n]
    by (simp add: sshFxpWritePacket_UnmarshalBinary_def Let_def)
next
  assume "length rest < unat n"
  then show "sshFxpDataPacket_UnmarshalBinary q (marshalUint32 [] i @ marshalUint32 [] n @ rest)
        = Some (q\<lparr>sshFxpDataPacket.Id := i, sshFxpDataPacket.Length := n\<rparr>,
                Some (Errorf ''truncated packet''))"
    using declared_length_exceeds [of rest n]
    by (simp add: sshFxpDataPacket_UnmarshalBinary_def Let_def)
qed


text \<open>
  The failing input: a DATA body with id 1, declared length 5 and one byte of data. The
  error returned is the ``truncated packet'' error and not \<^verbatim>\<open>shortPacketError\<close>.
\<close>

theorem data_truncated_failing_input:
  "sshFxpDataPacket_UnmarshalBinary \<lparr>sshFxpDataPacket.Id = 0, Length = 0, Data = []\<rparr>
       [0, 0, 0, 1, 0, 0, 0, 5, 9]
     = Some (\<lparr>sshFxpDataPacket.Id = 1, Length = 5, Data = []\<rparr>, Some (Errorf ''truncated packet'')) \<and>
   Errorf ''truncated packet'' \<noteq> shortPacketError"
  by (simp add: sshFxpDataPacket_UnmarshalBinary_def unmarshalUint32Safe_def unmarshalUint32_def
      index_def slice_from_def Let_def)

theorem write_data_declared_length_witness:
  "length [104 :: byte] < 2 ^ 32 \<and> length [9 :: byte] < unat (5 :: uint32) \<and>
   sshFxpWritePacket_UnmarshalBinary
       \<lparr>sshFxpWritePacket.Id = 0, Handle = [], Offset = 0, Length = 0, Data = []\<rparr>
       (marshalUint32 [] 1 @ marshalString [] [104] @ marshalUint64 [] 0 @ marshalUint32 [] 5 @ [9])
     = Some (\<lparr>sshFxpWritePacket.Id = 1, Handle = [104], Offset = 0, Length = 5, Data = []\<rparr>,
             Some shortPacketError) \<and>
   sshFxpDataPacket_UnmarshalBinary \<lparr>sshFxpDataPacket.Id = 0, Length = 0, Data = []\<rparr>
       (marshalUint32 [] 1 @ marshalUint32 [] 5 @ [9])
     = Some (\<lparr>sshFxpDataPacket.Id = 1, Length = 5, Data = []\<rparr>, Some (Errorf ''truncated packet''))"
  using write_data_declared_length
    [of "\<lparr>sshFxpWritePacket.Id = 0, Handle = [], Offset = 0, Length = 0, Data = []\<rparr>" "[]"
        "\<lparr>sshFxpDataPacket.Id = 0, Length = 0, Data = []\<rparr>" "[104]" "[9]" 5 1 0]
  by simp

section \<open>Claims about framing\<close>

lemma ReadFull_enough:
  "length buf \<le> length r \<Longrightarrow> ReadFull r buf = (take (length buf) r, drop (length buf) r, None)"
  by (auto simp add: ReadFull_def copy_def)

text \<open>
  Claim C9. On a stream that starts with the length prefix 0, \<^verbatim>\<open>recvPacket\<close> reads the
  empty payload without error and then panics at \<^verbatim>\<open>b[0]\<close>. On a stream that starts with
  a length prefix \<open>l \<ge> 1\<close> followed by at least \<open>l\<close> bytes, it returns the first payload
  byte as the tag and the other \<open>l - 1\<close> payload bytes as the body, without error, and
  leaves the bytes after the frame on the stream.
\<close>

theorem recvPacket_frames:
  "recvPacket (marshalUint32 [] 0 @ r) = None \<and>
   (0 < unat l \<and> length payload = unat l \<longrightarrow>
      recvPacket (marshalUint32 [] l @ payload @ r) = Some ((hd payload, tl payload, None), r))"
proof (intro conjI impI)
  have "ReadFull (marshalUint32 [] 0 @ r) [0, 0, 0, 0] = (marshalUint32 [] 0, r, None)"
    by (simp add: ReadFull_enough)
  then show "recvPacket (marshalUint32 [] 0 @ r) = None"
    using unmarshalUint32_marshal [of 0 "[]"]
    by (simp add: recvPacket_def ReadFull_def make_bytes_def debug_dump_def
        debugDumpRxPacketBytes_def debugDumpRxPacket_def index_def)
next
  assume a: "0 < unat l \<and> length payload = unat l"
  then obtain t body where p: "payload = t # body"
    by (cases payload) auto
  have 1: "ReadFull (marshalUint32 [] l @ payload @ r) [0, 0, 0, 0]
      = (marshalUint32 [] l, payload @ r, None)"
    by (simp add: ReadFull_enough)
  have 2: "ReadFull (payload @ r) (make_bytes (unat l)) = (payload, r, None)"
    using a by (simp add: ReadFull_enough make_bytes_def)
  have 3: "index payload 0 = Some (hd payload)" "slice_from payload (Suc 0) = Some (tl payload)"
    by (simp_all add: p index_def slice_from_def)
  show "recvPacket (marshalUint32 [] l @ payload @ r) = Some ((hd payload, tl payload, None), r)"
    using unmarshalUint32_marshal [of l "[]"]
    by (simp add: recvPacket_def 1 2 3 debug_dump_def debugDumpRxPacketBytes_def
        debugDumpRxPacket_def)
qed

theorem recvPacket_frames_witness:
  "recvPacket (marshalUint32 [] 0 @ [1]) = None \<and>
   0 < unat (2 :: uint32) \<and> length [7, 9 :: byte] = unat (2 :: uint32) \<and>
   recvPacket (marshalUint32 [] 2 @ [7, 9] @ [1]) = Some ((7, [9], None), [1])"
  using recvPacket_frames [of "[1]" 2 "[7, 9]"]
  by simp


lemma sendPacket_writes:
  assumes "Marshal m = Some (bb, None)"
  shows "sendPacket Write w Marshal m =
    (case Write w (marshalUint32 [] (of_nat (length bb))) of
       (w1, n1, e1) \<Rightarrow>
         if e1 \<noteq> None then Some (w1, e1)
         else (case Write w1 bb of (w2, n2, e2) \<Rightarrow> Some (w2, e2)))"
  using assms
  by (simp add: sendPacket_def debug_dump_def debugDumpTxPacketBytes_def debugDumpTxPacket_def
      marshalUint32_def Let_def split: prod.splits)

lemma sendPacket_Buffer:
  assumes "Marshal m = Some (bb, None)"
  shows "sendPacket Buffer_Write w Marshal m
    = Some (w @ marshalUint32 [] (of_nat (length bb)) @ bb, None)"
  using sendPacket_writes [of Marshal m bb Buffer_Write w] assms
  by (simp add: Buffer_Write_def)

text \<open>
  Claim C5, as amended. When the marshaller returns the payload \<open>bb\<close> without error,
  \<^verbatim>\<open>sendPacket\<close> calls \<^verbatim>\<open>Write\<close> with the four-byte big-endian encoding of
  \<^verbatim>\<open>uint32(len(bb))\<close> and, if that write succeeds, with \<open>bb\<close>; on a buffer the stream
  grows by exactly the header followed by the payload, and the header decodes to
  \<open>length bb mod 2 ^ 32\<close>: the exact byte length of the payload alone (the header not
  counted) for every payload shorter than \<open>2 ^ 32\<close> bytes, the empty one included.
\<close>

theorem sendPacket_frame:
  "Marshal m = Some (bb, None) \<longrightarrow>
     sendPacket Write w Marshal m =
       (case Write w (marshalUint32 [] (of_nat (length bb))) of
          (w1, n1, e1) \<Rightarrow>
            if e1 \<noteq> None then Some (w1, e1)
            else (case Write w1 bb of (w2, n2, e2) \<Rightarrow> Some (w2, e2))) \<and>
     sendPacket Buffer_Write out Marshal m
       = Some (out @ marshalUint32 [] (of_nat (length bb)) @ bb, None) \<and>
     unmarshalUint32 (marshalUint32 [] (of_nat (length bb)) @ bb) = Some (of_nat (length bb), bb) \<and>
     unat (of_nat (length bb) :: uint32) = length bb mod 2 ^ 32 \<and>
     (length bb < 2 ^ 32 \<longrightarrow> unat (of_nat (length bb) :: uint32) = length bb)"
  using sendPacket_writes [of Marshal m bb Write w]
    sendPacket_Buffer [of Marshal m bb out]
  by (simp add: unat_of_nat)

theorem sendPacket_frame_witness:
  "sshFxpHandlePacket_MarshalBinary filexfer_tags \<lparr>sshFxpHandlePacket.Id = 7, Handle = [104]\<rparr>
     = ([102, 0, 0, 0, 7, 0, 0, 0, 1, 104], None) \<and>
   sendPacket Buffer_Write [] (\<lambda>p. Some (sshFxpHandlePacket_MarshalBinary filexfer_tags p))
       \<lparr>sshFxpHandlePacket.Id = 7, Handle = [104]\<rparr>
     = Some ([0, 0, 0, 10, 102, 0, 0, 0, 7, 0, 0, 0, 1, 104], None) \<and>
   sendPacket Buffer_Write [] (\<lambda>u. Some ([], None)) () = Some ([0, 0, 0, 0], None)"
proof -
  let ?M = "\<lambda>p. Some (sshFxpHandlePacket_MarshalBinary filexfer_tags p)"
  let ?p = "\<lparr>sshFxpHandlePacket.Id = 7, Handle = [104]\<rparr>"
  let ?bb = "[102, 0, 0, 0, 7, 0, 0, 0, 1, 104] :: bytes"
  have m: "?M ?p = Some (?bb, None)"
    by (simp add: sshFxpHandlePacket_MarshalBinary_def filexfer_tags_def marshalUint32_def
        marshalString_def)
  have h: "marshalUint32 [] (of_nat (length ?bb)) = [0, 0, 0, 10]"
    "marshalUint32 [] (of_nat (length ([] :: bytes))) = [0, 0, 0, 0]"
    by (simp_all add: marshalUint32_def)
  from sendPacket_frame [of ?M ?p ?bb Buffer_Write "[]" "[]"] m
  have "sendPacket Buffer_Write [] ?M ?p = Some ([] @ marshalUint32 [] (of_nat (length ?bb)) @ ?bb, None)"
    by blast
  moreover from sendPacket_frame [of "\<lambda>u. Some ([], None)" "()" "[]" Buffer_Write "[]" "[]"]
  have "sendPacket Buffer_Write [] (\<lambda>u. Some ([], None)) ()
      = Some ([] @ marshalUint32 [] (of_nat (length ([] :: bytes))) @ [], None)"
    by blast
  ultimately show ?thesis
    using m unfolding h by simp
qed

text \<open>
  The claim as stated fails on a payload of \<open>2 ^ 32\<close> bytes, here a HANDLE packet whose
  handle has \<open>2 ^ 32 - 9\<close> bytes: the length prefix written is 0.
\<close>

theorem sendPacket_prefix_counterexample:
  "sendPacket Buffer_Write [] (\<lambda>p. Some (sshFxpHandlePacket_MarshalBinary filexfer_tags p))
       \<lparr>sshFxpHandlePacket.Id = 0, Handle = replicate (2 ^ 32 - 9) 0\<rparr>
     = Some ([0, 0, 0, 0] @ fst (sshFxpHandlePacket_MarshalBinary filexfer_tags
                \<lparr>sshFxpHandlePacket.Id = 0, Handle = replicate (2 ^ 32 - 9) 0\<rparr>), None) \<and>
   length (fst (sshFxpHandlePacket_MarshalBinary filexfer_tags
                \<lparr>sshFxpHandlePacket.Id = 0, Handle = replicate (2 ^ 32 - 9) 0\<rparr>)) = 2 ^ 32"
proof -
  define p :: sshFxpHandlePacket
    where "p = \<lparr>sshFxpHandlePacket.Id = 0, Handle = replicate (2 ^ 32 - 9) 0\<rparr>"
  define bb where "bb = fst (sshFxpHandlePacket_MarshalBinary filexfer_tags p)"
  have m: "(\<lambda>p. Some (sshFxpHandlePacket_MarshalBinary filexfer_tags p)) p = Some (bb, None)"
    by (simp add: bb_def sshFxpHandlePacket_MarshalBinary_def Let_def)
  have l: "length bb = 2 ^ 32"
    by (simp add: bb_def sshFxpHandlePacket_MarshalBinary_def Let_def p_def)
  have "marshalUint32 [] (of_nat (length bb)) = [0, 0, 0, 0]"
    unfolding l by (simp add: marshalUint32_def)
  with sendPacket_Buffer [of "\<lambda>p. Some (sshFxpHandlePacket_MarshalBinary filexfer_tags p)" p bb "[]"] m l
  show ?thesis
    unfolding p_def bb_def by simp
qed


section \<open>Claims about the pre-computed lengths\<close>

lemma Extensions_len_marshal:
  "int (length (Extensions_marshal b es)) = Extensions_len (int (length b)) es"
  by (induction es arbitrary: b) (simp_all add: algebra_simps)

lemma Extensions_len_marshal5:
  "Extensions_len 5 es = int (length (Extensions_marshal (marshalUint32 [t] v) es))"
  using Extensions_len_marshal [of "marshalUint32 [t] v" es] by simp

text \<open>
  Claim C7, as amended. For INIT, VERSION, the kinds marshalled by \<^verbatim>\<open>marshalIdString\<close>,
  SYMLINK, OPEN, READ, RENAME, WRITE and MKDIR the pre-computed \<open>l\<close> is the exact length
  of the bytes returned. For SETSTAT and FSETSTAT \<open>l\<close> is the length of the fixed part
  (tag, id, string, flags) that is in the buffer when \<^verbatim>\<open>Attrs\<close> is handed to
  \<^verbatim>\<open>marshal\<close>: the marshalled \<^verbatim>\<open>Attrs\<close> are not counted, and \<open>l\<close> is the length of the
  output when \<^verbatim>\<open>Attrs\<close> is \<^verbatim>\<open>nil\<close>.
\<close>

theorem MarshalBinary_precomputed_length:
  "sshFxInitPacket_MarshalBinary_l p1 = int (length (fst (sshFxInitPacket_MarshalBinary T p1))) \<and>
   sshFxVersionPacket_MarshalBinary_l p2
     = int (length (fst (sshFxVersionPacket_MarshalBinary T p2))) \<and>
   marshalIdString_l str = int (length (fst (marshalIdString packetType id' str))) \<and>
   sshFxpSymlinkPacket_MarshalBinary_l p3
     = int (length (fst (sshFxpSymlinkPacket_MarshalBinary T p3))) \<and>
   sshFxpOpenPacket_MarshalBinary_l p4 = int (length (fst (sshFxpOpenPacket_MarshalBinary T p4))) \<and>
   sshFxpReadPacket_MarshalBinary_l p5 = int (length (fst (sshFxpReadPacket_MarshalBinary T p5))) \<and>
   sshFxpRenamePacket_MarshalBinary_l p6
     = int (length (fst (sshFxpRenamePacket_MarshalBinary T p6))) \<and>
   sshFxpWritePacket_MarshalBinary_l p7
     = int (length (fst (sshFxpWritePacket_MarshalBinary T p7))) \<and>
   sshFxpMkdirPacket_MarshalBinary_l p8
     = int (length (fst (sshFxpMkdirPacket_MarshalBinary T p8))) \<and>
   (\<exists>fixed. sshFxpSetstatPacket_MarshalBinary_l p9 = int (length fixed) \<and>
      sshFxpSetstatPacket_MarshalBinary T mfi p9
        = do { b \<leftarrow> marshal mfi fixed (sshFxpSetstatPacket.Attrs p9); Some (b, None) } \<and>
      sshFxpSetstatPacket_MarshalBinary T mfi (p9\<lparr>sshFxpSetstatPacket.Attrs := V_nil\<rparr>)
        = Some (fixed, None)) \<and>
   (\<exists>fixed. sshFxpFsetstatPacket_MarshalBinary_l p10 = int (length fixed) \<and>
      sshFxpFsetstatPacket_MarshalBinary T mfi p10
        = do { b \<leftarrow> marshal mfi fixed (sshFxpFsetstatPacket.Attrs p10); Some (b, None) } \<and>
      sshFxpFsetstatPacket_MarshalBinary T mfi (p10\<lparr>sshFxpFsetstatPacket.Attrs := V_nil\<rparr>)
        = Some (fixed, None))"
proof (intro conjI)
  show "sshFxInitPacket_MarshalBinary_l p1
      = int (length (fst (sshFxInitPacket_MarshalBinary T p1)))"
    by (simp add: sshFxInitPacket_MarshalBinary_l_def sshFxInitPacket_MarshalBinary_def
        Extensions_len_marshal5)
  show "sshFxVersionPacket_MarshalBinary_l p2
      = int (length (fst (sshFxVersionPacket_MarshalBinary T p2)))"
    by (simp add: sshFxVersionPacket_MarshalBinary_l_def sshFxVersionPacket_MarshalBinary_def
        Extensions_len_marshal5)
  show "marshalIdString_l str = int (length (fst (marshalIdString packetType id' str)))"
    by (simp add: marshalIdString_l_def marshalIdString_def)
  show "sshFxpSymlinkPacket_MarshalBinary_l p3
      = int (length (fst (sshFxpSymlinkPacket_MarshalBinary T p3)))"
    by (simp add: sshFxpSymlinkPacket_MarshalBinary_l_def sshFxpSymlinkPacket_MarshalBinary_def)
  show "sshFxpOpenPacket_MarshalBinary_l p4
      = int (length (fst (sshFxpOpenPacket_MarshalBinary T p4)))"
    by (simp add: sshFxpOpenPacket_MarshalBinary_l_def sshFxpOpenPacket_MarshalBinary_def)
  show "sshFxpReadPacket_MarshalBinary_l p5
      = int (length (fst (sshFxpReadPacket_MarshalBinary T p5)))"
    by (simp add: sshFxpReadPacket_MarshalBinary_l_def sshFxpReadPacket_MarshalBinary_def)
  show "sshFxpRenamePacket_MarshalBinary_l p6
      = int (length (fst (sshFxpRenamePacket_MarshalBinary T p6)))"
    by (simp add: sshFxpRenamePacket_MarshalBinary_l_def sshFxpRenamePacket_MarshalBinary_def)
  show "sshFxpWritePacket_MarshalBinary_l p7
      = int (length (fst (sshFxpWritePacket_MarshalBinary T p7)))"
    by (simp add: sshFxpWritePacket_MarshalBinary_l_def sshFxpWritePacket_MarshalBinary_def)
  show "sshFxpMkdirPacket_MarshalBinary_l p8
      = int (length (fst (sshFxpMkdirPacket_MarshalBinary T p8)))"
    by (simp add: sshFxpMkdirPacket_MarshalBinary_l_def sshFxpMkdirPacket_MarshalBinary_def)
  show "\<exists>fixed. sshFxpSetstatPacket_MarshalBinary_l p9 = int (length fixed) \<and>
      sshFxpSetstatPacket_MarshalBinary T mfi p9
        = do { b \<leftarrow> marshal mfi fixed (sshFxpSetstatPacket.Attrs p9); Some (b, None) } \<and>
      sshFxpSetstatPacket_MarshalBinary T mfi (p9\<lparr>sshFxpSetstatPacket.Attrs := V_nil\<rparr>)
        = Some (fixed, None)"
    by (rule exI [of _ "marshalUint32 (marshalString (marshalUint32 [ssh_FXP_SETSTAT T]
          (sshFxpSetstatPacket.Id p9)) (sshFxpSetstatPacket.Path p9)) (sshFxpSetstatPacket.Flags p9)"])
      (simp add: sshFxpSetstatPacket_MarshalBinary_l_def sshFxpSetstatPacket_MarshalBinary_def)
  show "\<exists>fixed. sshFxpFsetstatPacket_MarshalBinary_l p10 = int (length fixed) \<and>
      sshFxpFsetstatPacket_MarshalBinary T mfi p10
        = do { b \<leftarrow> marshal mfi fixed (sshFxpFsetstatPacket.Attrs p10); Some (b, None) } \<and>
      sshFxpFsetstatPacket_MarshalBinary T mfi (p10\<lparr>sshFxpFsetstatPacket.Attrs := V_nil\<rparr>)
        = Some (fixed, None)"
    by (rule exI [of _ "marshalUint32 (marshalString (marshalUint32 [ssh_FXP_FSETSTAT T]
          (sshFxpFsetstatPacket.Id p10)) (sshFxpFsetstatPacket.Handle p10))
          (sshFxpFsetstatPacket.Flags p10)"])
      (simp add: sshFxpFsetstatPacket_MarshalBinary_l_def sshFxpFsetstatPacket_MarshalBinary_def)
qed

text \<open>
  The claim as stated fails for SETSTAT with non-empty attributes (\<open>l\<close> is 13, the
  output has 21 bytes) and for the statvfs request (\<open>l\<close> is 25, the output has 33
  bytes: the two length prefixes of four bytes are not counted).
\<close>

theorem precomputed_length_counterexample:
  "sshFxpSetstatPacket_MarshalBinary_l
       \<lparr>sshFxpSetstatPacket.Id = 1, Path = [], Flags = 1, Attrs = V_uint64 0\<rparr> = 13 \<and>
   sshFxpSetstatPacket_MarshalBinary filexfer_tags (\<lambda>b fi. None)
       \<lparr>sshFxpSetstatPacket.Id = 1, Path = [], Flags = 1, Attrs = V_uint64 0\<rparr>
     = Some ([9, 0, 0, 0, 1, 0, 0, 0, 0, 0, 0, 0, 1, 0, 0, 0, 0, 0, 0, 0, 0], None) \<and>
   sshFxpStatvfsPacket_MarshalBinary_l \<lparr>sshFxpStatvfsPacket.Id = 1, Path = [47]\<rparr> = 25 \<and>
   length (fst (sshFxpStatvfsPacket_MarshalBinary filexfer_tags
                  \<lparr>sshFxpStatvfsPacket.Id = 1, Path = [47]\<rparr>)) = 33"
  by (simp add: sshFxpSetstatPacket_MarshalBinary_l_def sshFxpSetstatPacket_MarshalBinary_def
      sshFxpStatvfsPacket_MarshalBinary_l_def sshFxpStatvfsPacket_MarshalBinary_def
      filexfer_tags_def marshalUint32_def marshalUint64_def marshalString_def bytes_of_def)


section \<open>Decoding what was encoded\<close>

lemma sshFxpDataPacket_MarshalBinary_cap_eq:
  "unat (sshFxpDataPacket.Length p) \<le> length (sshFxpDataPacket.Data p) \<Longrightarrow>
   sshFxpDataPacket_MarshalBinary_cap T spare p = sshFxpDataPacket_MarshalBinary T p"
  by (simp add: sshFxpDataPacket_MarshalBinary_cap_def sshFxpDataPacket_MarshalBinary_def
      slice_upto_def)

lemma sshFxpDataPacket_MarshalBinary_cap_spare:
  "length (sshFxpDataPacket.Data p) < unat (sshFxpDataPacket.Length p) \<Longrightarrow>
   unat (sshFxpDataPacket.Length p) \<le> length (sshFxpDataPacket.Data p) + length spare \<Longrightarrow>
   sshFxpDataPacket_MarshalBinary_cap T spare p
     = Some (marshalUint32 (marshalUint32 [ssh_FXP_DATA T] (sshFxpDataPacket.Id p))
               (sshFxpDataPacket.Length p)
             @ sshFxpDataPacket.Data p
             @ take (unat (sshFxpDataPacket.Length p) - length (sshFxpDataPacket.Data p)) spare,
             None)"
  by (simp add: sshFxpDataPacket_MarshalBinary_cap_def slice_upto_def)

lemma marshalUint32_nonempty [simp]: "marshalUint32 b v \<noteq> []"
  by (simp add: marshalUint32_def)

lemma marshalUint64_nonempty [simp]: "marshalUint64 b v \<noteq> []"
  by (simp add: marshalUint64_def)

lemma marshalString_nonempty [simp]: "marshalString b v \<noteq> []"
  by (simp add: marshalString_def)

lemma marshalUint32_acc: "b \<noteq> [] \<Longrightarrow> marshalUint32 b v = b @ marshalUint32 [] v"
  by (rule marshalUint32_append)

lemma marshalUint64_acc: "b \<noteq> [] \<Longrightarrow> marshalUint64 b v = b @ marshalUint64 [] v"
  by (rule marshalUint64_append)

lemma marshalString_acc: "b \<noteq> [] \<Longrightarrow> marshalString b v = b @ marshalString [] v"
  by (rule marshalString_append)

lemmas marshal_acc = marshalUint32_acc marshalUint64_acc marshalString_acc

lemma unmarshalUint32Safe_marshal_end [simp]:
  "unmarshalUint32Safe (marshalUint32 [] v) = Some (v, [], None)"
  using unmarshalUint32Safe_marshal [of v "[]"] by simp

lemma unmarshalUint64Safe_marshal_end [simp]:
  "unmarshalUint64Safe (marshalUint64 [] v) = Some (v, [], None)"
  using unmarshalUint64Safe_marshal [of v "[]"] by simp

lemma unmarshalStringSafe_marshal_end [simp]:
  "length s < 2 ^ 32 \<Longrightarrow> unmarshalStringSafe (marshalString [] s) = Some (s, [], None)"
  using unmarshalStringSafe_marshal [of s "[]"] by simp

lemma unmarshalUint32Safe_ok_iff:
  "unmarshalUint32Safe b = Some (v, r, None) \<longleftrightarrow> b = marshalUint32 [] v @ r"
proof
  assume ok: "unmarshalUint32Safe b = Some (v, r, None)"
  then have "4 \<le> length b"
    using unmarshalUint32Safe_short [of b] by (cases "length b < 4") auto
  from unmarshalUint32Safe_long [OF this] ok
  have "marshalUint32 [] v = take 4 b" "r = drop 4 b" by auto
  then show "b = marshalUint32 [] v @ r" by simp
qed simp

lemma unmarshalUint64Safe_ok_iff:
  "unmarshalUint64Safe b = Some (v, r, None) \<longleftrightarrow> b = marshalUint64 [] v @ r"
proof
  assume ok: "unmarshalUint64Safe b = Some (v, r, None)"
  then have "8 \<le> length b"
    using unmarshalUint64Safe_short [of b] by (cases "length b < 8") auto
  from unmarshalUint64Safe_long [OF this] ok
  have "marshalUint64 [] v = take 8 b" "r = drop 8 b" by auto
  then show "b = marshalUint64 [] v @ r" by simp
qed simp

lemma unmarshalStringSafe_ok_iff:
  "unmarshalStringSafe b = Some (s, r, None) \<longleftrightarrow> length s < 2 ^ 32 \<and> b = marshalString [] s @ r"
proof
  assume ok: "unmarshalStringSafe b = Some (s, r, None)"
  then have "4 \<le> length b"
    using unmarshalStringSafe_short [of b] by (cases "length b < 4") auto
  from unmarshalStringSafe_long [OF this] ok obtain n
    where n: "marshalUint32 [] n = take 4 b" "\<not> length b - 4 < unat n"
      "s = take (unat n) (drop 4 b)" "r = drop (4 + unat n) b"
    by (auto split: if_splits)
  then have l: "length s = unat n" by simp
  have "unat n < 2 ^ 32" using unsigned_less [of n] by simp
  with l have "length s < 2 ^ 32" by simp
  moreover have "marshalString [] s = take 4 b @ s"
    by (simp add: marshalString_def l n(1))
  moreover have "r = drop (unat n) (drop 4 b)"
    by (simp add: n(4) add.commute)
  then have "drop 4 b = s @ r"
    by (simp only: n(3) append_take_drop_id)
  then have "b = take 4 b @ s @ r"
    using append_take_drop_id [of 4 b] by (simp only:)
  ultimately show "length s < 2 ^ 32 \<and> b = marshalString [] s @ r"
    by simp
qed simp

lemmas unmarshal_ok_iff =
  unmarshalUint32Safe_ok_iff unmarshalUint64Safe_ok_iff unmarshalStringSafe_ok_iff


lemma unmarshalIdString_ok_iff:
  "unmarshalIdString b i0 str0 = Some (i, str, None) \<longleftrightarrow>
   length str < 2 ^ 32 \<and> (\<exists>r. b = marshalUint32 [] i @ marshalString [] str @ r)"
proof
  assume "unmarshalIdString b i0 str0 = Some (i, str, None)"
  then show "length str < 2 ^ 32 \<and> (\<exists>r. b = marshalUint32 [] i @ marshalString [] str @ r)"
    by (auto simp add: unmarshalIdString_def unmarshal_ok_iff Let_def
        split: Option.bind_splits if_splits)
next
  assume "length str < 2 ^ 32 \<and> (\<exists>r. b = marshalUint32 [] i @ marshalString [] str @ r)"
  then show "unmarshalIdString b i0 str0 = Some (i, str, None)"
    by (auto simp add: unmarshalIdString_def)
qed

lemma sshFxpReaddirPacket_ok_iff:
  "sshFxpReaddirPacket_UnmarshalBinary p0 b = Some (p, None) \<longleftrightarrow>
   length (sshFxpReaddirPacket.Handle p) < 2 ^ 32 \<and>
   (\<exists>r. b = marshalUint32 [] (sshFxpReaddirPacket.Id p)
            @ marshalString [] (sshFxpReaddirPacket.Handle p) @ r)"
proof -
  have "sshFxpReaddirPacket_UnmarshalBinary p0 b = Some (p, None) \<longleftrightarrow>
    unmarshalIdString b (sshFxpReaddirPacket.Id p0) (sshFxpReaddirPacket.Handle p0)
      = Some (sshFxpReaddirPacket.Id p, sshFxpReaddirPacket.Handle p, None)"
    by (auto simp add: sshFxpReaddirPacket_UnmarshalBinary_def split: Option.bind_splits)
  then show ?thesis by (simp only: unmarshalIdString_ok_iff)
qed

lemma sshFxpOpenPacket_ok_iff:
  "sshFxpOpenPacket_UnmarshalBinary p0 b = Some (p, None) \<longleftrightarrow>
   length (sshFxpOpenPacket.Path p) < 2 ^ 32 \<and>
   (\<exists>r. b = marshalUint32 [] (sshFxpOpenPacket.Id p) @ marshalString [] (sshFxpOpenPacket.Path p)
            @ marshalUint32 [] (sshFxpOpenPacket.Pflags p)
            @ marshalUint32 [] (sshFxpOpenPacket.Flags p) @ r)"
  (is "?L \<longleftrightarrow> ?R")
proof
  assume ?L
  then show ?R
    by (auto simp add: sshFxpOpenPacket_UnmarshalBinary_def unmarshal_ok_iff Let_def
        split: Option.bind_splits if_splits)
next
  assume ?R
  then show ?L
    by (auto simp add: sshFxpOpenPacket_UnmarshalBinary_def)
qed

lemma unat_of_nat32: "n < 2 ^ 32 \<Longrightarrow> unat (of_nat n :: uint32) = n"
  by (simp add: unat_of_nat)

lemma take_prefix_ex: "\<exists>r. xs = take k xs @ r"
  by (metis append_take_drop_id)

lemma sshFxpWritePacket_ok_iff:
  assumes "length b < 2 ^ 32"
  shows "sshFxpWritePacket_UnmarshalBinary p0 b = Some (p, None) \<longleftrightarrow>
   length (sshFxpWritePacket.Handle p) < 2 ^ 32 \<and>
   unat (sshFxpWritePacket.Length p) = length (sshFxpWritePacket.Data p) \<and>
   (\<exists>r. b = marshalUint32 [] (sshFxpWritePacket.Id p) @ marshalString [] (sshFxpWritePacket.Handle p)
            @ marshalUint64 [] (sshFxpWritePacket.Offset p)
            @ marshalUint32 [] (sshFxpWritePacket.Length p) @ sshFxpWritePacket.Data p @ r)"
  (is "?L \<longleftrightarrow> ?R")
proof
  assume ?L
  then show ?R
    by (auto simp add: sshFxpWritePacket_UnmarshalBinary_def unmarshal_ok_iff Let_def slice_upto_def
        take_prefix_ex split: Option.bind_splits if_splits dest: declared_length_fits)
next
  assume r: ?R
  then obtain r where b: "b = marshalUint32 [] (sshFxpWritePacket.Id p)
            @ marshalString [] (sshFxpWritePacket.Handle p)
            @ marshalUint64 [] (sshFxpWritePacket.Offset p)
            @ marshalUint32 [] (sshFxpWritePacket.Length p) @ sshFxpWritePacket.Data p @ r"
    by blast
  with assms have "length (sshFxpWritePacket.Data p @ r) < 2 ^ 32" by simp
  then have "unat (of_nat (length (sshFxpWritePacket.Data p @ r)) :: uint32)
      = length (sshFxpWritePacket.Data p @ r)"
    by (rule unat_of_nat32)
  with r have "\<not> (of_nat (length (sshFxpWritePacket.Data p @ r)) :: uint32)
      < sshFxpWritePacket.Length p"
    unfolding word_less_nat_alt by simp
  with r show ?L
    unfolding b
    by (simp add: sshFxpWritePacket_UnmarshalBinary_def slice_upto_def)
qed

lemma sshFxpOpendirPacket_ok_iff:
  "sshFxpOpendirPacket_UnmarshalBinary p0 b = Some (p, None) \<longleftrightarrow>
   length (sshFxpOpendirPacket.Path p) < 2 ^ 32 \<and>
   (\<exists>r. b = marshalUint32 [] (sshFxpOpendirPacket.Id p)
            @ marshalString [] (sshFxpOpendirPacket.Path p) @ r)"
proof -
  have "sshFxpOpendirPacket_UnmarshalBinary p0 b = Some (p, None) \<longleftrightarrow>
    unmarshalIdString b (sshFxpOpendirPacket.Id p0) (sshFxpOpendirPacket.Path p0)
      = Some (sshFxpOpendirPacket.Id p, sshFxpOpendirPacket.Path p, None)"
    by (auto simp add: sshFxpOpendirPacket_UnmarshalBinary_def split: Option.bind_splits)
  then show ?thesis by (simp only: unmarshalIdString_ok_iff)
qed

lemma sshFxpLstatPacket_ok_iff:
  "sshFxpLstatPacket_UnmarshalBinary p0 b = Some (p, None) \<longleftrightarrow>
   length (sshFxpLstatPacket.Path p) < 2 ^ 32 \<and>
   (\<exists>r. b = marshalUint32 [] (sshFxpLstatPacket.Id p)
            @ marshalString [] (sshFxpLstatPacket.Path p) @ r)"
proof -
  have "sshFxpLstatPacket_UnmarshalBinary p0 b = Some (p, None) \<longleftrightarrow>
    unmarshalIdString b (sshFxpLstatPacket.Id p0) (sshFxpLstatPacket.Path p0)
      = Some (sshFxpLstatPacket.Id p, sshFxpLstatPacket.Path p, None)"
    by (auto simp add: sshFxpLstatPacket_UnmarshalBinary_def split: Option.bind_splits)
  then show ?thesis by (simp only: unmarshalIdString_ok_iff)
qed

lemma sshFxpStatPacket_ok_iff:
  "sshFxpStatPacket_UnmarshalBinary p0 b = Some (p, None) \<longleftrightarrow>
   length (sshFxpStatPacket.Path p) < 2 ^ 32 \<and>
   (\<exists>r. b = marshalUint32 [] (sshFxpStatPacket.Id p)
            @ marshalString [] (sshFxpStatPacket.Path p) @ r)"
proof -
  have "sshFxpStatPacket_UnmarshalBinary p0 b = Some (p, None) \<longleftrightarrow>
    unmarshalIdString b (sshFxpStatPacket.Id p0) (sshFxpStatPacket.Path p0)
      = Some (sshFxpStatPacket.Id p, sshFxpStatPacket.Path p, None)"
    by (auto simp add: sshFxpStatPacket_UnmarshalBinary_def split: Option.bind_splits)
  then show ?thesis by (simp only: unmarshalIdString_ok_iff)
qed

lemma sshFxpFstatPacket_ok_iff:
  "sshFxpFstatPacket_UnmarshalBinary p0 b = Some (p, None) \<longleftrightarrow>
   length (sshFxpFstatPacket.Handle p) < 2 ^ 32 \<and>
   (\<exists>r. b = marshalUint32 [] (sshFxpFstatPacket.Id p)
            @ marshalString [] (sshFxpFstatPacket.Handle p) @ r)"
proof -
  have "sshFxpFstatPacket_UnmarshalBinary p0 b = Some (p, None) \<longleftrightarrow>
    unmarshalIdString b (sshFxpFstatPacket.Id p0) (sshFxpFstatPacket.Handle p0)
      = Some (sshFxpFstatPacket.Id p, sshFxpFstatPacket.Handle p, None)"
    by (auto simp add: sshFxpFstatPacket_UnmarshalBinary_def split: Option.bind_splits)
  then show ?thesis by (simp only: unmarshalIdString_ok_iff)
qed

lemma sshFxpClosePacket_ok_iff:
  "sshFxpClosePacket_UnmarshalBinary p0 b = Some (p, None) \<longleftrightarrow>
   length (sshFxpClosePacket.Handle p) < 2 ^ 32 \<and>
   (\<exists>r. b = marshalUint32 [] (sshFxpClosePacket.Id p)
            @ marshalString [] (sshFxpClosePacket.Handle p) @ r)"
proof -
  have "sshFxpClosePacket_UnmarshalBinary p0 b = Some (p, None) \<longleftrightarrow>
    unmarshalIdString b (sshFxpClosePacket.Id p0) (sshFxpClosePacket.Handle p0)
      = Some (sshFxpClosePacket.Id p, sshFxpClosePacket.Handle p, None)"
    by (auto simp add: sshFxpClosePacket_UnmarshalBinary_def split: Option.bind_splits)
  then show ?thesis by (simp only: unmarshalIdString_ok_iff)
qed

lemma sshFxpRemovePacket_ok_iff:
  "sshFxpRemovePacket_UnmarshalBinary p0 b = Some (p, None) \<longleftrightarrow>
   length (sshFxpRemovePacket.Filename p) < 2 ^ 32 \<and>
   (\<exists>r. b = marshalUint32 [] (sshFxpRemovePacket.Id p)
            @ marshalString [] (sshFxpRemovePacket.Filename p) @ r)"
proof -
  have "sshFxpRemovePacket_UnmarshalBinary p0 b = Some (p, None) \<longleftrightarrow>
    unmarshalIdString b (sshFxpRemovePacket.Id p0) (sshFxpRemovePacket.Filename p0)
      = Some (sshFxpRemovePacket.Id p, sshFxpRemovePacket.Filename p, None)"
    by (auto simp add: sshFxpRemovePacket_UnmarshalBinary_def split: Option.bind_splits)
  then show ?thesis by (simp only: unmarshalIdString_ok_iff)
qed

lemma sshFxpRmdirPacket_ok_iff:
  "sshFxpRmdirPacket_UnmarshalBinary p0 b = Some (p, None) \<longleftrightarrow>
   length (sshFxpRmdirPacket.Path p) < 2 ^ 32 \<and>
   (\<exists>r. b = marshalUint32 [] (sshFxpRmdirPacket.Id p)
            @ marshalString [] (sshFxpRmdirPacket.Path p) @ r)"
proof -
  have "sshFxpRmdirPacket_UnmarshalBinary p0 b = Some (p, None) \<longleftrightarrow>
    unmarshalIdString b (sshFxpRmdirPacket.Id p0) (sshFxpRmdirPacket.Path p0)
      = Some (sshFxpRmdirPacket.Id p, sshFxpRmdirPacket.Path p, None)"
    by (auto simp add: sshFxpRmdirPacket_UnmarshalBinary_def split: Option.bind_splits)
  then show ?thesis by (simp only: unmarshalIdString_ok_iff)
qed

lemma sshFxpReadlinkPacket_ok_iff:
  "sshFxpReadlinkPacket_UnmarshalBinary p0 b = Some (p, None) \<longleftrightarrow>
   length (sshFxpReadlinkPacket.Path p) < 2 ^ 32 \<and>
   (\<exists>r. b = marshalUint32 [] (sshFxpReadlinkPacket.Id p)
            @ marshalString [] (sshFxpReadlinkPacket.Path p) @ r)"
proof -
  have "sshFxpReadlinkPacket_UnmarshalBinary p0 b = Some (p, None) \<longleftrightarrow>
    unmarshalIdString b (sshFxpReadlinkPacket.Id p0) (sshFxpReadlinkPacket.Path p0)
      = Some (sshFxpReadlinkPacket.Id p, sshFxpReadlinkPacket.Path p, None)"
    by (auto simp add: sshFxpReadlinkPacket_UnmarshalBinary_def split: Option.bind_splits)
  then show ?thesis by (simp only: unmarshalIdString_ok_iff)
qed

lemma sshFxpRealpathPacket_ok_iff:
  "sshFxpRealpathPacket_UnmarshalBinary p0 b = Some (p, None) \<longleftrightarrow>
   length (sshFxpRealpathPacket.Path p) < 2 ^ 32 \<and>
   (\<exists>r. b = marshalUint32 [] (sshFxpRealpathPacket.Id p)
            @ marshalString [] (sshFxpRealpathPacket.Path p) @ r)"
proof -
  have "sshFxpRealpathPacket_UnmarshalBinary p0 b = Some (p, None) \<longleftrightarrow>
    unmarshalIdString b (sshFxpRealpathPacket.Id p0) (sshFxpRealpathPacket.Path p0)
      = Some (sshFxpRealpathPacket.Id p, sshFxpRealpathPacket.Path p, None)"
    by (auto simp add: sshFxpRealpathPacket_UnmarshalBinary_def split: Option.bind_splits)
  then show ?thesis by (simp only: unmarshalIdString_ok_iff)
qed

lemma sshFxpSymlinkPacket_ok_iff:
  "sshFxpSymlinkPacket_UnmarshalBinary p0 b = Some (p, None) \<longleftrightarrow>
   length (sshFxpSymlinkPacket.Targetpath p) < 2 ^ 32 \<and>
   length (sshFxpSymlinkPacket.Linkpath p) < 2 ^ 32 \<and>
   (\<exists>r. b = marshalUint32 [] (sshFxpSymlinkPacket.Id p)
            @ marshalString [] (sshFxpSymlinkPacket.Targetpath p)
            @ marshalString [] (sshFxpSymlinkPacket.Linkpath p) @ r)"
  (is "?L \<longleftrightarrow> ?R")
proof
  assume ?L
  then show ?R
    by (auto simp add: sshFxpSymlinkPacket_UnmarshalBinary_def unmarshal_ok_iff Let_def
        split: Option.bind_splits if_splits)
next
  assume ?R
  then show ?L
    by (auto simp add: sshFxpSymlinkPacket_UnmarshalBinary_def)
qed

lemma sshFxpReadPacket_ok_iff:
  "sshFxpReadPacket_UnmarshalBinary p0 b = Some (p, None) \<longleftrightarrow>
   length (sshFxpReadPacket.Handle p) < 2 ^ 32 \<and>
   (\<exists>r. b = marshalUint32 [] (sshFxpReadPacket.Id p)
            @ marshalString [] (sshFxpReadPacket.Handle p)
            @ marshalUint64 [] (sshFxpReadPacket.Offset p)
            @ marshalUint32 [] (sshFxpReadPacket.Len p) @ r)"
  (is "?L \<longleftrightarrow> ?R")
proof
  assume ?L
  then show ?R
    by (auto simp add: sshFxpReadPacket_UnmarshalBinary_def unmarshal_ok_iff Let_def
        split: Option.bind_splits if_splits)
next
  assume ?R
  then show ?L
    by (auto simp add: sshFxpReadPacket_UnmarshalBinary_def)
qed

lemma sshFxpRenamePacket_ok_iff:
  "sshFxpRenamePacket_UnmarshalBinary p0 b = Some (p, None) \<longleftrightarrow>
   length (sshFxpRenamePacket.Oldpath p) < 2 ^ 32 \<and>
   length (sshFxpRenamePacket.Newpath p) < 2 ^ 32 \<and>
   (\<exists>r. b = marshalUint32 [] (sshFxpRenamePacket.Id p)
            @ marshalString [] (sshFxpRenamePacket.Oldpath p)
            @ marshalString [] (sshFxpRenamePacket.Newpath p) @ r)"
  (is "?L \<longleftrightarrow> ?R")
proof
  assume ?L
  then show ?R
    by (auto simp add: sshFxpRenamePacket_UnmarshalBinary_def unmarshal_ok_iff Let_def
        split: Option.bind_splits if_splits)
next
  assume ?R
  then show ?L
    by (auto simp add: sshFxpRenamePacket_UnmarshalBinary_def)
qed

lemma sshFxpMkdirPacket_ok_iff:
  "sshFxpMkdirPacket_UnmarshalBinary p0 b = Some (p, None) \<longleftrightarrow>
   length (sshFxpMkdirPacket.Path p) < 2 ^ 32 \<and>
   (\<exists>r. b = marshalUint32 [] (sshFxpMkdirPacket.Id p)
            @ marshalString [] (sshFxpMkdirPacket.Path p)
            @ marshalUint32 [] (sshFxpMkdirPacket.Flags p) @ r)"
  (is "?L \<longleftrightarrow> ?R")
proof
  assume ?L
  then show ?R
    by (auto simp add: sshFxpMkdirPacket_UnmarshalBinary_def unmarshal_ok_iff Let_def
        split: Option.bind_splits if_splits)
next
  assume ?R
  then show ?L
    by (auto simp add: sshFxpMkdirPacket_UnmarshalBinary_def)
qed

lemma sshFxpSetstatPacket_ok_iff:
  "sshFxpSetstatPacket_UnmarshalBinary p0 b = Some (p, None) \<longleftrightarrow>
   length (sshFxpSetstatPacket.Path p) < 2 ^ 32 \<and>
   (\<exists>a. sshFxpSetstatPacket.Attrs p = V_bytes a \<and>
      b = marshalUint32 [] (sshFxpSetstatPacket.Id p) @ marshalString [] (sshFxpSetstatPacket.Path p)
            @ marshalUint32 [] (sshFxpSetstatPacket.Flags p) @ a)"
  (is "?L \<longleftrightarrow> ?R")
proof
  assume ?L
  then show ?R
    by (auto simp add: sshFxpSetstatPacket_UnmarshalBinary_def unmarshal_ok_iff Let_def
        split: Option.bind_splits if_splits)
next
  assume ?R
  then show ?L
    by (auto simp add: sshFxpSetstatPacket_UnmarshalBinary_def)
qed

lemma sshFxpFsetstatPacket_ok_iff:
  "sshFxpFsetstatPacket_UnmarshalBinary p0 b = Some (p, None) \<longleftrightarrow>
   length (sshFxpFsetstatPacket.Handle p) < 2 ^ 32 \<and>
   (\<exists>a. sshFxpFsetstatPacket.Attrs p = V_bytes a \<and>
      b = marshalUint32 [] (sshFxpFsetstatPacket.Id p) @ marshalString [] (sshFxpFsetstatPacket.Handle p)
            @ marshalUint32 [] (sshFxpFsetstatPacket.Flags p) @ a)"
  (is "?L \<longleftrightarrow> ?R")
proof
  assume ?L
  then show ?R
    by (auto simp add: sshFxpFsetstatPacket_UnmarshalBinary_def unmarshal_ok_iff Let_def
        split: Option.bind_splits if_splits)
next
  assume ?R
  then show ?L
    by (auto simp add: sshFxpFsetstatPacket_UnmarshalBinary_def)
qed

lemma copy_make_bytes: "n \<le> length src \<Longrightarrow> copy (make_bytes n) src = take n src"
  by (simp add: copy_def make_bytes_def)

lemma sshFxpDataPacket_ok_iff:
  assumes "length b < 2 ^ 32"
  shows "sshFxpDataPacket_UnmarshalBinary p0 b = Some (p, None) \<longleftrightarrow>
   unat (sshFxpDataPacket.Length p) = length (sshFxpDataPacket.Data p) \<and>
   (\<exists>r. b = marshalUint32 [] (sshFxpDataPacket.Id p)
            @ marshalUint32 [] (sshFxpDataPacket.Length p) @ sshFxpDataPacket.Data p @ r)"
  (is "?L \<longleftrightarrow> ?R")
proof
  assume ?L
  then show ?R
    by (auto simp add: sshFxpDataPacket_UnmarshalBinary_def unmarshal_ok_iff Let_def
        copy_make_bytes take_prefix_ex split: Option.bind_splits if_splits
        dest!: declared_length_fits)
next
  assume r: ?R
  then obtain r where b: "b = marshalUint32 [] (sshFxpDataPacket.Id p)
            @ marshalUint32 [] (sshFxpDataPacket.Length p) @ sshFxpDataPacket.Data p @ r"
    by blast
  with assms have "length (sshFxpDataPacket.Data p @ r) < 2 ^ 32" by simp
  then have "unat (of_nat (length (sshFxpDataPacket.Data p @ r)) :: uint32)
      = length (sshFxpDataPacket.Data p @ r)"
    by (rule unat_of_nat32)
  with r have "\<not> (of_nat (length (sshFxpDataPacket.Data p @ r)) :: uint32)
      < sshFxpDataPacket.Length p"
    unfolding word_less_nat_alt by simp
  with r show ?L
    unfolding b
    by (simp add: sshFxpDataPacket_UnmarshalBinary_def copy_make_bytes)
qed

lemma marshal_each_uint8: "marshal_each mfi b (map V_uint8 a) = Some (b @ a)"
  by (induction a arbitrary: b) simp_all

lemma marshal_V_bytes [simp]: "marshal mfi b (V_bytes a) = Some (b @ a)"
  by (simp add: V_bytes_def marshal_each_uint8)

lemma list_all_is_uint8: "list_all is_uint8 d \<Longrightarrow> \<exists>a. d = map V_uint8 a"
proof (induction d)
  case Nil
  then show ?case by simp
next
  case (Cons v d)
  then obtain a where "d = map V_uint8 a" by auto
  moreover from Cons.prems obtain x where "v = V_uint8 x" by (cases v) auto
  ultimately have "v # d = map V_uint8 (x # a)" by simp
  then show ?case by (rule exI)
qed

lemma is_bytes_V_bytes: "is_bytes v \<Longrightarrow> \<exists>a. v = V_bytes a"
  by (cases v) (auto simp add: V_bytes_def dest: list_all_is_uint8)

lemma marshalString_twice:
  "marshalString (marshalString b n) d = b @ marshalString [] n @ marshalString [] d"
  by (simp add: marshalString_def marshalUint32_def)

lemma Extensions_marshal_append: "Extensions_marshal b es = b @ Extensions_marshal [] es"
proof (induction es arbitrary: b)
  case Nil
  then show ?case by simp
next
  case (Cons e es)
  let ?n = "ExtensionPair.Name e" and ?d = "ExtensionPair.Data e"
  have "Extensions_marshal b (e # es)
      = marshalString (marshalString b ?n) ?d @ Extensions_marshal [] es"
    using Cons.IH [of "marshalString (marshalString b ?n) ?d"] by simp
  also have "\<dots> = b @ marshalString (marshalString [] ?n) ?d @ Extensions_marshal [] es"
    by (simp add: marshalString_twice [of b] marshalString_twice [of "[]"])
  also have "\<dots> = b @ Extensions_marshal [] (e # es)"
    using Cons.IH [of "marshalString (marshalString [] ?n) ?d"] by simp
  finally show ?case .
qed

lemma unmarshalExtensionPair_marshal:
  assumes "length (ExtensionPair.Name e) < 2 ^ 32" "length (ExtensionPair.Data e) < 2 ^ 32"
  shows "unmarshalExtensionPair
    (marshalString [] (ExtensionPair.Name e) @ marshalString [] (ExtensionPair.Data e) @ r)
      = Some (e, r, None)"
  using assms by (simp add: unmarshalExtensionPair_def)

lemma sshFxInitPacket_UnmarshalBinary_loop_marshal:
  assumes "list_all (\<lambda>e. length (ExtensionPair.Name e) < 2 ^ 32 \<and>
             length (ExtensionPair.Data e) < 2 ^ 32) es"
  shows "sshFxInitPacket_UnmarshalBinary_loop p (Extensions_marshal [] es)
    = Some (p\<lparr>sshFxInitPacket.Extensions := sshFxInitPacket.Extensions p @ es\<rparr>, None)"
  using assms
proof (induction es arbitrary: p)
  case Nil
  then show ?case by (simp add: sshFxInitPacket_UnmarshalBinary_loop.simps)
next
  case (Cons e es)
  have m: "Extensions_marshal [] (e # es)
      = marshalString [] (ExtensionPair.Name e) @ marshalString [] (ExtensionPair.Data e)
          @ Extensions_marshal [] es"
    using Extensions_marshal_append
      [of "marshalString (marshalString [] (ExtensionPair.Name e)) (ExtensionPair.Data e)" es]
    by (simp add: marshal_acc)
  from Cons.prems have e: "length (ExtensionPair.Name e) < 2 ^ 32"
    "length (ExtensionPair.Data e) < 2 ^ 32"
    and es: "list_all (\<lambda>e. length (ExtensionPair.Name e) < 2 ^ 32 \<and>
             length (ExtensionPair.Data e) < 2 ^ 32) es"
    by simp_all
  have "sshFxInitPacket_UnmarshalBinary_loop p (Extensions_marshal [] (e # es))
      = sshFxInitPacket_UnmarshalBinary_loop
          (p\<lparr>sshFxInitPacket.Extensions := sshFxInitPacket.Extensions p @ [e]\<rparr>)
          (Extensions_marshal [] es)"
    unfolding m
    by (subst sshFxInitPacket_UnmarshalBinary_loop.simps)
      (simp add: unmarshalExtensionPair_marshal [OF e])
  also have "\<dots> = Some (p\<lparr>sshFxInitPacket.Extensions :=
      sshFxInitPacket.Extensions p @ e # es\<rparr>, None)"
    by (simp add: Cons.IH [OF es])
  finally show ?case .
qed

lemma sshFxInitPacket_roundtrip:
  assumes "list_all (\<lambda>e. length (ExtensionPair.Name e) < 2 ^ 32 \<and>
             length (ExtensionPair.Data e) < 2 ^ 32) (sshFxInitPacket.Extensions p)"
  shows "sshFxInitPacket_UnmarshalBinary \<lparr>sshFxInitPacket.Version = 0, Extensions = []\<rparr>
      (tl (fst (sshFxInitPacket_MarshalBinary T p))) = Some (p, None)"
proof -
  have "tl (fst (sshFxInitPacket_MarshalBinary T p))
      = marshalUint32 [] (sshFxInitPacket.Version p)
          @ Extensions_marshal [] (sshFxInitPacket.Extensions p)"
    using Extensions_marshal_append
      [of "marshalUint32 [ssh_FXP_INIT T] (sshFxInitPacket.Version p)" "sshFxInitPacket.Extensions p"]
    by (simp add: sshFxInitPacket_MarshalBinary_def marshal_acc)
  then show ?thesis
    by (simp add: sshFxInitPacket_UnmarshalBinary_def
        sshFxInitPacket_UnmarshalBinary_loop_marshal [OF assms])
qed

lemma marshalIdString_body:
  "tl (fst (marshalIdString t i str)) = marshalUint32 [] i @ marshalString [] str"
  "fst (marshalIdString t i str) \<noteq> []" "snd (marshalIdString t i str) = None"
  by (simp_all add: marshalIdString_def marshal_acc)

lemma Extensions_marshal_nonempty: "b \<noteq> [] \<Longrightarrow> Extensions_marshal b es \<noteq> []"
  using Extensions_marshal_append [of b es] by simp

lemma sshFxpWritePacket_roundtrip:
  assumes "length (sshFxpWritePacket.Handle p) < 2 ^ 32"
    and "unat (sshFxpWritePacket.Length p) = length (sshFxpWritePacket.Data p)"
  shows "sshFxpWritePacket_UnmarshalBinary p0 (tl (fst (sshFxpWritePacket_MarshalBinary T p)))
    = Some (p, None)"
proof -
  have "(of_nat (length (sshFxpWritePacket.Data p)) :: uint32) = sshFxpWritePacket.Length p"
    using assms(2) [symmetric] by simp
  with assms show ?thesis
    by (simp add: sshFxpWritePacket_UnmarshalBinary_def sshFxpWritePacket_MarshalBinary_def
        marshal_acc slice_upto_def)
qed

lemma sshFxpDataPacket_roundtrip:
  assumes "unat (sshFxpDataPacket.Length p) = length (sshFxpDataPacket.Data p)"
  shows "\<exists>bb. sshFxpDataPacket_MarshalBinary T p = Some (bb, None) \<and> bb \<noteq> [] \<and>
    sshFxpDataPacket_UnmarshalBinary p0 (tl bb) = Some (p, None)"
proof -
  have "(of_nat (length (sshFxpDataPacket.Data p)) :: uint32) = sshFxpDataPacket.Length p"
    using assms [symmetric] by simp
  with assms show ?thesis
    by (simp add: sshFxpDataPacket_UnmarshalBinary_def sshFxpDataPacket_MarshalBinary_def
        marshal_acc slice_upto_def copy_make_bytes)
qed

lemma sshFxpSetstatPacket_roundtrip:
  assumes "length (sshFxpSetstatPacket.Path p) < 2 ^ 32" "is_bytes (sshFxpSetstatPacket.Attrs p)"
  shows "\<exists>bb. sshFxpSetstatPacket_MarshalBinary T mfi p = Some (bb, None) \<and> bb \<noteq> [] \<and>
    sshFxpSetstatPacket_UnmarshalBinary p0 (tl bb) = Some (p, None)"
proof -
  from assms(2) obtain a where "sshFxpSetstatPacket.Attrs p = V_bytes a"
    using is_bytes_V_bytes by blast
  with assms(1) show ?thesis
    by (simp add: sshFxpSetstatPacket_MarshalBinary_def sshFxpSetstatPacket_ok_iff marshal_acc)
qed

lemma sshFxpFsetstatPacket_roundtrip:
  assumes "length (sshFxpFsetstatPacket.Handle p) < 2 ^ 32"
    "is_bytes (sshFxpFsetstatPacket.Attrs p)"
  shows "\<exists>bb. sshFxpFsetstatPacket_MarshalBinary T mfi p = Some (bb, None) \<and> bb \<noteq> [] \<and>
    sshFxpFsetstatPacket_UnmarshalBinary p0 (tl bb) = Some (p, None)"
proof -
  from assms(2) obtain a where "sshFxpFsetstatPacket.Attrs p = V_bytes a"
    using is_bytes_V_bytes by blast
  with assms(1) show ?thesis
    by (simp add: sshFxpFsetstatPacket_MarshalBinary_def sshFxpFsetstatPacket_ok_iff marshal_acc)
qed

text \<open>
  Claim C4, as amended. For every kind with both methods and every packet \<open>p\<close> of it
  whose strings are shorter than \<open>2 ^ 32\<close> bytes, whose \<^verbatim>\<open>Length\<close> (WRITE, DATA) is the
  length of its \<^verbatim>\<open>Data\<close>, and whose \<^verbatim>\<open>Attrs\<close> (SETSTAT, FSETSTAT) are a \<^verbatim>\<open>[]byte\<close>:
  \<^verbatim>\<open>MarshalBinary\<close> returns bytes without error, and \<^verbatim>\<open>UnmarshalBinary\<close> on a zero-valued
  packet of the kind, given those bytes without the leading tag byte, succeeds and leaves
  the receiver equal to \<open>p\<close>. Empty strings, zero and maximal integers and an empty
  extension list are among these packets.
\<close>

theorem unmarshal_marshal_roundtrip:
  assumes "representable p"
  shows "\<exists>bb. MarshalBinary T mfi p = Some (bb, None) \<and> bb \<noteq> [] \<and>
    UnmarshalBinary (zero_value p) (tl bb) = Some (p, None)"
proof (cases p)
  case (P_Init x)
  with assms sshFxInitPacket_roundtrip [of x T] show ?thesis
    by (simp add: sshFxInitPacket_MarshalBinary_def Extensions_marshal_nonempty)
next
  case (P_Readdir x)
  with assms show ?thesis
    by (simp add: sshFxpReaddirPacket_MarshalBinary_def sshFxpReaddirPacket_ok_iff
        marshalIdString_body prod_eq_iff)
next
  case (P_Opendir x)
  with assms show ?thesis
    by (simp add: sshFxpOpendirPacket_MarshalBinary_def sshFxpOpendirPacket_ok_iff
        marshalIdString_body prod_eq_iff)
next
  case (P_Lstat x)
  with assms show ?thesis
    by (simp add: sshFxpLstatPacket_MarshalBinary_def sshFxpLstatPacket_ok_iff
        marshalIdString_body prod_eq_iff)
next
  case (P_Stat x)
  with assms show ?thesis
    by (simp add: sshFxpStatPacket_MarshalBinary_def sshFxpStatPacket_ok_iff
        marshalIdString_body prod_eq_iff)
next
  case (P_Fstat x)
  with assms show ?thesis
    by (simp add: sshFxpFstatPacket_MarshalBinary_def sshFxpFstatPacket_ok_iff
        marshalIdString_body prod_eq_iff)
next
  case (P_Close x)
  with assms show ?thesis
    by (simp add: sshFxpClosePacket_MarshalBinary_def sshFxpClosePacket_ok_iff
        marshalIdString_body prod_eq_iff)
next
  case (P_Remove x)
  with assms show ?thesis
    by (simp add: sshFxpRemovePacket_MarshalBinary_def sshFxpRemovePacket_ok_iff
        marshalIdString_body prod_eq_iff)
next
  case (P_Rmdir x)
  with assms show ?thesis
    by (simp add: sshFxpRmdirPacket_MarshalBinary_def sshFxpRmdirPacket_ok_iff
        marshalIdString_body prod_eq_iff)
next
  case (P_Symlink x)
  with assms show ?thesis
    by (simp add: sshFxpSymlinkPacket_MarshalBinary_def sshFxpSymlinkPacket_ok_iff marshal_acc)
next
  case (P_Readlink x)
  with assms show ?thesis
    by (simp add: sshFxpReadlinkPacket_MarshalBinary_def sshFxpReadlinkPacket_ok_iff
        marshalIdString_body prod_eq_iff)
next
  case (P_Realpath x)
  with assms show ?thesis
    by (simp add: sshFxpRealpathPacket_MarshalBinary_def sshFxpRealpathPacket_ok_iff
        marshalIdString_body prod_eq_iff)
next
  case (P_Open x)
  with assms show ?thesis
    by (simp add: sshFxpOpenPacket_MarshalBinary_def sshFxpOpenPacket_ok_iff marshal_acc)
next
  case (P_Read x)
  with assms show ?thesis
    by (simp add: sshFxpReadPacket_MarshalBinary_def sshFxpReadPacket_ok_iff marshal_acc)
next
  case (P_Rename x)
  with assms show ?thesis
    by (simp add: sshFxpRenamePacket_MarshalBinary_def sshFxpRenamePacket_ok_iff marshal_acc)
next
  case (P_Write x)
  with assms sshFxpWritePacket_roundtrip [of x _ T] show ?thesis
    by (simp add: sshFxpWritePacket_MarshalBinary_def)
next
  case (P_Mkdir x)
  with assms show ?thesis
    by (simp add: sshFxpMkdirPacket_MarshalBinary_def sshFxpMkdirPacket_ok_iff marshal_acc)
next
  case (P_Setstat x)
  with assms sshFxpSetstatPacket_roundtrip [of x T mfi] show ?thesis
    by auto
next
  case (P_Fsetstat x)
  with assms sshFxpFsetstatPacket_roundtrip [of x T mfi] show ?thesis
    by auto
next
  case (P_Data x)
  with assms sshFxpDataPacket_roundtrip [of x T] show ?thesis
    by auto
qed

theorem unmarshal_marshal_roundtrip_witness:
  "representable (P_Open \<lparr>sshFxpOpenPacket.Id = 7, Path = bytes_of ''/tmp/x'', Pflags = 1, Flags = 0\<rparr>) \<and>
   MarshalBinary filexfer_tags (\<lambda>b fi. None)
       (P_Open \<lparr>sshFxpOpenPacket.Id = 7, Path = bytes_of ''/tmp/x'', Pflags = 1, Flags = 0\<rparr>)
     = Some ([3, 0, 0, 0, 7, 0, 0, 0, 6, 47, 116, 109, 112, 47, 120, 0, 0, 0, 1, 0, 0, 0, 0], None) \<and>
   UnmarshalBinary (P_Open \<lparr>sshFxpOpenPacket.Id = 0, Path = [], Pflags = 0, Flags = 0\<rparr>)
       [0, 0, 0, 7, 0, 0, 0, 6, 47, 116, 109, 112, 47, 120, 0, 0, 0, 1, 0, 0, 0, 0]
     = Some (P_Open \<lparr>sshFxpOpenPacket.Id = 7, Path = bytes_of ''/tmp/x'', Pflags = 1, Flags = 0\<rparr>,
             None)"
proof -
  let ?p = "P_Open \<lparr>sshFxpOpenPacket.Id = 7, Path = bytes_of ''/tmp/x'', Pflags = 1, Flags = 0\<rparr>"
  have r: "representable ?p"
    by (simp add: bytes_of_def)
  have m: "MarshalBinary filexfer_tags (\<lambda>b fi. None) ?p
     = Some ([3, 0, 0, 0, 7, 0, 0, 0, 6, 47, 116, 109, 112, 47, 120, 0, 0, 0, 1, 0, 0, 0, 0], None)"
    by (simp add: sshFxpOpenPacket_MarshalBinary_def filexfer_tags_def marshalUint32_def
        marshalString_def bytes_of_def)
  from unmarshal_marshal_roundtrip [OF r, of filexfer_tags "\<lambda>b fi. None"] r m
  show ?thesis by simp
qed

text \<open>
  The claim as stated fails: a WRITE packet whose \<^verbatim>\<open>Length\<close> is 0 and whose \<^verbatim>\<open>Data\<close> has one
  byte decodes to a packet without data; with \<^verbatim>\<open>Length\<close> 2 and one byte of data the decode
  fails; SETSTAT with \<^verbatim>\<open>nil\<close> attributes decodes to attributes that are an empty
  \<^verbatim>\<open>[]byte\<close>; a CLOSE packet whose handle has \<open>2 ^ 32\<close> bytes decodes to one with the
  empty handle.
\<close>

theorem roundtrip_counterexample:
  "sshFxpWritePacket_UnmarshalBinary
       \<lparr>sshFxpWritePacket.Id = 0, Handle = [], Offset = 0, Length = 0, Data = []\<rparr>
       (tl (fst (sshFxpWritePacket_MarshalBinary filexfer_tags
          \<lparr>sshFxpWritePacket.Id = 1, Handle = [], Offset = 0, Length = 0, Data = [9]\<rparr>)))
     = Some (\<lparr>sshFxpWritePacket.Id = 1, Handle = [], Offset = 0, Length = 0, Data = []\<rparr>, None) \<and>
   sshFxpWritePacket_UnmarshalBinary
       \<lparr>sshFxpWritePacket.Id = 0, Handle = [], Offset = 0, Length = 0, Data = []\<rparr>
       (tl (fst (sshFxpWritePacket_MarshalBinary filexfer_tags
          \<lparr>sshFxpWritePacket.Id = 1, Handle = [], Offset = 0, Length = 2, Data = [9]\<rparr>)))
     = Some (\<lparr>sshFxpWritePacket.Id = 1, Handle = [], Offset = 0, Length = 2, Data = []\<rparr>,
             Some shortPacketError) \<and>
   sshFxpSetstatPacket_MarshalBinary filexfer_tags (\<lambda>b fi. None)
       \<lparr>sshFxpSetstatPacket.Id = 1, Path = [], Flags = 0, Attrs = V_nil\<rparr>
     = Some ([9, 0, 0, 0, 1, 0, 0, 0, 0, 0, 0, 0, 0], None) \<and>
   sshFxpSetstatPacket_UnmarshalBinary
       \<lparr>sshFxpSetstatPacket.Id = 0, Path = [], Flags = 0, Attrs = V_nil\<rparr>
       [0, 0, 0, 1, 0, 0, 0, 0, 0, 0, 0, 0]
     = Some (\<lparr>sshFxpSetstatPacket.Id = 1, Path = [], Flags = 0, Attrs = V_slice []\<rparr>, None) \<and>
   sshFxpClosePacket_UnmarshalBinary \<lparr>sshFxpClosePacket.Id = 0, Handle = []\<rparr>
       (tl (fst (sshFxpClosePacket_MarshalBinary filexfer_tags
          \<lparr>sshFxpClosePacket.Id = 1, Handle = replicate (2 ^ 32) 0\<rparr>)))
     = Some (\<lparr>sshFxpClosePacket.Id = 1, Handle = []\<rparr>, None)"
proof (intro conjI)
  show "sshFxpWritePacket_UnmarshalBinary
       \<lparr>sshFxpWritePacket.Id = 0, Handle = [], Offset = 0, Length = 0, Data = []\<rparr>
       (tl (fst (sshFxpWritePacket_MarshalBinary filexfer_tags
          \<lparr>sshFxpWritePacket.Id = 1, Handle = [], Offset = 0, Length = 0, Data = [9]\<rparr>)))
     = Some (\<lparr>sshFxpWritePacket.Id = 1, Handle = [], Offset = 0, Length = 0, Data = []\<rparr>, None)"
    by (simp add: sshFxpWritePacket_UnmarshalBinary_def sshFxpWritePacket_MarshalBinary_def
        marshal_acc slice_upto_def)
  show "sshFxpWritePacket_UnmarshalBinary
       \<lparr>sshFxpWritePacket.Id = 0, Handle = [], Offset = 0, Length = 0, Data = []\<rparr>
       (tl (fst (sshFxpWritePacket_MarshalBinary filexfer_tags
          \<lparr>sshFxpWritePacket.Id = 1, Handle = [], Offset = 0, Length = 2, Data = [9]\<rparr>)))
     = Some (\<lparr>sshFxpWritePacket.Id = 1, Handle = [], Offset = 0, Length = 2, Data = []\<rparr>,
             Some shortPacketError)"
    by (simp add: sshFxpWritePacket_UnmarshalBinary_def sshFxpWritePacket_MarshalBinary_def
        marshal_acc slice_upto_def)
  show "sshFxpSetstatPacket_MarshalBinary filexfer_tags (\<lambda>b fi. None)
       \<lparr>sshFxpSetstatPacket.Id = 1, Path = [], Flags = 0, Attrs = V_nil\<rparr>
     = Some ([9, 0, 0, 0, 1, 0, 0, 0, 0, 0, 0, 0, 0], None)"
    by (simp add: sshFxpSetstatPacket_MarshalBinary_def filexfer_tags_def marshalUint32_def
        marshalString_def)
  have "[0, 0, 0, 1, 0, 0, 0, 0, 0, 0, 0, 0]
      = marshalUint32 [] 1 @ marshalString [] [] @ marshalUint32 [] 0 @ []"
    by (simp add: marshalUint32_def marshalString_def)
  then show "sshFxpSetstatPacket_UnmarshalBinary
       \<lparr>sshFxpSetstatPacket.Id = 0, Path = [], Flags = 0, Attrs = V_nil\<rparr>
       [0, 0, 0, 1, 0, 0, 0, 0, 0, 0, 0, 0]
     = Some (\<lparr>sshFxpSetstatPacket.Id = 1, Path = [], Flags = 0, Attrs = V_slice []\<rparr>, None)"
    by (simp add: sshFxpSetstatPacket_ok_iff V_bytes_def)
  have "marshalString [] (replicate (2 ^ 32) 0) = marshalString [] [] @ replicate (2 ^ 32) 0"
    by (simp add: marshalString_def marshalUint32_def)
  then have "tl (fst (sshFxpClosePacket_MarshalBinary filexfer_tags
          \<lparr>sshFxpClosePacket.Id = 1, Handle = replicate (2 ^ 32) 0\<rparr>))
      = marshalUint32 [] 1 @ marshalString [] [] @ replicate (2 ^ 32) 0"
    by (simp add: sshFxpClosePacket_MarshalBinary_def marshalIdString_body)
  then show "sshFxpClosePacket_UnmarshalBinary \<lparr>sshFxpClosePacket.Id = 0, Handle = []\<rparr>
       (tl (fst (sshFxpClosePacket_MarshalBinary filexfer_tags
          \<lparr>sshFxpClosePacket.Id = 1, Handle = replicate (2 ^ 32) 0\<rparr>)))
     = Some (\<lparr>sshFxpClosePacket.Id = 1, Handle = []\<rparr>, None)"
    by (simp add: sshFxpClosePacket_ok_iff)
qed

section \<open>Trailing bytes\<close>

lemma unmarshalExtensionPair_ok_iff:
  "unmarshalExtensionPair b = Some (ep, r, None) \<longleftrightarrow>
   length (ExtensionPair.Name ep) < 2 ^ 32 \<and> length (ExtensionPair.Data ep) < 2 ^ 32 \<and>
   b = marshalString [] (ExtensionPair.Name ep) @ marshalString [] (ExtensionPair.Data ep) @ r"
  (is "?L \<longleftrightarrow> ?R")
proof
  assume ?L
  then show ?R
    by (auto simp add: unmarshalExtensionPair_def unmarshal_ok_iff Let_def
        split: Option.bind_splits if_splits)
next
  assume ?R
  then show ?L
    by (simp add: unmarshalExtensionPair_marshal)
qed

lemma sshFxInitPacket_UnmarshalBinary_loop_trailing:
  "sshFxInitPacket_UnmarshalBinary_loop q b = Some (p, None) \<Longrightarrow>
   sshFxInitPacket_UnmarshalBinary_loop q (b @ x) = sshFxInitPacket_UnmarshalBinary_loop p x"
proof (induction q b rule: sshFxInitPacket_UnmarshalBinary_loop.induct)
  case (1 q b)
  show ?case
  proof (cases "b = []")
    case True
    with "1.prems" show ?thesis
      by (simp add: sshFxInitPacket_UnmarshalBinary_loop.simps)
  next
    case False
    with "1.prems" obtain ep b'
      where ep: "unmarshalExtensionPair b = Some (ep, b', None)"
        and rest: "sshFxInitPacket_UnmarshalBinary_loop
          (q\<lparr>sshFxInitPacket.Extensions := sshFxInitPacket.Extensions q @ [ep]\<rparr>) b'
            = Some (p, None)"
      by (subst (asm) sshFxInitPacket_UnmarshalBinary_loop.simps)
        (auto split: option.splits if_splits)
    from ep have "unmarshalExtensionPair (b @ x) = Some (ep, b' @ x, None)"
      by (simp add: unmarshalExtensionPair_ok_iff)
    with False have "sshFxInitPacket_UnmarshalBinary_loop q (b @ x)
      = sshFxInitPacket_UnmarshalBinary_loop
          (q\<lparr>sshFxInitPacket.Extensions := sshFxInitPacket.Extensions q @ [ep]\<rparr>) (b' @ x)"
      by (subst sshFxInitPacket_UnmarshalBinary_loop.simps) simp
    also have "\<dots> = sshFxInitPacket_UnmarshalBinary_loop p x"
      using False ep rest by (intro "1.IH") auto
    finally show ?thesis .
  qed
qed

lemma sshFxInitPacket_trailing:
  assumes "sshFxInitPacket_UnmarshalBinary q b = Some (p, None)"
  shows "sshFxInitPacket_UnmarshalBinary q (b @ x) = sshFxInitPacket_UnmarshalBinary_loop p x"
proof -
  from assms obtain v r
    where v: "b = marshalUint32 [] v @ r"
      and l: "sshFxInitPacket_UnmarshalBinary_loop (q\<lparr>sshFxInitPacket.Version := v\<rparr>) r
        = Some (p, None)"
    by (auto simp add: sshFxInitPacket_UnmarshalBinary_def unmarshal_ok_iff Let_def
        split: Option.bind_splits if_splits)
  show ?thesis
    unfolding v
    by (simp add: sshFxInitPacket_UnmarshalBinary_def
        sshFxInitPacket_UnmarshalBinary_loop_trailing [OF l])
qed

lemma sshFxpWritePacket_trailing:
  assumes "sshFxpWritePacket_UnmarshalBinary q b = Some (p, None)" "length (b @ x) < 2 ^ 32"
  shows "sshFxpWritePacket_UnmarshalBinary q (b @ x) = Some (p, None)"
proof -
  from assms(2) have "length b < 2 ^ 32" by simp
  from assms(1) show ?thesis
    unfolding sshFxpWritePacket_ok_iff [OF assms(2)] sshFxpWritePacket_ok_iff [OF \<open>length b < 2 ^ 32\<close>]
    by auto
qed

lemma sshFxpDataPacket_trailing:
  assumes "sshFxpDataPacket_UnmarshalBinary q b = Some (p, None)" "length (b @ x) < 2 ^ 32"
  shows "sshFxpDataPacket_UnmarshalBinary q (b @ x) = Some (p, None)"
proof -
  from assms(2) have "length b < 2 ^ 32" by simp
  from assms(1) show ?thesis
    unfolding sshFxpDataPacket_ok_iff [OF assms(2)] sshFxpDataPacket_ok_iff [OF \<open>length b < 2 ^ 32\<close>]
    by auto
qed

lemmas fixed_ok_iff =
  sshFxpReaddirPacket_ok_iff sshFxpOpendirPacket_ok_iff sshFxpLstatPacket_ok_iff
  sshFxpStatPacket_ok_iff sshFxpFstatPacket_ok_iff sshFxpClosePacket_ok_iff
  sshFxpRemovePacket_ok_iff sshFxpRmdirPacket_ok_iff sshFxpSymlinkPacket_ok_iff
  sshFxpReadlinkPacket_ok_iff sshFxpRealpathPacket_ok_iff sshFxpOpenPacket_ok_iff
  sshFxpReadPacket_ok_iff sshFxpRenamePacket_ok_iff sshFxpMkdirPacket_ok_iff

lemma fixed_layout_trailing:
  assumes "fixed_layout q" "UnmarshalBinary q b = Some (p, None)"
    "declares_length q \<longrightarrow> length (b @ x) < 2 ^ 32"
  shows "UnmarshalBinary q (b @ x) = Some (p, None)"
proof (cases q)
  case (P_Write w)
  with assms sshFxpWritePacket_trailing [of w b _ x] show ?thesis by auto
next
  case (P_Data d)
  with assms sshFxpDataPacket_trailing [of d b _ x] show ?thesis by auto
qed (use assms in \<open>auto simp add: fixed_ok_iff\<close>)

subsection \<open>The extension loop of INIT on every buffer\<close>

lemma unmarshalExtensionPair_total:
  "\<exists>ep r e. unmarshalExtensionPair b = Some (ep, r, e) \<and> (e = None \<or> e = Some shortPacketError)"
proof -
  obtain v1 r1 e1 where 1: "unmarshalStringSafe b = Some (v1, r1, e1)"
    "e1 = None \<or> e1 = Some shortPacketError"
    using unmarshalStringSafe_total by blast
  obtain v2 r2 e2 where 2: "unmarshalStringSafe r1 = Some (v2, r2, e2)"
    "e2 = None \<or> e2 = Some shortPacketError"
    using unmarshalStringSafe_total by blast
  from 1 2 show ?thesis
    by (auto simp add: unmarshalExtensionPair_def Let_def)
qed

lemma sshFxInitPacket_UnmarshalBinary_loop_total:
  "\<exists>p e. sshFxInitPacket_UnmarshalBinary_loop q b = Some (p, e) \<and>
     (e = None \<or> e = Some shortPacketError)"
proof (induction q b rule: sshFxInitPacket_UnmarshalBinary_loop.induct)
  case (1 q b)
  show ?case
  proof (cases "b = []")
    case True
    then show ?thesis
      by (simp add: sshFxInitPacket_UnmarshalBinary_loop.simps)
  next
    case False
    obtain ep r e where ep: "unmarshalExtensionPair b = Some (ep, r, e)"
      "e = None \<or> e = Some shortPacketError"
      using unmarshalExtensionPair_total by blast
    show ?thesis
    proof (cases e)
      case None
      with False ep have "\<exists>p e. sshFxInitPacket_UnmarshalBinary_loop
          (q\<lparr>sshFxInitPacket.Extensions := sshFxInitPacket.Extensions q @ [ep]\<rparr>) r = Some (p, e) \<and>
          (e = None \<or> e = Some shortPacketError)"
        by (intro "1.IH") auto
      with False ep None show ?thesis
        by (subst sshFxInitPacket_UnmarshalBinary_loop.simps) simp
    next
      case (Some a)
      with False ep show ?thesis
        by (subst sshFxInitPacket_UnmarshalBinary_loop.simps) auto
    qed
  qed
qed

lemma sshFxInitPacket_UnmarshalBinary_loop_ok_iff:
  "sshFxInitPacket_UnmarshalBinary_loop q b = Some (p, None) \<longleftrightarrow>
   (\<exists>es. list_all (\<lambda>e. length (ExtensionPair.Name e) < 2 ^ 32 \<and>
             length (ExtensionPair.Data e) < 2 ^ 32) es \<and>
         b = Extensions_marshal [] es \<and>
         p = q\<lparr>sshFxInitPacket.Extensions := sshFxInitPacket.Extensions q @ es\<rparr>)"
  (is "?L q b \<longleftrightarrow> ?R q b")
proof
  assume "?R q b"
  then show "?L q b"
    using sshFxInitPacket_UnmarshalBinary_loop_marshal by auto
next
  assume "?L q b"
  then show "?R q b"
  proof (induction q b rule: sshFxInitPacket_UnmarshalBinary_loop.induct)
    case (1 q b)
    show ?case
    proof (cases "b = []")
      case True
      with "1.prems" have "p = q"
        by (simp add: sshFxInitPacket_UnmarshalBinary_loop.simps)
      with True show ?thesis
        by (intro exI [of _ "[]"]) simp
    next
      case False
      with "1.prems" obtain ep b'
        where ep: "unmarshalExtensionPair b = Some (ep, b', None)"
          and rest: "sshFxInitPacket_UnmarshalBinary_loop
            (q\<lparr>sshFxInitPacket.Extensions := sshFxInitPacket.Extensions q @ [ep]\<rparr>) b'
              = Some (p, None)"
        by (subst (asm) sshFxInitPacket_UnmarshalBinary_loop.simps)
          (auto split: option.splits if_splits)
      from False ep rest
      have "?R (q\<lparr>sshFxInitPacket.Extensions := sshFxInitPacket.Extensions q @ [ep]\<rparr>) b'"
        by (intro "1.IH") auto
      then obtain es
        where es: "list_all (\<lambda>e. length (ExtensionPair.Name e) < 2 ^ 32 \<and>
             length (ExtensionPair.Data e) < 2 ^ 32) es"
          "b' = Extensions_marshal [] es"
          "p = q\<lparr>sshFxInitPacket.Extensions := sshFxInitPacket.Extensions q @ ep # es\<rparr>"
        by auto
      from ep have e: "length (ExtensionPair.Name ep) < 2 ^ 32"
        "length (ExtensionPair.Data ep) < 2 ^ 32"
        "b = marshalString [] (ExtensionPair.Name ep) @ marshalString [] (ExtensionPair.Data ep) @ b'"
        by (simp_all add: unmarshalExtensionPair_ok_iff)
      have "Extensions_marshal [] (ep # es)
          = marshalString [] (ExtensionPair.Name ep) @ marshalString [] (ExtensionPair.Data ep)
              @ Extensions_marshal [] es"
        using Extensions_marshal_append
          [of "marshalString (marshalString [] (ExtensionPair.Name ep)) (ExtensionPair.Data ep)" es]
        by (simp add: marshal_acc)
      with e es show ?thesis
        by (intro exI [of _ "ep # es"]) simp
    qed
  qed
qed

subsection \<open>A marshalled body followed by trailing bytes\<close>

lemma length_guard:
  fixes n :: uint32
  shows "of_nat k < n \<longleftrightarrow> k mod 2 ^ 32 < unat n"
  by (simp add: word_less_nat_alt unat_of_nat)

lemma sshFxpWritePacket_body_trailing:
  assumes "length (sshFxpWritePacket.Handle w) < 2 ^ 32"
    and "unat (sshFxpWritePacket.Length w) = length (sshFxpWritePacket.Data w)"
  shows "sshFxpWritePacket_UnmarshalBinary w0
      (tl (fst (sshFxpWritePacket_MarshalBinary T w)) @ x) =
    (if length (sshFxpWritePacket.Data w)
          \<le> (length (sshFxpWritePacket.Data w) + length x) mod 2 ^ 32
     then Some (w, None)
     else Some (w\<lparr>sshFxpWritePacket.Data := sshFxpWritePacket.Data w0\<rparr>, Some shortPacketError))"
proof -
  have g: "(of_nat (length (sshFxpWritePacket.Data w @ x)) :: uint32) < sshFxpWritePacket.Length w
      \<longleftrightarrow> \<not> length (sshFxpWritePacket.Data w)
          \<le> (length (sshFxpWritePacket.Data w) + length x) mod 2 ^ 32"
    unfolding length_guard assms(2) by auto
  have b: "tl (fst (sshFxpWritePacket_MarshalBinary T w)) @ x
      = marshalUint32 [] (sshFxpWritePacket.Id w) @ marshalString [] (sshFxpWritePacket.Handle w)
          @ marshalUint64 [] (sshFxpWritePacket.Offset w)
          @ marshalUint32 [] (sshFxpWritePacket.Length w) @ (sshFxpWritePacket.Data w @ x)"
    by (simp add: sshFxpWritePacket_MarshalBinary_def marshal_acc)
  have l: "length (sshFxpWritePacket.Data w) \<le> length (sshFxpWritePacket.Data w @ x)"
    by simp
  show ?thesis
    unfolding b using assms
    by (simp add: sshFxpWritePacket_UnmarshalBinary_def slice_upto_def g l Let_def
        del: length_append)
qed

lemma sshFxpDataPacket_body_trailing:
  assumes "unat (sshFxpDataPacket.Length d) = length (sshFxpDataPacket.Data d)"
  shows "\<exists>bb. sshFxpDataPacket_MarshalBinary T d = Some (bb, None) \<and>
    (if length (sshFxpDataPacket.Data d) \<le> (length (sshFxpDataPacket.Data d) + length x) mod 2 ^ 32
     then sshFxpDataPacket_UnmarshalBinary d0 (tl bb @ x) = Some (d, None)
     else \<exists>e. sshFxpDataPacket_UnmarshalBinary d0 (tl bb @ x)
            = Some (d\<lparr>sshFxpDataPacket.Data := sshFxpDataPacket.Data d0\<rparr>, Some e))"
proof -
  have g: "(of_nat (length (sshFxpDataPacket.Data d @ x)) :: uint32) < sshFxpDataPacket.Length d
      \<longleftrightarrow> \<not> length (sshFxpDataPacket.Data d)
          \<le> (length (sshFxpDataPacket.Data d) + length x) mod 2 ^ 32"
    unfolding length_guard assms by auto
  have c: "copy (make_bytes (length (sshFxpDataPacket.Data d))) (sshFxpDataPacket.Data d @ x)
      = sshFxpDataPacket.Data d"
    by (simp add: copy_make_bytes)
  have m: "sshFxpDataPacket_MarshalBinary T d
      = Some (ssh_FXP_DATA T # marshalUint32 [] (sshFxpDataPacket.Id d)
          @ marshalUint32 [] (sshFxpDataPacket.Length d) @ sshFxpDataPacket.Data d, None)"
    using assms by (simp add: sshFxpDataPacket_MarshalBinary_def marshal_acc slice_upto_def)
  have "sshFxpDataPacket_UnmarshalBinary d0
      (marshalUint32 [] (sshFxpDataPacket.Id d) @ marshalUint32 [] (sshFxpDataPacket.Length d)
         @ (sshFxpDataPacket.Data d @ x)) =
    (if length (sshFxpDataPacket.Data d) \<le> (length (sshFxpDataPacket.Data d) + length x) mod 2 ^ 32
     then Some (d, None)
     else Some (d\<lparr>sshFxpDataPacket.Data := sshFxpDataPacket.Data d0\<rparr>,
                Some (Errorf ''truncated packet'')))"
    using assms
    by (simp add: sshFxpDataPacket_UnmarshalBinary_def c g Let_def del: length_append)
  then show ?thesis
    unfolding m by simp
qed

lemma sshFxpSetstatPacket_body_trailing:
  assumes "length (sshFxpSetstatPacket.Path s) < 2 ^ 32" "is_bytes (sshFxpSetstatPacket.Attrs s)"
  shows "\<exists>bb a. sshFxpSetstatPacket_MarshalBinary T mfi s = Some (bb, None) \<and>
    sshFxpSetstatPacket.Attrs s = V_bytes a \<and>
    sshFxpSetstatPacket_UnmarshalBinary s0 (tl bb @ x)
      = Some (s\<lparr>sshFxpSetstatPacket.Attrs := V_bytes (a @ x)\<rparr>, None)"
proof -
  from assms(2) obtain a where "sshFxpSetstatPacket.Attrs s = V_bytes a"
    using is_bytes_V_bytes by blast
  with assms(1) show ?thesis
    by (simp add: sshFxpSetstatPacket_MarshalBinary_def sshFxpSetstatPacket_ok_iff marshal_acc)
      (rule exI [of _ a], simp)
qed

lemma sshFxpFsetstatPacket_body_trailing:
  assumes "length (sshFxpFsetstatPacket.Handle s) < 2 ^ 32"
    "is_bytes (sshFxpFsetstatPacket.Attrs s)"
  shows "\<exists>bb a. sshFxpFsetstatPacket_MarshalBinary T mfi s = Some (bb, None) \<and>
    sshFxpFsetstatPacket.Attrs s = V_bytes a \<and>
    sshFxpFsetstatPacket_UnmarshalBinary s0 (tl bb @ x)
      = Some (s\<lparr>sshFxpFsetstatPacket.Attrs := V_bytes (a @ x)\<rparr>, None)"
proof -
  from assms(2) obtain a where "sshFxpFsetstatPacket.Attrs s = V_bytes a"
    using is_bytes_V_bytes by blast
  with assms(1) show ?thesis
    by (simp add: sshFxpFsetstatPacket_MarshalBinary_def sshFxpFsetstatPacket_ok_iff marshal_acc)
      (rule exI [of _ a], simp)
qed

lemma sshFxInitPacket_body_trailing:
  assumes "list_all (\<lambda>e. length (ExtensionPair.Name e) < 2 ^ 32 \<and>
             length (ExtensionPair.Data e) < 2 ^ 32) (sshFxInitPacket.Extensions i)"
  shows "sshFxInitPacket_UnmarshalBinary \<lparr>sshFxInitPacket.Version = 0, Extensions = []\<rparr>
      (tl (fst (sshFxInitPacket_MarshalBinary T i)) @ x)
    = sshFxInitPacket_UnmarshalBinary_loop i x"
  using sshFxInitPacket_trailing [OF sshFxInitPacket_roundtrip [OF assms]] .

lemma fixed_layout_body_trailing:
  assumes "representable p" "fixed_layout p" "\<not> declares_length p"
  shows "\<exists>bb. MarshalBinary T mfi p = Some (bb, None) \<and>
    UnmarshalBinary (zero_value p) (tl bb) = Some (p, None) \<and>
    UnmarshalBinary (zero_value p) (tl bb @ x) = Some (p, None)"
proof -
  from unmarshal_marshal_roundtrip [OF assms(1), of T mfi] obtain bb
    where bb: "MarshalBinary T mfi p = Some (bb, None)"
      "UnmarshalBinary (zero_value p) (tl bb) = Some (p, None)"
    by blast
  have "fixed_layout (zero_value p)" "\<not> declares_length (zero_value p)"
    using assms(2,3) by (cases p; simp)+
  with fixed_layout_trailing [of "zero_value p" "tl bb" p x] bb show ?thesis
    by simp
qed

lemma Extensions_marshal_length:
  assumes "es \<noteq> []"
  shows "8 \<le> length (Extensions_marshal b es)"
proof -
  from assms obtain e es' where es: "es = e # es'"
    by (cases es) auto
  show ?thesis
    unfolding es
    using Extensions_marshal_append
      [of "marshalString (marshalString b (ExtensionPair.Name e)) (ExtensionPair.Data e)" es']
    by simp
qed

text \<open>
  Claim C6, as amended. Take a packet \<open>p\<close> whose fields the wire format can carry, the
  body that its marshaller produces (all the declared fields of the kind), and any
  trailing bytes \<open>x\<close>.
  \<^item> For every kind with a fixed layout other than WRITE and DATA, decoding the body followed
    by \<open>x\<close> into a zero-valued packet succeeds and gives \<open>p\<close>, as decoding the body alone
    does: the trailing bytes are ignored.
  \<^item> For WRITE and DATA the same holds exactly when the length guard passes on the data
    followed by \<open>x\<close>, that is when \<open>length Data \<le> (length Data + length x) mod 2 ^ 32\<close>
    (so whenever data and trailing bytes together are shorter than \<open>2 ^ 32\<close> bytes);
    otherwise the decode fails, WRITE with \<^verbatim>\<open>shortPacketError\<close>, and leaves \<^verbatim>\<open>Data\<close> as it
    was in the receiver.
  \<^item> For SETSTAT and FSETSTAT the decode succeeds with the same id, string and flags, and
    \<^verbatim>\<open>Attrs\<close> are the attribute bytes followed by \<open>x\<close>.
  \<^item> For INIT the trailing bytes are not ignored. The decode never panics and its only
    error is \<^verbatim>\<open>shortPacketError\<close>; it succeeds exactly when \<open>x\<close> is a sequence of
    well-formed extension pairs, which are then appended to \<^verbatim>\<open>Extensions\<close>, and fails with
    \<^verbatim>\<open>shortPacketError\<close> otherwise.
\<close>

theorem trailing_bytes:
  "(representable p \<and> fixed_layout p \<and> \<not> declares_length p \<longrightarrow>
      (\<exists>bb. MarshalBinary T mfi p = Some (bb, None) \<and>
         UnmarshalBinary (zero_value p) (tl bb) = Some (p, None) \<and>
         UnmarshalBinary (zero_value p) (tl bb @ x) = Some (p, None))) \<and>
   (representable (P_Write w) \<longrightarrow>
      sshFxpWritePacket_UnmarshalBinary rw (tl (fst (sshFxpWritePacket_MarshalBinary T w)) @ x) =
        (if length (sshFxpWritePacket.Data w)
              \<le> (length (sshFxpWritePacket.Data w) + length x) mod 2 ^ 32
         then Some (w, None)
         else Some (w\<lparr>sshFxpWritePacket.Data := sshFxpWritePacket.Data rw\<rparr>,
                    Some shortPacketError))) \<and>
   (representable (P_Data d) \<longrightarrow>
      (\<exists>bb. sshFxpDataPacket_MarshalBinary T d = Some (bb, None) \<and>
         (if length (sshFxpDataPacket.Data d)
               \<le> (length (sshFxpDataPacket.Data d) + length x) mod 2 ^ 32
          then sshFxpDataPacket_UnmarshalBinary rd (tl bb @ x) = Some (d, None)
          else \<exists>e. sshFxpDataPacket_UnmarshalBinary rd (tl bb @ x)
                 = Some (d\<lparr>sshFxpDataPacket.Data := sshFxpDataPacket.Data rd\<rparr>, Some e)))) \<and>
   (representable (P_Setstat s) \<longrightarrow>
      (\<exists>bb a. sshFxpSetstatPacket_MarshalBinary T mfi s = Some (bb, None) \<and>
         sshFxpSetstatPacket.Attrs s = V_bytes a \<and>
         sshFxpSetstatPacket_UnmarshalBinary rs (tl bb @ x)
           = Some (s\<lparr>sshFxpSetstatPacket.Attrs := V_bytes (a @ x)\<rparr>, None))) \<and>
   (representable (P_Fsetstat f) \<longrightarrow>
      (\<exists>bb a. sshFxpFsetstatPacket_MarshalBinary T mfi f = Some (bb, None) \<and>
         sshFxpFsetstatPacket.Attrs f = V_bytes a \<and>
         sshFxpFsetstatPacket_UnmarshalBinary rf (tl bb @ x)
           = Some (f\<lparr>sshFxpFsetstatPacket.Attrs := V_bytes (a @ x)\<rparr>, None))) \<and>
   (representable (P_Init i) \<longrightarrow>
      (\<exists>q e. sshFxInitPacket_UnmarshalBinary \<lparr>sshFxInitPacket.Version = 0, Extensions = []\<rparr>
                (tl (fst (sshFxInitPacket_MarshalBinary T i)) @ x) = Some (q, e) \<and>
             (e = None \<or> e = Some shortPacketError)) \<and>
      (\<forall>i'. sshFxInitPacket_UnmarshalBinary \<lparr>sshFxInitPacket.Version = 0, Extensions = []\<rparr>
                (tl (fst (sshFxInitPacket_MarshalBinary T i)) @ x) = Some (i', None) \<longleftrightarrow>
            (\<exists>es. list_all (\<lambda>e. length (ExtensionPair.Name e) < 2 ^ 32 \<and>
                       length (ExtensionPair.Data e) < 2 ^ 32) es \<and>
                  x = Extensions_marshal [] es \<and>
                  i' = i\<lparr>sshFxInitPacket.Extensions := sshFxInitPacket.Extensions i @ es\<rparr>)) \<and>
      (\<not> (\<exists>es. list_all (\<lambda>e. length (ExtensionPair.Name e) < 2 ^ 32 \<and>
                    length (ExtensionPair.Data e) < 2 ^ 32) es \<and>
               x = Extensions_marshal [] es) \<longrightarrow>
         (\<exists>q. sshFxInitPacket_UnmarshalBinary \<lparr>sshFxInitPacket.Version = 0, Extensions = []\<rparr>
                (tl (fst (sshFxInitPacket_MarshalBinary T i)) @ x)
              = Some (q, Some shortPacketError))))"
proof (intro conjI impI allI)
  assume "representable p \<and> fixed_layout p \<and> \<not> declares_length p"
  then show "\<exists>bb. MarshalBinary T mfi p = Some (bb, None) \<and>
         UnmarshalBinary (zero_value p) (tl bb) = Some (p, None) \<and>
         UnmarshalBinary (zero_value p) (tl bb @ x) = Some (p, None)"
    using fixed_layout_body_trailing by blast
next
  assume "representable (P_Write w)"
  then show "sshFxpWritePacket_UnmarshalBinary rw
        (tl (fst (sshFxpWritePacket_MarshalBinary T w)) @ x) =
        (if length (sshFxpWritePacket.Data w)
              \<le> (length (sshFxpWritePacket.Data w) + length x) mod 2 ^ 32
         then Some (w, None)
         else Some (w\<lparr>sshFxpWritePacket.Data := sshFxpWritePacket.Data rw\<rparr>,
                    Some shortPacketError))"
    using sshFxpWritePacket_body_trailing [of w rw T x] by simp
next
  assume "representable (P_Data d)"
  then show "\<exists>bb. sshFxpDataPacket_MarshalBinary T d = Some (bb, None) \<and>
         (if length (sshFxpDataPacket.Data d)
               \<le> (length (sshFxpDataPacket.Data d) + length x) mod 2 ^ 32
          then sshFxpDataPacket_UnmarshalBinary rd (tl bb @ x) = Some (d, None)
          else \<exists>e. sshFxpDataPacket_UnmarshalBinary rd (tl bb @ x)
                 = Some (d\<lparr>sshFxpDataPacket.Data := sshFxpDataPacket.Data rd\<rparr>, Some e))"
    using sshFxpDataPacket_body_trailing [of d T x rd] by simp
next
  assume "representable (P_Setstat s)"
  then show "\<exists>bb a. sshFxpSetstatPacket_MarshalBinary T mfi s = Some (bb, None) \<and>
         sshFxpSetstatPacket.Attrs s = V_bytes a \<and>
         sshFxpSetstatPacket_UnmarshalBinary rs (tl bb @ x)
           = Some (s\<lparr>sshFxpSetstatPacket.Attrs := V_bytes (a @ x)\<rparr>, None)"
    using sshFxpSetstatPacket_body_trailing [of s T mfi rs x] by simp
next
  assume "representable (P_Fsetstat f)"
  then show "\<exists>bb a. sshFxpFsetstatPacket_MarshalBinary T mfi f = Some (bb, None) \<and>
         sshFxpFsetstatPacket.Attrs f = V_bytes a \<and>
         sshFxpFsetstatPacket_UnmarshalBinary rf (tl bb @ x)
           = Some (f\<lparr>sshFxpFsetstatPacket.Attrs := V_bytes (a @ x)\<rparr>, None)"
    using sshFxpFsetstatPacket_body_trailing [of f T mfi rf x] by simp
next
  assume "representable (P_Init i)"
  then have b: "sshFxInitPacket_UnmarshalBinary \<lparr>sshFxInitPacket.Version = 0, Extensions = []\<rparr>
      (tl (fst (sshFxInitPacket_MarshalBinary T i)) @ x)
    = sshFxInitPacket_UnmarshalBinary_loop i x"
    using sshFxInitPacket_body_trailing [of i T x] by simp
  show "\<exists>q e. sshFxInitPacket_UnmarshalBinary \<lparr>sshFxInitPacket.Version = 0, Extensions = []\<rparr>
                (tl (fst (sshFxInitPacket_MarshalBinary T i)) @ x) = Some (q, e) \<and>
             (e = None \<or> e = Some shortPacketError)"
    unfolding b by (rule sshFxInitPacket_UnmarshalBinary_loop_total)
  fix i'
  show "sshFxInitPacket_UnmarshalBinary \<lparr>sshFxInitPacket.Version = 0, Extensions = []\<rparr>
                (tl (fst (sshFxInitPacket_MarshalBinary T i)) @ x) = Some (i', None) \<longleftrightarrow>
            (\<exists>es. list_all (\<lambda>e. length (ExtensionPair.Name e) < 2 ^ 32 \<and>
                       length (ExtensionPair.Data e) < 2 ^ 32) es \<and>
                  x = Extensions_marshal [] es \<and>
                  i' = i\<lparr>sshFxInitPacket.Extensions := sshFxInitPacket.Extensions i @ es\<rparr>)"
    unfolding b by (rule sshFxInitPacket_UnmarshalBinary_loop_ok_iff)
  assume n: "\<not> (\<exists>es. list_all (\<lambda>e. length (ExtensionPair.Name e) < 2 ^ 32 \<and>
                    length (ExtensionPair.Data e) < 2 ^ 32) es \<and>
               x = Extensions_marshal [] es)"
  obtain q e where q: "sshFxInitPacket_UnmarshalBinary_loop i x = Some (q, e)"
    "e = None \<or> e = Some shortPacketError"
    using sshFxInitPacket_UnmarshalBinary_loop_total by blast
  with n have "e = Some shortPacketError"
    using sshFxInitPacket_UnmarshalBinary_loop_ok_iff [of i x q] by auto
  with q show "\<exists>q. sshFxInitPacket_UnmarshalBinary
      \<lparr>sshFxInitPacket.Version = 0, Extensions = []\<rparr>
      (tl (fst (sshFxInitPacket_MarshalBinary T i)) @ x) = Some (q, Some shortPacketError)"
    unfolding b by blast
qed

lemmas decode_defs =
  unmarshalUint32Safe_def unmarshalUint64Safe_def unmarshalStringSafe_def unmarshalUint32_def
  unmarshalUint64_def index_def slice_from_def slice_upto_def Let_def

theorem trailing_bytes_witness:
  "UnmarshalBinary (P_Open \<lparr>sshFxpOpenPacket.Id = 0, Path = [], Pflags = 0, Flags = 0\<rparr>)
       ([0, 0, 0, 7, 0, 0, 0, 1, 47, 0, 0, 0, 1, 0, 0, 0, 0] @ [0, 0, 0, 1, 110, 0, 0, 0, 1, 100])
     = Some (P_Open \<lparr>sshFxpOpenPacket.Id = 7, Path = [47], Pflags = 1, Flags = 0\<rparr>, None) \<and>
   sshFxpWritePacket_UnmarshalBinary
       \<lparr>sshFxpWritePacket.Id = 0, Handle = [], Offset = 0, Length = 0, Data = []\<rparr>
       ([0, 0, 0, 7, 0, 0, 0, 1, 47, 0, 0, 0, 0, 0, 0, 0, 0, 0, 0, 0, 1, 9]
          @ [0, 0, 0, 1, 110, 0, 0, 0, 1, 100])
     = Some (\<lparr>sshFxpWritePacket.Id = 7, Handle = [47], Offset = 0, Length = 1, Data = [9]\<rparr>, None) \<and>
   sshFxpDataPacket_UnmarshalBinary \<lparr>sshFxpDataPacket.Id = 0, Length = 0, Data = []\<rparr>
       ([0, 0, 0, 7, 0, 0, 0, 1, 47] @ [0, 0, 0, 1, 110, 0, 0, 0, 1, 100])
     = Some (\<lparr>sshFxpDataPacket.Id = 7, Length = 1, Data = [47]\<rparr>, None) \<and>
   sshFxpSetstatPacket_UnmarshalBinary
       \<lparr>sshFxpSetstatPacket.Id = 0, Path = [], Flags = 0, Attrs = V_nil\<rparr>
       ([0, 0, 0, 7, 0, 0, 0, 1, 47, 0, 0, 0, 1, 9] @ [0, 0, 0, 1, 110, 0, 0, 0, 1, 100])
     = Some (\<lparr>sshFxpSetstatPacket.Id = 7, Path = [47], Flags = 1,
               Attrs = V_bytes [9, 0, 0, 0, 1, 110, 0, 0, 0, 1, 100]\<rparr>, None) \<and>
   sshFxpFsetstatPacket_UnmarshalBinary
       \<lparr>sshFxpFsetstatPacket.Id = 0, Handle = [], Flags = 0, Attrs = V_nil\<rparr>
       ([0, 0, 0, 7, 0, 0, 0, 1, 47, 0, 0, 0, 1, 9] @ [0, 0, 0, 1, 110, 0, 0, 0, 1, 100])
     = Some (\<lparr>sshFxpFsetstatPacket.Id = 7, Handle = [47], Flags = 1,
               Attrs = V_bytes [9, 0, 0, 0, 1, 110, 0, 0, 0, 1, 100]\<rparr>, None) \<and>
   sshFxInitPacket_UnmarshalBinary \<lparr>sshFxInitPacket.Version = 0, Extensions = []\<rparr>
       ([0, 0, 0, 3] @ [0, 0, 0, 1, 110, 0, 0, 0, 1, 100])
     = Some (\<lparr>sshFxInitPacket.Version = 3,
               Extensions = [\<lparr>ExtensionPair.Name = [110], Data = [100]\<rparr>]\<rparr>, None) \<and>
   sshFxInitPacket_UnmarshalBinary \<lparr>sshFxInitPacket.Version = 0, Extensions = []\<rparr>
       ([0, 0, 0, 3] @ [255])
     = Some (\<lparr>sshFxInitPacket.Version = 3, Extensions = []\<rparr>, Some shortPacketError)"
proof -
  let ?x = "[0, 0, 0, 1, 110, 0, 0, 0, 1, 100] :: bytes"
  let ?mfi = "\<lambda>b fi. None :: bytes option"
  let ?p = "P_Open \<lparr>sshFxpOpenPacket.Id = 7, Path = [47], Pflags = 1, Flags = 0\<rparr>"
  let ?w = "\<lparr>sshFxpWritePacket.Id = 7, Handle = [47], Offset = 0, Length = 1, Data = [9]\<rparr>"
  let ?rw = "\<lparr>sshFxpWritePacket.Id = 0, Handle = [], Offset = 0, Length = 0, Data = []\<rparr>"
  let ?d = "\<lparr>sshFxpDataPacket.Id = 7, Length = 1, Data = [47]\<rparr>"
  let ?rd = "\<lparr>sshFxpDataPacket.Id = 0, Length = 0, Data = []\<rparr>"
  let ?s = "\<lparr>sshFxpSetstatPacket.Id = 7, Path = [47], Flags = 1, Attrs = V_bytes [9]\<rparr>"
  let ?rs = "\<lparr>sshFxpSetstatPacket.Id = 0, Path = [], Flags = 0, Attrs = V_nil\<rparr>"
  let ?f = "\<lparr>sshFxpFsetstatPacket.Id = 7, Handle = [47], Flags = 1, Attrs = V_bytes [9]\<rparr>"
  let ?rf = "\<lparr>sshFxpFsetstatPacket.Id = 0, Handle = [], Flags = 0, Attrs = V_nil\<rparr>"
  let ?i = "\<lparr>sshFxInitPacket.Version = 3, Extensions = []\<rparr>"
  let ?e = "\<lparr>ExtensionPair.Name = [110], Data = [100]\<rparr>"
  note th = trailing_bytes [where p = ?p and T = filexfer_tags and mfi = ?mfi and x = ?x
      and w = ?w and rw = ?rw and d = ?d and rd = ?rd and s = ?s and rs = ?rs
      and f = ?f and rf = ?rf and i = ?i]
  have r1: "representable ?p" "fixed_layout ?p" "\<not> declares_length ?p"
    by simp_all
  have r2: "representable (P_Write ?w)" "representable (P_Data ?d)"
    by simp_all
  have r3: "representable (P_Setstat ?s)" "representable (P_Fsetstat ?f)"
    by (simp_all add: V_bytes_def)
  have r4: "representable (P_Init ?i)"
    by simp
  note r = r1 r2 r3 r4
  have m: "MarshalBinary filexfer_tags ?mfi ?p
      = Some ([3, 0, 0, 0, 7, 0, 0, 0, 1, 47, 0, 0, 0, 1, 0, 0, 0, 0], None)"
    "fst (sshFxpWritePacket_MarshalBinary filexfer_tags ?w)
      = [6, 0, 0, 0, 7, 0, 0, 0, 1, 47, 0, 0, 0, 0, 0, 0, 0, 0, 0, 0, 0, 1, 9]"
    "sshFxpDataPacket_MarshalBinary filexfer_tags ?d = Some ([103, 0, 0, 0, 7, 0, 0, 0, 1, 47], None)"
    "sshFxpSetstatPacket_MarshalBinary filexfer_tags ?mfi ?s
      = Some ([9, 0, 0, 0, 7, 0, 0, 0, 1, 47, 0, 0, 0, 1, 9], None)"
    "sshFxpFsetstatPacket_MarshalBinary filexfer_tags ?mfi ?f
      = Some ([10, 0, 0, 0, 7, 0, 0, 0, 1, 47, 0, 0, 0, 1, 9], None)"
    "fst (sshFxInitPacket_MarshalBinary filexfer_tags ?i) = [1, 0, 0, 0, 3]"
    by (simp_all add: sshFxpOpenPacket_MarshalBinary_def sshFxpWritePacket_MarshalBinary_def
        sshFxpDataPacket_MarshalBinary_def sshFxpSetstatPacket_MarshalBinary_def
        sshFxpFsetstatPacket_MarshalBinary_def sshFxInitPacket_MarshalBinary_def
        filexfer_tags_def marshalUint32_def marshalUint64_def marshalString_def slice_upto_def)
  have n: "V_bytes [9] = V_bytes a \<longleftrightarrow> a = [9]" for a
    by (auto simp add: V_bytes_def inj_map_eq_map [OF injI])
  have x: "list_all (\<lambda>e. length (ExtensionPair.Name e) < 2 ^ 32 \<and>
      length (ExtensionPair.Data e) < 2 ^ 32) [?e]" "?x = Extensions_marshal [] [?e]"
    by (simp_all add: marshalString_def marshalUint32_def)
  from th r(8) x have "sshFxInitPacket_UnmarshalBinary \<lparr>sshFxInitPacket.Version = 0, Extensions = []\<rparr>
      (tl (fst (sshFxInitPacket_MarshalBinary filexfer_tags ?i)) @ ?x)
    = Some (?i\<lparr>sshFxInitPacket.Extensions := sshFxInitPacket.Extensions ?i @ [?e]\<rparr>, None)"
    by blast
  moreover have "\<not> (\<exists>es. list_all (\<lambda>e. length (ExtensionPair.Name e) < 2 ^ 32 \<and>
      length (ExtensionPair.Data e) < 2 ^ 32) es \<and> [255] = Extensions_marshal [] es)"
  proof
    assume "\<exists>es. list_all (\<lambda>e. length (ExtensionPair.Name e) < 2 ^ 32 \<and>
      length (ExtensionPair.Data e) < 2 ^ 32) es \<and> [255] = Extensions_marshal [] es"
    then obtain es where es: "[255] = Extensions_marshal [] es" by blast
    then have "es \<noteq> []" by auto
    from Extensions_marshal_length [OF this, of "[]"] es [symmetric] show False by simp
  qed
  with trailing_bytes [where T = filexfer_tags and x = "[255]" and i = ?i] r(8)
  have "\<exists>q. sshFxInitPacket_UnmarshalBinary \<lparr>sshFxInitPacket.Version = 0, Extensions = []\<rparr>
      (tl (fst (sshFxInitPacket_MarshalBinary filexfer_tags ?i)) @ [255])
    = Some (q, Some shortPacketError)"
    by blast
  moreover have "sshFxInitPacket_UnmarshalBinary \<lparr>sshFxInitPacket.Version = 0, Extensions = []\<rparr>
       ([0, 0, 0, 3] @ [255])
     = Some (\<lparr>sshFxInitPacket.Version = 3, Extensions = []\<rparr>, Some shortPacketError)"
    by (simp add: sshFxInitPacket_UnmarshalBinary_def sshFxInitPacket_UnmarshalBinary_loop.simps
        unmarshalExtensionPair_def decode_defs)
  ultimately show ?thesis
    using th r m by (auto simp add: n)
qed

text \<open>
  The claim as stated fails for INIT: one extra byte after the version makes the decode
  fail with \<^verbatim>\<open>shortPacketError\<close>. It fails for SETSTAT, where the extra byte ends up in
  \<^verbatim>\<open>Attrs\<close>, and for DATA when the extra bytes bring the rest of the buffer to \<open>2 ^ 32\<close>
  bytes, which the length guard reads as 0.
\<close>

theorem trailing_bytes_counterexample:
  "sshFxInitPacket_UnmarshalBinary \<lparr>sshFxInitPacket.Version = 0, Extensions = []\<rparr> [0, 0, 0, 3]
     = Some (\<lparr>sshFxInitPacket.Version = 3, Extensions = []\<rparr>, None) \<and>
   sshFxInitPacket_UnmarshalBinary \<lparr>sshFxInitPacket.Version = 0, Extensions = []\<rparr>
       ([0, 0, 0, 3] @ [255])
     = Some (\<lparr>sshFxInitPacket.Version = 3, Extensions = []\<rparr>, Some shortPacketError) \<and>
   sshFxpSetstatPacket_UnmarshalBinary
       \<lparr>sshFxpSetstatPacket.Id = 0, Path = [], Flags = 0, Attrs = V_nil\<rparr>
       [0, 0, 0, 7, 0, 0, 0, 0, 0, 0, 0, 1]
     = Some (\<lparr>sshFxpSetstatPacket.Id = 7, Path = [], Flags = 1, Attrs = V_slice []\<rparr>, None) \<and>
   sshFxpSetstatPacket_UnmarshalBinary
       \<lparr>sshFxpSetstatPacket.Id = 0, Path = [], Flags = 0, Attrs = V_nil\<rparr>
       ([0, 0, 0, 7, 0, 0, 0, 0, 0, 0, 0, 1] @ [255])
     = Some (\<lparr>sshFxpSetstatPacket.Id = 7, Path = [], Flags = 1, Attrs = V_slice [V_uint8 255]\<rparr>,
             None) \<and>
   sshFxpDataPacket_UnmarshalBinary \<lparr>sshFxpDataPacket.Id = 0, Length = 0, Data = []\<rparr>
       [0, 0, 0, 7, 0, 0, 0, 1, 47]
     = Some (\<lparr>sshFxpDataPacket.Id = 7, Length = 1, Data = [47]\<rparr>, None) \<and>
   sshFxpDataPacket_UnmarshalBinary \<lparr>sshFxpDataPacket.Id = 0, Length = 0, Data = []\<rparr>
       ([0, 0, 0, 7, 0, 0, 0, 1, 47] @ replicate (2 ^ 32 - 1) 0)
     = Some (\<lparr>sshFxpDataPacket.Id = 7, Length = 1, Data = []\<rparr>,
             Some (Errorf ''truncated packet''))"
proof (intro conjI)
  have e: "[0, 0, 0, 7, 0, 0, 0, 1, 47] @ replicate (2 ^ 32 - 1) 0
      = marshalUint32 [] 7 @ marshalUint32 [] 1 @ 47 # replicate (2 ^ 32 - 1) 0"
    by (simp add: marshalUint32_def)
  show "sshFxpDataPacket_UnmarshalBinary \<lparr>sshFxpDataPacket.Id = 0, Length = 0, Data = []\<rparr>
       ([0, 0, 0, 7, 0, 0, 0, 1, 47] @ replicate (2 ^ 32 - 1) 0)
     = Some (\<lparr>sshFxpDataPacket.Id = 7, Length = 1, Data = []\<rparr>,
             Some (Errorf ''truncated packet''))"
    by (simp only: e) (simp add: sshFxpDataPacket_UnmarshalBinary_def)
qed (simp_all add: sshFxInitPacket_UnmarshalBinary_def sshFxpSetstatPacket_UnmarshalBinary_def
    sshFxpDataPacket_UnmarshalBinary_def sshFxInitPacket_UnmarshalBinary_loop.simps
    unmarshalExtensionPair_def V_bytes_def copy_def make_bytes_def decode_defs)

end
